theory Spec2Isabelle
  imports Main
begin

section \<open>Go values: errors, panics, maps\<close>

text \<open>
  A Go \<^verbatim>\<open>error\<close> is a value. The API server's status errors are told apart by their reason
  (\<open>NotFound\<close>, \<open>AlreadyExists\<close>, \<open>BadRequest\<close>, \<open>Conflict\<close>); every other failure carries its
  message. \<open>Wrapped msg e\<close> is what both \<^verbatim>\<open>errors.Wrapf(e, msg)\<close> and
  \<^verbatim>\<open>fmt.Errorf(msg + ": %w", e)\<close> build: a new error value that holds \<open>e\<close> as its cause.
  A function returning \<^verbatim>\<open>error\<close> returns \<open>error option\<close>; \<open>None\<close> is \<^verbatim>\<open>nil\<close>.
\<close>

datatype error =
    NotFound
  | AlreadyExists
  | BadRequest
  | Conflict
  | Failure string
  | Wrapped string error

text \<open>\<^verbatim>\<open>apierrors.IsNotFound\<close>: the reason of the status error, looked up through wrappers.\<close>

fun IsNotFound :: "error \<Rightarrow> bool" where
  "IsNotFound NotFound = True"
| "IsNotFound (Wrapped msg e) = IsNotFound e"
| "IsNotFound e = False"

text \<open>\<^verbatim>\<open>err.Error()\<close>: the message, a wrapper's prefix first.\<close>

fun ErrorString :: "error \<Rightarrow> string" where
  "ErrorString NotFound = ''not found''"
| "ErrorString AlreadyExists = ''already exists''"
| "ErrorString BadRequest = ''bad request''"
| "ErrorString Conflict = ''conflict''"
| "ErrorString (Failure msg) = msg"
| "ErrorString (Wrapped msg e) = msg @ '': '' @ ErrorString e"

text \<open>\<^verbatim>\<open>errors.Cause\<close>: the innermost error of a chain of wrappers.\<close>

fun Cause :: "error \<Rightarrow> error" where
  "Cause (Wrapped msg e) = Cause e"
| "Cause e = e"

text \<open>A run-time panic ends the call; a function that can panic returns \<open>panic + 'a\<close>.\<close>

datatype panic = NilPointerDereference | IndexOutOfRange | NilMapAssignment

text \<open>
  A Go \<^verbatim>\<open>map[string]string\<close> field: \<open>None\<close> is the nil map, which reads as empty, differs from
  an empty map under \<^verbatim>\<open>reflect.DeepEqual\<close>, and panics on assignment.
\<close>

type_synonym stringMap = "(string \<rightharpoonup> string) option"

definition mapAssign :: "stringMap \<Rightarrow> string \<Rightarrow> string \<Rightarrow> panic + stringMap" where
  "mapAssign m k v = (case m of None \<Rightarrow> Inl NilMapAssignment | Some f \<Rightarrow> Inr (Some (f(k \<mapsto> v))))"

section \<open>Kubernetes objects\<close>

record ownerReference =
  ref_Kind :: string
  ref_Name :: string
  ref_UID :: string
  ref_Controller :: bool

record objectMeta =
  Name :: string
  Namespace :: string
  Labels :: stringMap
  Annotations :: stringMap
  OwnerReferences :: "ownerReference list"
  ResourceVersion :: string

datatype intOrString = FromInt int | FromString string

record servicePort =
  sp_Name :: string
  sp_Port :: int
  sp_Protocol :: string
  sp_TargetPort :: intOrString

record serviceSpec =
  ss_Selector :: stringMap
  ss_Ports :: "servicePort list"
  ss_PublishNotReadyAddresses :: bool

record service =
  svc_Meta :: objectMeta
  svc_Spec :: serviceSpec

record endpoint =
  ep_Port :: string

record serviceMonitorSpec =
  sms_MatchLabels :: stringMap
  sms_Endpoints :: "endpoint list"

record serviceMonitor =
  sm_Meta :: objectMeta
  sm_Spec :: serviceMonitorSpec

record serviceAccount =
  sa_Meta :: objectMeta

record secret =
  sec_Meta :: objectMeta
  sec_Type :: string
  sec_Data :: "(string \<times> string) list"

record envVar =
  ev_Name :: string
  ev_Value :: string

record resourceRequirements =
  rr_Limits :: stringMap
  rr_Requests :: stringMap

record probe =
  pr_FailureThreshold :: int
  pr_HTTPGetPath :: string
  pr_HTTPGetPort :: intOrString
  pr_InitialDelaySeconds :: int
  pr_PeriodSeconds :: int
  pr_SuccessThreshold :: int
  pr_TimeoutSeconds :: int

record containerPort =
  cp_ContainerPort :: int
  cp_Name :: string

record securityContext =
  sc_CapabilitiesDrop :: "string list option"
  sc_AllowPrivilegeEscalation :: "bool option"
  sc_ReadOnlyRootFilesystem :: "bool option"
  sc_RunAsNonRoot :: "bool option"

record container =
  c_Command :: "string list"
  c_Env :: "envVar list"
  c_Image :: string
  c_ImagePullPolicy :: string
  c_LivenessProbe :: "probe option"
  c_Name :: string
  c_Resources :: resourceRequirements
  c_Ports :: "containerPort list"
  c_ReadinessProbe :: "probe option"
  c_SecurityContext :: "securityContext option"

record podSecurityContext =
  psc_RunAsNonRoot :: "bool option"
  psc_SeccompProfileType :: "string option"

record toleration =
  tol_Key :: string
  tol_Operator :: string
  tol_Value :: string
  tol_Effect :: string

record podSpec =
  ps_Containers :: "container list"
  ps_ServiceAccountName :: string
  ps_NodeSelector :: stringMap
  ps_Tolerations :: "toleration list"
  ps_SecurityContext :: "podSecurityContext option"

record podTemplateSpec =
  tmpl_Labels :: stringMap
  tmpl_Spec :: podSpec

record deploymentSpec =
  ds_Selector :: "stringMap option"
  ds_Template :: podTemplateSpec

record deployment =
  dep_Meta :: objectMeta
  dep_Spec :: deploymentSpec

section \<open>The Instance: the ArgoCD custom resource\<close>

record rolloutsSpec =
  ro_Env :: "envVar list"
  ro_ExtraCommandArgs :: "string list"
  ro_Image :: string
  ro_Version :: string

record applicationSetSpec =
  as_Resources :: "resourceRequirements option"

record dexSpec =
  dex_Config :: string

record keycloakSpec =
  kc_Image :: string
  kc_Version :: string

record ssoSpec =
  sso_Provider :: string
  sso_Dex :: "dexSpec option"
  sso_Keycloak :: "keycloakSpec option"

record argoCDSpec =
  Rollouts :: "rolloutsSpec option"
  ApplicationSet :: "applicationSetSpec option"
  NotificationsEnabled :: bool
  SSO :: "ssoSpec option"
  RedisAutoTLS :: string

record argoCD =
  cr_Name :: string
  cr_Namespace :: string
  cr_UID :: string
  cr_DeletionTimestamp :: "string option"
  cr_Finalizers :: "string list"
  cr_Spec :: argoCDSpec

section \<open>The cluster and its API client\<close>

text \<open>
  The cluster holds the managed objects by kind and (namespace, name). The API is an
  external collaborator that can fail at any call: \<open>apiFaults c n\<close> is the failure, if
  any, of the \<open>n\<close>-th call, and \<open>apiCalls\<close> counts the calls made. \<open>writes\<close> lists the
  write requests issued (whether or not they succeeded), \<open>logged\<close> what the loggers
  printed.
\<close>

datatype kind = KService | KServiceMonitor | KServiceAccount | KSecret | KDeployment

datatype verb = VCreate | VUpdate | VDelete

datatype logEntry = Info string | Debug string | ErrorLog error string

record cluster =
  services :: "string \<times> string \<Rightarrow> service option"
  serviceMonitors :: "string \<times> string \<Rightarrow> serviceMonitor option"
  serviceAccounts :: "string \<times> string \<Rightarrow> serviceAccount option"
  secrets :: "string \<times> string \<Rightarrow> secret option"
  deployments :: "string \<times> string \<Rightarrow> deployment option"
  apiFaults :: "nat \<Rightarrow> error option"
  apiCalls :: nat
  writes :: "(verb \<times> kind \<times> string \<times> string) list"
  logged :: "logEntry list"

text \<open>
  The client is generic in the object's type; \<open>'a resource\<close> is what the type tells it:
  the kind, where such objects are stored, and where an object keeps its metadata.
\<close>

record 'a resource =
  res_kind :: kind
  res_store :: "cluster \<Rightarrow> (string \<times> string \<Rightarrow> 'a option)"
  res_put :: "(string \<times> string \<Rightarrow> 'a option) \<Rightarrow> cluster \<Rightarrow> cluster"
  res_meta :: "'a \<Rightarrow> objectMeta"
  res_setMeta :: "objectMeta \<Rightarrow> 'a \<Rightarrow> 'a"

definition serviceR :: "service resource" where
  "serviceR = \<lparr>res_kind = KService, res_store = services,
     res_put = (\<lambda>m c. c\<lparr>services := m\<rparr>), res_meta = svc_Meta,
     res_setMeta = (\<lambda>m x. x\<lparr>svc_Meta := m\<rparr>)\<rparr>"

definition serviceMonitorR :: "serviceMonitor resource" where
  "serviceMonitorR = \<lparr>res_kind = KServiceMonitor, res_store = serviceMonitors,
     res_put = (\<lambda>m c. c\<lparr>serviceMonitors := m\<rparr>), res_meta = sm_Meta,
     res_setMeta = (\<lambda>m x. x\<lparr>sm_Meta := m\<rparr>)\<rparr>"

definition serviceAccountR :: "serviceAccount resource" where
  "serviceAccountR = \<lparr>res_kind = KServiceAccount, res_store = serviceAccounts,
     res_put = (\<lambda>m c. c\<lparr>serviceAccounts := m\<rparr>), res_meta = sa_Meta,
     res_setMeta = (\<lambda>m x. x\<lparr>sa_Meta := m\<rparr>)\<rparr>"

definition secretR :: "secret resource" where
  "secretR = \<lparr>res_kind = KSecret, res_store = secrets,
     res_put = (\<lambda>m c. c\<lparr>secrets := m\<rparr>), res_meta = sec_Meta,
     res_setMeta = (\<lambda>m x. x\<lparr>sec_Meta := m\<rparr>)\<rparr>"

definition deploymentR :: "deployment resource" where
  "deploymentR = \<lparr>res_kind = KDeployment, res_store = deployments,
     res_put = (\<lambda>m c. c\<lparr>deployments := m\<rparr>), res_meta = dep_Meta,
     res_setMeta = (\<lambda>m x. x\<lparr>dep_Meta := m\<rparr>)\<rparr>"

text \<open>One call to the API: its injected failure, if any, and the call counted.\<close>

definition apiCall :: "cluster \<Rightarrow> error option \<times> cluster" where
  "apiCall c = (apiFaults c (apiCalls c), c\<lparr>apiCalls := Suc (apiCalls c)\<rparr>)"

text \<open>\<^verbatim>\<open>Client.Get\<close>: the stored object, or \<open>NotFound\<close>.\<close>

definition clientGet :: "'a resource \<Rightarrow> string \<Rightarrow> string \<Rightarrow> cluster \<Rightarrow> (error + 'a) \<times> cluster" where
  "clientGet r ns n c =
     (case apiCall c of
        (Some e, c') \<Rightarrow> (Inl e, c')
      | (None, c') \<Rightarrow>
          (case res_store r c' (ns, n) of
             None \<Rightarrow> (Inl NotFound, c')
           | Some x \<Rightarrow> (Inr x, c')))"

text \<open>
  \<^verbatim>\<open>Client.Create\<close>: refused when the object carries a resource version or already exists;
  the server assigns the resource version, and the caller's object is filled in with it.
\<close>

definition clientCreate :: "'a resource \<Rightarrow> 'a \<Rightarrow> cluster \<Rightarrow> error option \<times> 'a \<times> cluster" where
  "clientCreate r x c =
     (let m = res_meta r x; k = (Namespace m, Name m)
      in case apiCall (c\<lparr>writes := writes c @ [(VCreate, res_kind r, k)]\<rparr>) of
           (Some e, c') \<Rightarrow> (Some e, x, c')
         | (None, c') \<Rightarrow>
             if ResourceVersion m \<noteq> '''' then (Some BadRequest, x, c')
             else if res_store r c' k \<noteq> None then (Some AlreadyExists, x, c')
             else (let x' = res_setMeta r (m\<lparr>ResourceVersion := ''1''\<rparr>) x
                   in (None, x', res_put r ((res_store r c')(k \<mapsto> x')) c')))"

text \<open>
  \<^verbatim>\<open>Client.Update\<close>: replaces the stored object; \<open>NotFound\<close> when there is none, \<open>Conflict\<close>
  when the resource version is not the stored one.
\<close>

definition clientUpdate :: "'a resource \<Rightarrow> 'a \<Rightarrow> cluster \<Rightarrow> error option \<times> cluster" where
  "clientUpdate r x c =
     (let m = res_meta r x; k = (Namespace m, Name m)
      in case apiCall (c\<lparr>writes := writes c @ [(VUpdate, res_kind r, k)]\<rparr>) of
           (Some e, c') \<Rightarrow> (Some e, c')
         | (None, c') \<Rightarrow>
             (case res_store r c' k of
                None \<Rightarrow> (Some NotFound, c')
              | Some old \<Rightarrow>
                  if ResourceVersion m \<noteq> ResourceVersion (res_meta r old) then (Some Conflict, c')
                  else (None, res_put r ((res_store r c')(k \<mapsto> x)) c')))"

text \<open>\<^verbatim>\<open>Client.Delete\<close>: removes the stored object; \<open>NotFound\<close> when there is none.\<close>

definition clientDelete :: "'a resource \<Rightarrow> 'a \<Rightarrow> cluster \<Rightarrow> error option \<times> cluster" where
  "clientDelete r x c =
     (let m = res_meta r x; k = (Namespace m, Name m)
      in case apiCall (c\<lparr>writes := writes c @ [(VDelete, res_kind r, k)]\<rparr>) of
           (Some e, c') \<Rightarrow> (Some e, c')
         | (None, c') \<Rightarrow>
             (case res_store r c' k of
                None \<Rightarrow> (Some NotFound, c')
              | Some old \<Rightarrow> (None, res_put r ((res_store r c')(k := None)) c')))"

text \<open>
  Modelled from the spec: package \<^verbatim>\<open>argoutil\<close> (\<^verbatim>\<open>FetchObject\<close>, \<^verbatim>\<open>IsObjectFound\<close>) is not
  in the sources at hand. \<^verbatim>\<open>FetchObject\<close> is the client's \<^verbatim>\<open>Get\<close> by (kind, namespace,
  name) into the given object, which is overwritten when the object is found.
  \<^verbatim>\<open>IsObjectFound\<close> is that fetch, answering whether its result is anything but not-found:
  only not-found leads a caller to the create, so a \<^verbatim>\<open>Get\<close> that fails with another error
  counts as found.
\<close>

definition FetchObject :: "'a resource \<Rightarrow> string \<Rightarrow> string \<Rightarrow> 'a \<Rightarrow> cluster \<Rightarrow> error option \<times> 'a \<times> cluster" where
  "FetchObject r ns n x c =
     (case clientGet r ns n c of
        (Inl e, c') \<Rightarrow> (Some e, x, c')
      | (Inr y, c') \<Rightarrow> (None, y, c'))"

definition IsObjectFound :: "'a resource \<Rightarrow> string \<Rightarrow> string \<Rightarrow> 'a \<Rightarrow> cluster \<Rightarrow> bool \<times> 'a \<times> cluster" where
  "IsObjectFound r ns n x c =
     (case FetchObject r ns n x c of
        (None, y, c') \<Rightarrow> (True, y, c')
      | (Some err, y, c') \<Rightarrow> (\<not> IsNotFound err, y, c'))"

definition logInfo :: "string \<Rightarrow> cluster \<Rightarrow> cluster" where
  "logInfo msg c = c\<lparr>logged := logged c @ [Info msg]\<rparr>"

definition logDebug :: "string \<Rightarrow> cluster \<Rightarrow> cluster" where
  "logDebug msg c = c\<lparr>logged := logged c @ [Debug msg]\<rparr>"

definition logError :: "error \<Rightarrow> string \<Rightarrow> cluster \<Rightarrow> cluster" where
  "logError e msg c = c\<lparr>logged := logged c @ [ErrorLog e msg]\<rparr>"

subsection \<open>Owner references\<close>

text \<open>
  \<^verbatim>\<open>controllerutil.SetControllerReference(owner, obj, scheme)\<close>, for the Instance as owner:
  it fails when the object is in another namespace than its owner, when the scheme does not
  know the owner's kind, or when the object already has another controller; otherwise the
  Instance becomes the object's controller. A scheme is the list of the kinds registered.
\<close>

type_synonym scheme = "string list"

definition controllerRef :: "argoCD \<Rightarrow> ownerReference" where
  "controllerRef owner =
     \<lparr>ref_Kind = ''ArgoCD'', ref_Name = cr_Name owner, ref_UID = cr_UID owner, ref_Controller = True\<rparr>"

definition referSameObject :: "ownerReference \<Rightarrow> ownerReference \<Rightarrow> bool" where
  "referSameObject a b = (ref_Kind a = ref_Kind b \<and> ref_Name a = ref_Name b)"

fun upsertOwnerRef :: "ownerReference \<Rightarrow> ownerReference list \<Rightarrow> ownerReference list" where
  "upsertOwnerRef ref [] = [ref]"
| "upsertOwnerRef ref (r # rs) =
     (if referSameObject r ref then ref # rs else r # upsertOwnerRef ref rs)"

definition SetControllerReference :: "argoCD \<Rightarrow> objectMeta \<Rightarrow> scheme \<Rightarrow> error + objectMeta" where
  "SetControllerReference owner m sch =
     (if cr_Namespace owner \<noteq> '''' \<and> Namespace m \<noteq> cr_Namespace owner
      then Inl (Failure ''cross-namespace owner references are disallowed'')
      else if ''ArgoCD'' \<notin> set sch
      then Inl (Failure ''no kind is registered for the type ArgoCD'')
      else if list_ex (\<lambda>r. ref_Controller r \<and> \<not> referSameObject r (controllerRef owner)) (OwnerReferences m)
      then Inl (Failure ''object is already owned by another controller'')
      else Inr (m\<lparr>OwnerReferences := upsertOwnerRef (controllerRef owner) (OwnerReferences m)\<rparr>))"

subsection \<open>Dynamic values and \<^verbatim>\<open>reflect.DeepEqual\<close>\<close>

text \<open>
  \<^verbatim>\<open>reflect.DeepEqual\<close> takes two \<^verbatim>\<open>interface{}\<close> values: each carries its dynamic type, and
  values of different types are never deeply equal. \<open>dyn\<close> is a value with its type; for
  equal types deep equality is equality of the contents. (Slices are lists here: a nil
  slice and an empty one are not told apart.)
\<close>

datatype dyn =
    DContainer container
  | DContainers "container list"
  | DString string
  | DStringMap stringMap
  | DLabelSelector "stringMap option"
  | DTolerations "toleration list"
  | DPodSecurityContext "podSecurityContext option"
  | DObjectMeta objectMeta
  | DServiceSpec serviceSpec

definition DeepEqual :: "dyn \<Rightarrow> dyn \<Rightarrow> bool" where
  "DeepEqual x y = (x = y)"

section \<open>hooks.go: the hook registry\<close>

text \<open>
  A hook gets the Instance, the candidate object and a hint; it may change the object
  (it is handed a pointer) and may return an error. The candidate is an \<^verbatim>\<open>interface{}\<close>
  that the registry never inspects: its type is the parameter \<open>'a\<close>. The registry is the
  package variable \<^verbatim>\<open>hooks\<close>, a slice; the mutex that guards it has no sequential meaning.
\<close>

type_synonym 'a Hook = "argoCD \<Rightarrow> 'a \<Rightarrow> string \<Rightarrow> error option \<times> 'a"


fun applyReconcilerHook :: "'a Hook list \<Rightarrow> argoCD \<Rightarrow> 'a \<Rightarrow> string \<Rightarrow> error option \<times> 'a" where
  "applyReconcilerHook [] cr i hint = (None, i)"
| "applyReconcilerHook (v # hooks) cr i hint =
     (case v cr i hint of
        (Some err, i') \<Rightarrow> (Some err, i')
      | (None, i') \<Rightarrow> applyReconcilerHook hooks cr i' hint)"

section \<open>hooks.go: the repo server's ServiceMonitor\<close>

text \<open>
  A request names the object to build and the mutations to run on it.
  \<^verbatim>\<open>monitoring.RequestServiceMonitor\<close>, \<^verbatim>\<open>mutation.ApplyReconcilerMutation\<close>,
  \<^verbatim>\<open>argoutil.GetObjMeta\<close>, \<^verbatim>\<open>argocdcommon.GetSvcMonitorLabel\<close>, \<^verbatim>\<open>util.EmptyMap\<close> and the
  package's names are not in the sources at hand: they are parameters of the reconciler.
  \<^verbatim>\<open>RequestServiceMonitor\<close> returns the object together with the error.
\<close>

type_synonym mutateFunc = "serviceMonitor \<Rightarrow> error option \<times> serviceMonitor"

record serviceMonitorRequest =
  smr_ObjectMeta :: objectMeta
  smr_Spec :: serviceMonitorSpec
  smr_Mutations :: "mutateFunc list"

record repoServerReconciler =
  rsr_Instance :: argoCD
  rsr_Scheme :: scheme
  rsr_metricsResourceName :: string
  rsr_resourceName :: string
  rsr_component :: string
  rsr_AppK8sKeyName :: string
  rsr_GetObjMeta ::
    "string \<Rightarrow> string \<Rightarrow> string \<Rightarrow> string \<Rightarrow> string \<Rightarrow> stringMap \<Rightarrow> stringMap \<Rightarrow> objectMeta"
  rsr_GetSvcMonitorLabel :: stringMap
  rsr_EmptyMap :: stringMap
  rsr_RequestServiceMonitor :: "serviceMonitorRequest \<Rightarrow> serviceMonitor \<times> error option"
  rsr_ApplyReconcilerMutation :: mutateFunc

text \<open>\<^verbatim>\<open>common.ArgoCDMetrics\<close>, as package \<^verbatim>\<open>common\<close> declares it.\<close>

definition ArgoCDMetrics :: string where
  "ArgoCDMetrics = ''metrics''"

text \<open>
  A field to compare is a pair of pointers, \<^verbatim>\<open>&existing.F\<close> and \<^verbatim>\<open>&desired.F\<close>, into the two
  objects: what can be done through them is to compare the two fields and to assign the
  desired one to the existing one.
\<close>

record 'o fieldToCompare =
  ftc_differ :: "'o \<Rightarrow> 'o \<Rightarrow> bool"
  ftc_assign :: "'o \<Rightarrow> 'o \<Rightarrow> 'o"

definition fieldPtr :: "('o \<Rightarrow> 'v) \<Rightarrow> ('v \<Rightarrow> 'o \<Rightarrow> 'o) \<Rightarrow> 'o fieldToCompare" where
  "fieldPtr get put =
     \<lparr>ftc_differ = (\<lambda>existing desired. get existing \<noteq> get desired),
      ftc_assign = (\<lambda>existing desired. put (get desired) existing)\<rparr>"

text \<open>
  Modelled from the spec: \<^verbatim>\<open>argocdcommon.UpdateIfChanged(fieldsToCompare, changed)\<close> is not in
  the sources at hand. Section 4.2: ``compute a declared subset of fields to compare; if any
  differ, copy only desired values for those fields into existing''; \<^verbatim>\<open>changed\<close> is set when a
  field was copied.
\<close>

fun UpdateIfChanged :: "'o fieldToCompare list \<Rightarrow> 'o \<Rightarrow> 'o \<Rightarrow> bool \<Rightarrow> 'o \<times> bool" where
  "UpdateIfChanged [] existing desired changed = (existing, changed)"
| "UpdateIfChanged (f # fs) existing desired changed =
     (if ftc_differ f existing desired
      then UpdateIfChanged fs (ftc_assign f existing desired) desired True
      else UpdateIfChanged fs existing desired changed)"

text \<open>
  The \<^verbatim>\<open>updateFn\<close> argument is an \<^verbatim>\<open>interface{}\<close>: nil, a function of type
  \<^verbatim>\<open>argocdcommon.UpdateFnSM\<close>, or a value of another type, which the type assertion skips.
\<close>

type_synonym updateFnSM =
  "serviceMonitor \<Rightarrow> serviceMonitor \<Rightarrow> bool \<Rightarrow> error option \<times> serviceMonitor \<times> bool"

datatype updateFnArg = NilFn | UpdateFnSM updateFnSM | OtherFn

definition GetServiceMonitor :: "string \<Rightarrow> string \<Rightarrow> cluster \<Rightarrow> (error + serviceMonitor) \<times> cluster" where
  "GetServiceMonitor n ns c = clientGet serviceMonitorR ns n c"

definition CreateServiceMonitor :: "serviceMonitor \<Rightarrow> cluster \<Rightarrow> error option \<times> cluster" where
  "CreateServiceMonitor sm c = (case clientCreate serviceMonitorR sm c of (e, sm', c') \<Rightarrow> (e, c'))"

definition UpdateServiceMonitor :: "serviceMonitor \<Rightarrow> cluster \<Rightarrow> error option \<times> cluster" where
  "UpdateServiceMonitor sm c = clientUpdate serviceMonitorR sm c"

definition smIn :: "string \<Rightarrow> string \<Rightarrow> string" where
  "smIn n ns = n @ '' in namespace '' @ ns"

text \<open>
  The owner reference is set on the desired object; a failure is logged and the call goes
  on with the object as it was.
\<close>

definition setOwnerOrLogSM :: "repoServerReconciler \<Rightarrow> serviceMonitor \<Rightarrow> cluster \<Rightarrow> serviceMonitor \<times> cluster" where
  "setOwnerOrLogSM rsr desired c =
     (case SetControllerReference (rsr_Instance rsr) (sm_Meta desired) (rsr_Scheme rsr) of
        Inl err \<Rightarrow>
          (desired,
           logError err ''reconcileServiceMonitor: failed to set owner reference for ServiceMonitor'' c)
      | Inr m \<Rightarrow> (desired\<lparr>sm_Meta := m\<rparr>, c))"

definition reconServiceMonitor ::
  "repoServerReconciler \<Rightarrow> serviceMonitorRequest \<Rightarrow> updateFnArg \<Rightarrow> bool \<Rightarrow> cluster \<Rightarrow> error option \<times> cluster" where
  "reconServiceMonitor rsr req updateFn ignoreDrift c =
     (case rsr_RequestServiceMonitor rsr req of
        (desired0, Some err) \<Rightarrow>
          (Some (Wrapped (''reconcileServiceMonitor: failed to request ServiceMonitor ''
                          @ smIn (Name (sm_Meta desired0)) (Namespace (sm_Meta desired0))) err),
           logDebug ''reconcileServiceMonitor: one or more mutations could not be applied'' c)
      | (desired0, None) \<Rightarrow>
          (let (desired, c0) = setOwnerOrLogSM rsr desired0 c;
               n = Name (sm_Meta desired); ns = Namespace (sm_Meta desired)
           in case GetServiceMonitor n ns c0 of
                (Inl err, c1) \<Rightarrow>
                  if \<not> IsNotFound err
                  then (Some (Wrapped (''reconcileServiceMonitor: failed to retrieve ServiceMonitor ''
                                       @ smIn n ns) err), c1)
                  else
                    (case CreateServiceMonitor desired c1 of
                       (Some err', c2) \<Rightarrow>
                         (Some (Wrapped (''reconcileServiceMonitor: failed to create ServiceMonitor ''
                                         @ smIn n ns) err'), c2)
                     | (None, c2) \<Rightarrow> (None, logInfo ''ServiceMonitor created'' c2))
              | (Inr existing, c1) \<Rightarrow>
                  if ignoreDrift then (None, c1)
                  else
                    (case (case updateFn of
                             UpdateFnSM fn \<Rightarrow> fn existing desired False
                           | NilFn \<Rightarrow> (None, existing, False)
                           | OtherFn \<Rightarrow> (None, existing, False)) of
                       (Some err, existing1, changed) \<Rightarrow>
                         (Some (Wrapped (''reconcileServiceMonitor: failed to execute update function for ''
                                         @ smIn (Name (sm_Meta existing1)) (Namespace (sm_Meta existing1))) err),
                          c1)
                     | (None, existing1, changed) \<Rightarrow>
                         if \<not> changed then (None, c1)
                         else
                           (case UpdateServiceMonitor existing1 c1 of
                              (Some err, c2) \<Rightarrow>
                                (Some (Wrapped (''reconcileServiceMonitor: failed to update ServiceMonitor ''
                                                @ Name (sm_Meta existing1)) err), c2)
                            | (None, c2) \<Rightarrow> (None, logInfo ''ServiceMonitor updated'' c2)))))"

text \<open>
  \<^verbatim>\<open>reconcileMetriscServiceMonitor\<close>: the request, and an update function that compares the
  labels and the spec through pointers into the two objects.
\<close>

definition metricsUpdateFn :: updateFnSM where
  "metricsUpdateFn existing desired changed =
     (let fieldsToCompare =
            [fieldPtr (\<lambda>sm. Labels (sm_Meta sm)) (\<lambda>l sm. sm\<lparr>sm_Meta := (sm_Meta sm)\<lparr>Labels := l\<rparr>\<rparr>),
             fieldPtr sm_Spec (\<lambda>s sm. sm\<lparr>sm_Spec := s\<rparr>)]
      in case UpdateIfChanged fieldsToCompare existing desired changed of
           (existing', changed') \<Rightarrow> (None, existing', changed'))"

definition metricsServiceMonitorRequest :: "repoServerReconciler \<Rightarrow> serviceMonitorRequest" where
  "metricsServiceMonitorRequest rsr =
     \<lparr>smr_ObjectMeta =
        rsr_GetObjMeta rsr (rsr_metricsResourceName rsr) (cr_Namespace (rsr_Instance rsr))
          (cr_Name (rsr_Instance rsr)) (cr_Namespace (rsr_Instance rsr)) (rsr_component rsr)
          (rsr_GetSvcMonitorLabel rsr) (rsr_EmptyMap rsr),
      smr_Spec =
        \<lparr>sms_MatchLabels = Some [rsr_AppK8sKeyName rsr \<mapsto> rsr_resourceName rsr],
         sms_Endpoints = [\<lparr>ep_Port = ArgoCDMetrics\<rparr>]\<rparr>,
      smr_Mutations = [rsr_ApplyReconcilerMutation rsr]\<rparr>"

definition reconcileMetriscServiceMonitor :: "repoServerReconciler \<Rightarrow> cluster \<Rightarrow> error option \<times> cluster" where
  "reconcileMetriscServiceMonitor rsr c =
     reconServiceMonitor rsr (metricsServiceMonitorRequest rsr) (UpdateFnSM metricsUpdateFn) False c"

text \<open>
  Modelled from the spec: \<^verbatim>\<open>monitoring.RequestServiceMonitor\<close> and
  \<^verbatim>\<open>mutation.ApplyReconcilerMutation\<close> are not in the sources at hand. Section 4.2: ``Pass
  desired through the Hook Registry; any hook error aborts this call''. The request builds
  the object from its metadata and spec and runs its mutations in order, stopping at the
  first error; the reconciler mutation runs the registered hooks.
\<close>

fun runMutations :: "mutateFunc list \<Rightarrow> serviceMonitor \<Rightarrow> serviceMonitor \<times> error option" where
  "runMutations [] sm = (sm, None)"
| "runMutations (f # fs) sm =
     (case f sm of
        (Some err, sm') \<Rightarrow> (sm', Some err)
      | (None, sm') \<Rightarrow> runMutations fs sm')"

definition RequestServiceMonitor :: "serviceMonitorRequest \<Rightarrow> serviceMonitor \<times> error option" where
  "RequestServiceMonitor req =
     runMutations (smr_Mutations req) \<lparr>sm_Meta = smr_ObjectMeta req, sm_Spec = smr_Spec req\<rparr>"

definition ApplyReconcilerMutation :: "serviceMonitor Hook list \<Rightarrow> argoCD \<Rightarrow> string \<Rightarrow> mutateFunc" where
  "ApplyReconcilerMutation hooks cr hint sm = applyReconcilerHook hooks cr sm hint"

section \<open>hooks.go: the Redis services\<close>

text \<open>
  \<^verbatim>\<open>networking.RequestService\<close>, \<^verbatim>\<open>openshift.AddAutoTLSAnnotation\<close>, \<^verbatim>\<open>argoutil.GetObjMeta\<close>,
  \<^verbatim>\<open>WantsAutoTLS\<close>, the package's resource names and the constants of \<^verbatim>\<open>common\<close> are not in
  the sources at hand: they are parameters of the reconciler.
\<close>

record serviceRequest =
  sr_ObjectMeta :: objectMeta
  sr_Spec :: serviceSpec

record redisReconciler =
  rr_Instance :: argoCD
  rr_Scheme :: scheme
  rr_IsOpenShiftEnv :: bool
  rr_resourceName :: string
  rr_HAResourceName :: string
  rr_component :: string
  rr_AppK8sKeyName :: string
  rr_DefaultRedisPort :: int
  rr_DefaultRedisSentinelPort :: int
  rr_ArgoCDRedisServerTLSSecretName :: string
  rr_GetObjMeta :: "string \<Rightarrow> string \<Rightarrow> string \<Rightarrow> string \<Rightarrow> string \<Rightarrow> objectMeta"
  rr_WantsAutoTLS :: "argoCD \<Rightarrow> bool"
  rr_AddAutoTLSAnnotation :: "serviceRequest \<Rightarrow> string \<Rightarrow> serviceRequest"
  rr_RequestService :: "serviceRequest \<Rightarrow> service \<times> error option"

definition GetService :: "string \<Rightarrow> string \<Rightarrow> cluster \<Rightarrow> (error + service) \<times> cluster" where
  "GetService n ns c = clientGet serviceR ns n c"

definition CreateService :: "service \<Rightarrow> cluster \<Rightarrow> error option \<times> cluster" where
  "CreateService svc c = (case clientCreate serviceR svc c of (e, svc', c') \<Rightarrow> (e, c'))"

definition UpdateService :: "service \<Rightarrow> cluster \<Rightarrow> error option \<times> cluster" where
  "UpdateService svc c = clientUpdate serviceR svc c"

text \<open>
  Modelled from the spec: \<^verbatim>\<open>argocdcommon.UpdateIfChanged(existing, desired, extraAction,
  changed)\<close>, the form the Redis code calls, is not in the sources at hand. Section 4.2: a
  field that differs is copied and counts as a change. Here the caller passes the two field
  values themselves (\<^verbatim>\<open>existingSvc.ObjectMeta\<close>, not a pointer to it), boxed in
  \<^verbatim>\<open>interface{}\<close>: what the function assigns goes to its own copy, and what reaches the
  caller is \<^verbatim>\<open>changed\<close>.
\<close>

definition UpdateIfChangedValue :: "dyn \<Rightarrow> dyn \<Rightarrow> bool \<Rightarrow> bool" where
  "UpdateIfChangedValue existing desired changed = (if \<not> DeepEqual existing desired then True else changed)"

text \<open>
  The owner reference is set on the desired Service; a failure is logged and the call goes
  on with the object as it was (the same three lines in each of the Redis functions).
\<close>

definition setOwnerOrLog :: "redisReconciler \<Rightarrow> service \<Rightarrow> cluster \<Rightarrow> service \<times> cluster" where
  "setOwnerOrLog rr desiredSvc c =
     (case SetControllerReference (rr_Instance rr) (svc_Meta desiredSvc) (rr_Scheme rr) of
        Inl err \<Rightarrow> (desiredSvc, logError err ''failed to set owner reference for service'' c)
      | Inr m \<Rightarrow> (desiredSvc\<lparr>svc_Meta := m\<rparr>, c))"

definition redisServiceRequest :: "redisReconciler \<Rightarrow> serviceRequest" where
  "redisServiceRequest rr =
     (let svcRequest =
            \<lparr>sr_ObjectMeta =
               rr_GetObjMeta rr (rr_resourceName rr) (cr_Namespace (rr_Instance rr))
                 (cr_Name (rr_Instance rr)) (cr_Namespace (rr_Instance rr)) (rr_component rr),
             sr_Spec =
               \<lparr>ss_Selector = Some [rr_AppK8sKeyName rr \<mapsto> rr_resourceName rr],
                ss_Ports =
                  [\<lparr>sp_Name = ''tcp-redis'', sp_Port = rr_DefaultRedisPort rr, sp_Protocol = ''TCP'',
                    sp_TargetPort = FromInt (rr_DefaultRedisPort rr)\<rparr>],
                ss_PublishNotReadyAddresses = False\<rparr>\<rparr>
      in if rr_IsOpenShiftEnv rr \<and> rr_WantsAutoTLS rr (rr_Instance rr)
         then rr_AddAutoTLSAnnotation rr svcRequest (rr_ArgoCDRedisServerTLSSecretName rr)
         else svcRequest)"

definition reconcileService :: "redisReconciler \<Rightarrow> cluster \<Rightarrow> error option \<times> cluster" where
  "reconcileService rr c =
     (case rr_RequestService rr (redisServiceRequest rr) of
        (desiredSvc0, Some err) \<Rightarrow>
          (Some (Wrapped (''failed to request service '' @ Name (svc_Meta desiredSvc0)) err), c)
      | (desiredSvc0, None) \<Rightarrow>
          (let (desiredSvc, c0) = setOwnerOrLog rr desiredSvc0 c;
               n = Name (svc_Meta desiredSvc)
           in case GetService n (Namespace (svc_Meta desiredSvc)) c0 of
                (Inl err, c1) \<Rightarrow>
                  if \<not> IsNotFound err
                  then (Some (Wrapped (''failed to retrieve service '' @ n) err), c1)
                  else
                    (case CreateService desiredSvc c1 of
                       (Some err', c2) \<Rightarrow> (Some (Wrapped (''failed to create service '' @ n) err'), c2)
                     | (None, c2) \<Rightarrow> (None, logInfo ''service created'' c2))
              | (Inr existingSvc, c1) \<Rightarrow>
                  (let svcChanged =
                         UpdateIfChangedValue (DServiceSpec (svc_Spec existingSvc))
                           (DServiceSpec (svc_Spec desiredSvc))
                           (UpdateIfChangedValue (DObjectMeta (svc_Meta existingSvc))
                              (DObjectMeta (svc_Meta desiredSvc)) False)
                   in if \<not> svcChanged then (None, c1)
                      else
                        (case UpdateService existingSvc c1 of
                           (Some err, c2) \<Rightarrow>
                             (Some (Wrapped (''failed to update service '' @ Name (svc_Meta existingSvc)) err), c2)
                         | (None, c2) \<Rightarrow> (None, logInfo ''service updated'' c2)))))"

text \<open>\<^verbatim>\<open>reconcileHAMasterService\<close>: created when not found; when found, nothing is done.\<close>

definition haMasterServiceRequest :: "redisReconciler \<Rightarrow> serviceRequest" where
  "haMasterServiceRequest rr =
     \<lparr>sr_ObjectMeta =
        rr_GetObjMeta rr (rr_HAResourceName rr) (cr_Namespace (rr_Instance rr))
          (cr_Name (rr_Instance rr)) (cr_Namespace (rr_Instance rr)) (rr_component rr),
      sr_Spec =
        \<lparr>ss_Selector = Some [rr_AppK8sKeyName rr \<mapsto> rr_HAResourceName rr],
         ss_Ports =
           [\<lparr>sp_Name = ''server'', sp_Port = rr_DefaultRedisPort rr, sp_Protocol = ''TCP'',
             sp_TargetPort = FromString ''redis''\<rparr>,
            \<lparr>sp_Name = ''sentinel'', sp_Port = rr_DefaultRedisSentinelPort rr, sp_Protocol = ''TCP'',
             sp_TargetPort = FromString ''sentinel''\<rparr>],
         ss_PublishNotReadyAddresses = False\<rparr>\<rparr>"

definition reconcileHAMasterService :: "redisReconciler \<Rightarrow> cluster \<Rightarrow> error option \<times> cluster" where
  "reconcileHAMasterService rr c =
     (case rr_RequestService rr (haMasterServiceRequest rr) of
        (desiredSvc0, Some err) \<Rightarrow>
          (Some (Wrapped (''failed to request service '' @ Name (svc_Meta desiredSvc0)) err), c)
      | (desiredSvc0, None) \<Rightarrow>
          (let (desiredSvc, c0) = setOwnerOrLog rr desiredSvc0 c;
               n = Name (svc_Meta desiredSvc)
           in case GetService n (Namespace (svc_Meta desiredSvc)) c0 of
                (Inl err, c1) \<Rightarrow>
                  if \<not> IsNotFound err
                  then (Some (Wrapped (''failed to retrieve service '' @ n) err), c1)
                  else
                    (case CreateService desiredSvc c1 of
                       (Some err', c2) \<Rightarrow> (Some (Wrapped (''failed to create service '' @ n) err'), c2)
                     | (None, c2) \<Rightarrow> (None, logInfo ''service created'' c2))
              | (Inr existingSvc, c1) \<Rightarrow> (None, c1)))"

section \<open>sso.go: the provider reconciler\<close>

text \<open>
  \<^verbatim>\<open>SSOReconciler.Reconcile\<close> has no statement but \<^verbatim>\<open>return nil\<close>: it reads neither the
  Instance nor the cluster.
\<close>

record ssoReconciler =
  ssr_Instance :: argoCD
  ssr_Scheme :: scheme

definition SSOReconciler_Reconcile :: "ssoReconciler \<Rightarrow> cluster \<Rightarrow> error option \<times> cluster" where
  "SSOReconciler_Reconcile sr c = (None, c)"

subsection \<open>The provider stage of the pipeline\<close>

text \<open>
  Modelled from the spec: \<^verbatim>\<open>reconcileSSO\<close>, the method of the reconciler that
  \<^verbatim>\<open>reconcileResources\<close> calls for the provider stage, is not in the sources at hand (and
  \<^verbatim>\<open>SSOReconciler.Reconcile\<close> above is not what it calls). The spec's provider state machine:
  a spec that requests both providers at once is a validation error, with state and
  resources left untouched and the error surfaced; a valid request for one provider deletes
  the resources of the previously active provider when that is another one, then ensures
  the resources of the requested provider; a request for none deletes the resources of
  whichever provider is active and creates nothing. Which provider is active, and what
  deleting and ensuring a provider's resources do, are parameters. A provider is requested
  when the SSO spec carries its section.
\<close>

datatype provider = Dex | Keycloak

record providerOps =
  activeProvider :: "cluster \<Rightarrow> provider option"
  deleteProviderResources :: "provider \<Rightarrow> argoCD \<Rightarrow> cluster \<Rightarrow> error option \<times> cluster"
  ensureProviderResources :: "provider \<Rightarrow> argoCD \<Rightarrow> cluster \<Rightarrow> error option \<times> cluster"

definition requestedProviders :: "argoCD \<Rightarrow> provider list" where
  "requestedProviders cr =
     (case SSO (cr_Spec cr) of
        None \<Rightarrow> []
      | Some sso \<Rightarrow>
          (if sso_Dex sso \<noteq> None then [Dex] else [])
          @ (if sso_Keycloak sso \<noteq> None then [Keycloak] else []))"

definition reconcileSSO :: "providerOps \<Rightarrow> argoCD \<Rightarrow> cluster \<Rightarrow> error option \<times> cluster" where
  "reconcileSSO ops cr c =
     (case requestedProviders cr of
        [] \<Rightarrow>
          (case activeProvider ops c of
             None \<Rightarrow> (None, c)
           | Some old \<Rightarrow> deleteProviderResources ops old cr c)
      | [p] \<Rightarrow>
          (case activeProvider ops c of
             None \<Rightarrow> ensureProviderResources ops p cr c
           | Some old \<Rightarrow>
               if old = p then ensureProviderResources ops p cr c
               else (case deleteProviderResources ops old cr c of
                       (Some err, c1) \<Rightarrow> (Some err, c1)
                     | (None, c1) \<Rightarrow> ensureProviderResources ops p cr c1))
      | p # q # ps \<Rightarrow> (Some (Failure ''multiple SSO configuration''), c))"

section \<open>rollouts.go: the rollouts controller's resources\<close>

text \<open>
  What the rollouts code takes from the rest of the repository and from the process
  environment: \<^verbatim>\<open>os.Getenv\<close>, \<^verbatim>\<open>proxyEnvVars\<close>, \<^verbatim>\<open>argoutil.EnvMerge\<close>,
  \<^verbatim>\<open>argoutil.CombineImageTag\<close>, \<^verbatim>\<open>AddSeccompProfileForOpenShift\<close> (which reads the cluster
  and may set the pod's seccomp profile), the constants of package \<^verbatim>\<open>common\<close>, and the
  object constructors. None of them is defined in the sources at hand, so they are
  parameters.
\<close>

record rolloutsDeps =
  AddSeccompProfileForOpenShift :: "cluster \<Rightarrow> podSpec \<Rightarrow> podSpec"
  Getenv :: "string \<Rightarrow> string"
  proxyEnvVars :: "envVar list"
  EnvMerge :: "envVar list \<Rightarrow> envVar list \<Rightarrow> bool \<Rightarrow> envVar list"
  CombineImageTag :: "string \<Rightarrow> string \<Rightarrow> string"
  ArgoRolloutsDefaultImage :: string
  ArgoRolloutsDefaultVersion :: string
  ArgoCDImageEnvName :: string
  ArgoCDKeyName :: string
  newServiceAccountWithName :: "string \<Rightarrow> argoCD \<Rightarrow> serviceAccount"
  newDeploymentWithSuffix :: "string \<Rightarrow> string \<Rightarrow> argoCD \<Rightarrow> deployment"
  newServiceWithSuffix :: "string \<Rightarrow> string \<Rightarrow> argoCD \<Rightarrow> service"
  nameWithSuffix :: "string \<Rightarrow> argoCD \<Rightarrow> string"

text \<open>
  \<^verbatim>\<open>getRolloutsContainerImage\<close>: image and tag from the Rollouts spec when it is there, the
  defaults for what is empty, and the environment's image only when both are defaults.
\<close>

definition getRolloutsContainerImage :: "rolloutsDeps \<Rightarrow> argoCD \<Rightarrow> string" where
  "getRolloutsContainerImage d cr =
     (let img0 = (case Rollouts (cr_Spec cr) of Some ro \<Rightarrow> ro_Image ro | None \<Rightarrow> '''');
          tag0 = (case Rollouts (cr_Spec cr) of Some ro \<Rightarrow> ro_Version ro | None \<Rightarrow> '''');
          defaultImg = (img0 = '''');
          img = (if img0 = '''' then ArgoRolloutsDefaultImage d else img0);
          defaultTag = (tag0 = '''');
          tag = (if tag0 = '''' then ArgoRolloutsDefaultVersion d else tag0);
          e = Getenv d (ArgoCDImageEnvName d)
      in if e \<noteq> '''' \<and> (defaultTag \<and> defaultImg) then e else CombineImageTag d img tag)"

text \<open>
  \<^verbatim>\<open>getRolloutsControllerResources\<close>: \<^verbatim>\<open>cr.Spec.ApplicationSet\<close> is a pointer, read without a
  nil check; the read of \<^verbatim>\<open>.Resources\<close> through a nil pointer panics.
\<close>

definition getRolloutsControllerResources :: "argoCD \<Rightarrow> panic + resourceRequirements" where
  "getRolloutsControllerResources cr =
     (let resources = \<lparr>rr_Limits = None, rr_Requests = None\<rparr>
      in case ApplicationSet (cr_Spec cr) of
           None \<Rightarrow> Inl NilPointerDereference
         | Some appset \<Rightarrow>
             (case as_Resources appset of
                Some r \<Rightarrow> Inr r
              | None \<Rightarrow> Inr resources))"

definition boolPtr :: "bool \<Rightarrow> bool option" where
  "boolPtr b = Some b"

text \<open>
  \<^verbatim>\<open>rolloutsContainer\<close>: \<^verbatim>\<open>cr.Spec.Rollouts\<close> is read first (a nil pointer panics there),
  then the fields of the literal are evaluated in the order written.
\<close>

definition rolloutsContainer :: "rolloutsDeps \<Rightarrow> argoCD \<Rightarrow> panic + container" where
  "rolloutsContainer d cr =
     (case Rollouts (cr_Spec cr) of
        None \<Rightarrow> Inl NilPointerDereference
      | Some ro \<Rightarrow>
          (let rolloutsEnv = EnvMerge d (ro_Env ro) (proxyEnvVars d) False
           in case getRolloutsControllerResources cr of
                Inl p \<Rightarrow> Inl p
              | Inr res \<Rightarrow> Inr
                  \<lparr>c_Command = ro_ExtraCommandArgs ro,
                   c_Env = rolloutsEnv,
                   c_Image = getRolloutsContainerImage d cr,
                   c_ImagePullPolicy = ''Always'',
                   c_LivenessProbe = Some
                     \<lparr>pr_FailureThreshold = 3,
                      pr_HTTPGetPath = ''/healthz'',
                      pr_HTTPGetPort = FromString ''healthz'',
                      pr_InitialDelaySeconds = 30,
                      pr_PeriodSeconds = 20,
                      pr_SuccessThreshold = 1,
                      pr_TimeoutSeconds = 10\<rparr>,
                   c_Name = ''argo-rollouts'',
                   c_Resources = res,
                   c_Ports =
                     [\<lparr>cp_ContainerPort = 8080, cp_Name = ''healthz''\<rparr>,
                      \<lparr>cp_ContainerPort = 8090, cp_Name = ''metrics''\<rparr>],
                   c_ReadinessProbe = Some
                     \<lparr>pr_FailureThreshold = 5,
                      pr_HTTPGetPath = ''/metrics'',
                      pr_HTTPGetPort = FromString ''metrics'',
                      pr_InitialDelaySeconds = 10,
                      pr_PeriodSeconds = 5,
                      pr_SuccessThreshold = 1,
                      pr_TimeoutSeconds = 4\<rparr>,
                   c_SecurityContext = Some
                     \<lparr>sc_CapabilitiesDrop = Some [''ALL''],
                      sc_AllowPrivilegeEscalation = boolPtr False,
                      sc_ReadOnlyRootFilesystem = boolPtr True,
                      sc_RunAsNonRoot = boolPtr True\<rparr>\<rparr>))"

text \<open>
  A rollouts reconcile function ends in a panic, in an error, or by returning; the cluster
  is what the call left behind in each case.
\<close>

datatype 'a result = Panicked panic | Failed error | Returned 'a

definition ofError :: "error option \<Rightarrow> unit result" where
  "ofError e = (case e of Some err \<Rightarrow> Failed err | None \<Rightarrow> Returned ())"

text \<open>\<^verbatim>\<open>setRolloutsLabels\<close>: three assignments into the object's label map.\<close>

definition setRolloutsLabels :: "objectMeta \<Rightarrow> panic + objectMeta" where
  "setRolloutsLabels obj =
     (case mapAssign (Labels obj) ''app.kubernetes.io/name'' ''argo-rollouts'' of
        Inl p \<Rightarrow> Inl p
      | Inr l1 \<Rightarrow>
          (case mapAssign l1 ''app.kubernetes.io/part-of'' ''argo-rollouts'' of
             Inl p \<Rightarrow> Inl p
           | Inr l2 \<Rightarrow>
               (case mapAssign l2 ''app.kubernetes.io/component'' ''rollouts-controller'' of
                  Inl p \<Rightarrow> Inl p
                | Inr l3 \<Rightarrow> Inr (obj\<lparr>Labels := l3\<rparr>))))"

text \<open>
  \<^verbatim>\<open>reconcileRolloutsServiceAccount\<close>: the account as found when it exists; otherwise it is
  created with the Instance as owner.
\<close>

definition reconcileRolloutsServiceAccount ::
  "rolloutsDeps \<Rightarrow> scheme \<Rightarrow> argoCD \<Rightarrow> cluster \<Rightarrow> serviceAccount result \<times> cluster" where
  "reconcileRolloutsServiceAccount d sch cr c =
     (let sa0 = newServiceAccountWithName d ''argo-rollouts'' cr
      in case setRolloutsLabels (sa_Meta sa0) of
           Inl p \<Rightarrow> (Panicked p, c)
         | Inr m \<Rightarrow>
             (case FetchObject serviceAccountR (cr_Namespace cr) (Name m) (sa0\<lparr>sa_Meta := m\<rparr>) c of
                (None, sa, c1) \<Rightarrow> (Returned sa, c1)
              | (Some err, sa, c1) \<Rightarrow>
                  if \<not> IsNotFound err then (Failed err, c1)
                  else
                    (case SetControllerReference cr (sa_Meta sa) sch of
                       Inl err \<Rightarrow> (Failed err, c1)
                     | Inr m' \<Rightarrow>
                         (case clientCreate serviceAccountR (sa\<lparr>sa_Meta := m'\<rparr>) c1 of
                            (Some err, sa', c2) \<Rightarrow> (Failed err, c2)
                          | (None, sa', c2) \<Rightarrow> (Returned sa', c2)))))"

text \<open>
  \<^verbatim>\<open>reconcileRolloutsDeployment\<close>. The desired Deployment is built first. When a Deployment
  is found, \<^verbatim>\<open>deploymentsDifferent\<close> is a chain of \<^verbatim>\<open>||\<close>; its first operand compares
  \<^verbatim>\<open>existingSpec.Containers[0]\<close>, a container, with \<^verbatim>\<open>podSpec.Containers\<close>, a slice of
  containers. Indexing an empty slice panics.
\<close>

definition desiredRolloutsDeployment ::
  "rolloutsDeps \<Rightarrow> argoCD \<Rightarrow> serviceAccount \<Rightarrow> cluster \<Rightarrow> panic + deployment" where
  "desiredRolloutsDeployment d cr sa c =
     (let deploy = newDeploymentWithSuffix d ''argo-rollouts'' ''controller'' cr
      in case setRolloutsLabels (dep_Meta deploy) of
           Inl p \<Rightarrow> Inl p
         | Inr m \<Rightarrow>
             (case rolloutsContainer d cr of
                Inl p \<Rightarrow> Inl p
              | Inr ctr \<Rightarrow>
                  (let podSpec0 = (tmpl_Spec (ds_Template (dep_Spec deploy)))
                         \<lparr>ps_SecurityContext :=
                            Some \<lparr>psc_RunAsNonRoot = Some True, psc_SeccompProfileType = None\<rparr>,
                          ps_ServiceAccountName := Name (sa_Meta sa),
                          ps_Containers := [ctr]\<rparr>;
                       podSpec = AddSeccompProfileForOpenShift d c podSpec0
                   in Inr (deploy
                        \<lparr>dep_Meta := m,
                         dep_Spec := (dep_Spec deploy)
                           \<lparr>ds_Template := (ds_Template (dep_Spec deploy))\<lparr>tmpl_Spec := podSpec\<rparr>\<rparr>\<rparr>))))"

definition deploymentsDifferent :: "deployment \<Rightarrow> container \<Rightarrow> deployment \<Rightarrow> bool" where
  "deploymentsDifferent existing existingContainer0 deploy =
     (let existingSpec = tmpl_Spec (ds_Template (dep_Spec existing));
          podSpec = tmpl_Spec (ds_Template (dep_Spec deploy))
      in \<not> DeepEqual (DContainer existingContainer0) (DContainers (ps_Containers podSpec))
         \<or> ps_ServiceAccountName existingSpec \<noteq> ps_ServiceAccountName podSpec
         \<or> \<not> DeepEqual (DStringMap (Labels (dep_Meta existing))) (DStringMap (Labels (dep_Meta deploy)))
         \<or> \<not> DeepEqual (DStringMap (tmpl_Labels (ds_Template (dep_Spec existing))))
                         (DStringMap (tmpl_Labels (ds_Template (dep_Spec deploy))))
         \<or> \<not> DeepEqual (DLabelSelector (ds_Selector (dep_Spec existing)))
                         (DLabelSelector (ds_Selector (dep_Spec deploy)))
         \<or> \<not> DeepEqual (DStringMap (ps_NodeSelector existingSpec)) (DStringMap (ps_NodeSelector podSpec))
         \<or> \<not> DeepEqual (DTolerations (ps_Tolerations existingSpec)) (DTolerations (ps_Tolerations podSpec))
         \<or> \<not> DeepEqual (DPodSecurityContext (ps_SecurityContext existingSpec))
                         (DPodSecurityContext (ps_SecurityContext podSpec)))"

text \<open>The assignments of the update branch: the fields taken over from the desired object.\<close>

definition copyDeploymentFields :: "deployment \<Rightarrow> deployment \<Rightarrow> deployment" where
  "copyDeploymentFields existing deploy =
     (let podSpec = tmpl_Spec (ds_Template (dep_Spec deploy));
          existingSpec = (tmpl_Spec (ds_Template (dep_Spec existing)))
            \<lparr>ps_Containers := ps_Containers podSpec,
             ps_ServiceAccountName := ps_ServiceAccountName podSpec,
             ps_NodeSelector := ps_NodeSelector podSpec,
             ps_Tolerations := ps_Tolerations podSpec,
             ps_SecurityContext := ps_SecurityContext podSpec\<rparr>
      in existing
           \<lparr>dep_Meta := (dep_Meta existing)\<lparr>Labels := Labels (dep_Meta deploy)\<rparr>,
            dep_Spec :=
              \<lparr>ds_Selector = ds_Selector (dep_Spec deploy),
               ds_Template =
                 \<lparr>tmpl_Labels = tmpl_Labels (ds_Template (dep_Spec deploy)),
                  tmpl_Spec = existingSpec\<rparr>\<rparr>\<rparr>)"

definition reconcileRolloutsDeployment ::
  "rolloutsDeps \<Rightarrow> scheme \<Rightarrow> argoCD \<Rightarrow> serviceAccount \<Rightarrow> cluster \<Rightarrow> unit result \<times> cluster" where
  "reconcileRolloutsDeployment d sch cr sa c =
     (case desiredRolloutsDeployment d cr sa c of
        Inl p \<Rightarrow> (Panicked p, c)
      | Inr deploy \<Rightarrow>
          (let existing0 = newDeploymentWithSuffix d ''argo-rollouts'' ''controller'' cr
           in case IsObjectFound deploymentR (cr_Namespace cr) (Name (dep_Meta existing0)) existing0 c of
                (True, existing, c1) \<Rightarrow>
                  (case ps_Containers (tmpl_Spec (ds_Template (dep_Spec existing))) of
                     [] \<Rightarrow> (Panicked IndexOutOfRange, c1)
                   | existingContainer0 # others \<Rightarrow>
                       if deploymentsDifferent existing existingContainer0 deploy
                       then (case clientUpdate deploymentR (copyDeploymentFields existing deploy) c1 of
                               (e, c2) \<Rightarrow> (ofError e, c2))
                       else (Returned (), c1))
              | (False, existing, c1) \<Rightarrow>
                  (case SetControllerReference cr (dep_Meta deploy) sch of
                     Inl err \<Rightarrow> (Failed err, c1)
                   | Inr m' \<Rightarrow>
                       (case clientCreate deploymentR (deploy\<lparr>dep_Meta := m'\<rparr>) c1 of
                          (e, deploy', c2) \<Rightarrow> (ofError e, c2)))))"

text \<open>
  \<^verbatim>\<open>reconcileRolloutsService\<close>. The statements after the \<^verbatim>\<open>if\<close>/\<^verbatim>\<open>else\<close> (ports, selector,
  owner reference, \<^verbatim>\<open>Create\<close>) are reached by every path that has not returned, the path
  through the \<^verbatim>\<open>Delete\<close> included; \<open>createRolloutsService\<close> is those statements.
\<close>

definition createRolloutsService ::
  "rolloutsDeps \<Rightarrow> scheme \<Rightarrow> argoCD \<Rightarrow> service \<Rightarrow> cluster \<Rightarrow> error option \<times> cluster" where
  "createRolloutsService d sch cr svc c =
     (let svc1 = svc\<lparr>svc_Spec := (svc_Spec svc)
            \<lparr>ss_Ports := [\<lparr>sp_Name = ''metrics'', sp_Port = 8090, sp_Protocol = ''TCP'',
                           sp_TargetPort = FromInt 8090\<rparr>],
             ss_Selector := Some [ArgoCDKeyName d \<mapsto> nameWithSuffix d ''argo-rollouts'' cr]\<rparr>\<rparr>
      in case SetControllerReference cr (svc_Meta svc1) sch of
           Inl err \<Rightarrow> (Some err, c)
         | Inr m' \<Rightarrow>
             (case clientCreate serviceR (svc1\<lparr>svc_Meta := m'\<rparr>) c of
                (e, svc', c1) \<Rightarrow> (e, c1)))"

definition reconcileRolloutsService ::
  "rolloutsDeps \<Rightarrow> scheme \<Rightarrow> argoCD \<Rightarrow> cluster \<Rightarrow> error option \<times> cluster" where
  "reconcileRolloutsService d sch cr c =
     (let svc = newServiceWithSuffix d ''argo-rollouts'' ''controller'' cr
      in if Rollouts (cr_Spec cr) = None then
           (case IsObjectFound serviceR (cr_Namespace cr) (Name (svc_Meta svc)) svc c of
              (True, svc1, c1) \<Rightarrow>
                (case FetchObject serviceR (cr_Namespace cr) (Name (svc_Meta svc1)) svc1 c1 of
                   (Some err, svc2, c2) \<Rightarrow> (Some err, c2)
                 | (None, svc2, c2) \<Rightarrow>
                     (case clientDelete serviceR svc2
                             (logInfo (''Deleting rollouts controller service '' @ Name (svc_Meta svc2)
                                       @ '' as rollouts is disabled'') c2) of
                        (Some err, c3) \<Rightarrow> (Some err, c3)
                      | (None, c3) \<Rightarrow> createRolloutsService d sch cr svc2 c3))
            | (False, svc1, c1) \<Rightarrow> createRolloutsService d sch cr svc1 c1)
         else
           (case IsObjectFound serviceR (cr_Namespace cr) (Name (svc_Meta svc)) svc c of
              (True, svc1, c1) \<Rightarrow> (None, c1)
            | (False, svc1, c1) \<Rightarrow> createRolloutsService d sch cr svc1 c1))"

text \<open>\<^verbatim>\<open>reconcileRolloutsSecrets\<close>: the notification secret is created when it is not found.\<close>

definition reconcileRolloutsSecrets :: "argoCD \<Rightarrow> cluster \<Rightarrow> error option \<times> cluster" where
  "reconcileRolloutsSecrets cr c =
     (let secret =
            \<lparr>sec_Meta = \<lparr>Name = ''argo-rollouts-notification-secret'', Namespace = cr_Namespace cr,
               Labels = None, Annotations = None, OwnerReferences = [], ResourceVersion = ''''\<rparr>,
             sec_Type = ''Opaque'', sec_Data = []\<rparr>
      in case IsObjectFound secretR (cr_Namespace cr) (Name (sec_Meta secret)) secret c of
           (True, secret1, c1) \<Rightarrow> (None, c1)
         | (False, secret1, c1) \<Rightarrow>
             (case clientCreate secretR secret1 c1 of
                (Some err, secret2, c2) \<Rightarrow> (Some err, c2)
              | (None, secret2, c2) \<Rightarrow> (None, c2)))"

section \<open>The orchestrator\<close>

text \<open>
  \<^verbatim>\<open>Reconcile\<close> and \<^verbatim>\<open>reconcileResources\<close> call methods of the reconciler that are not in the
  sources at hand (the stages of the pipeline, the teardown steps). Each is named by a
  \<open>call\<close>; what it does is the parameter \<open>invoke\<close>, a function on the world that returns
  the method's error. The world is the process-wide
  \<^verbatim>\<open>DeprecationEventEmissionTracker\<close> map and everything else (the cluster), of a type
  \<open>'x\<close> the orchestrator never looks into.
\<close>

datatype call =
    ClientGet
  | DeleteClusterResources
  | RemoveManagedByLabelFromNamespaces string
  | RemoveUnmanagedSourceNamespaceResources
  | RemoveDeletionFinalizer
  | AddDeletionFinalizer
  | SetManagedNamespaces
  | SetManagedSourceNamespaces
  | ReconcileSSO
  | ReconcileStatus
  | ReconcileRoles
  | ReconcileRoleBindings
  | ReconcileServiceAccounts
  | ReconcileCertificateAuthority
  | ReconcileSecrets
  | ReconcileConfigMaps bool
  | ReconcileServices
  | ReconcileDeployments bool
  | ReconcileStatefulSets bool
  | ReconcileAutoscalers
  | ReconcileIngresses
  | ReconcileRoutes
  | ReconcilePrometheus
  | ReconcilePrometheusRule
  | ReconcileMetricsServiceMonitor
  | ReconcileRepoServerServiceMonitor
  | ReconcileServerMetricsServiceMonitor
  | ReconcileApplicationSetController
  | ReconcileNotificationsController
  | ReconcileRepoServerTLSSecret
  | ReconcileRedisTLSSecret bool

record 'x world =
  DeprecationEventEmissionTracker :: "string \<rightharpoonup> bool"
  rest :: 'x

record 'x reconciler =
  invoke :: "call \<Rightarrow> argoCD \<Rightarrow> 'x world \<Rightarrow> error option \<times> 'x world"
  getArgoCD :: "string \<times> string \<Rightarrow> 'x world \<Rightarrow> (error + argoCD) \<times> 'x world"
  redisShouldUseTLS :: "argoCD \<Rightarrow> 'x world \<Rightarrow> bool"
  IsRouteAPIAvailable :: bool
  IsPrometheusAPIAvailable :: bool
  isRemoveManagedByLabelOnArgoCDDeletion :: bool

text \<open>
  What an invocation does is observed as the list of its events, in order: the methods it
  called and the lines it logged. A statement of the orchestrator takes the world and the
  events so far, and returns the error it ends with, if any.
\<close>

datatype event = Called call | Logged string

type_synonym 'x stmt = "'x world \<times> event list \<Rightarrow> error option \<times> 'x world \<times> event list"

text \<open>Statements in sequence; an error returned ends the function.\<close>

fun seq :: "'x stmt list \<Rightarrow> 'x stmt" where
  "seq [] s = (None, s)"
| "seq (st # sts) s =
     (case st s of
        (Some err, s') \<Rightarrow> (Some err, s')
      | (None, s') \<Rightarrow> seq sts s')"

text \<open>\<^verbatim>\<open>log.Info(msg)\<close>.\<close>

definition info :: "string \<Rightarrow> 'x stmt" where
  "info msg s = (None, fst s, snd s @ [Logged msg])"

text \<open>\<^verbatim>\<open>if err := r.m(cr); err != nil { return err }\<close>.\<close>

definition returnOnError :: "'x reconciler \<Rightarrow> call \<Rightarrow> argoCD \<Rightarrow> 'x stmt" where
  "returnOnError r k cr s =
     (case invoke r k cr (fst s) of (e, w') \<Rightarrow> (e, w', snd s @ [Called k]))"

text \<open>\<^verbatim>\<open>if err := r.m(cr); err != nil { log.Info(err.Error()) }\<close>: logged, not returned.\<close>

definition logOnError :: "'x reconciler \<Rightarrow> call \<Rightarrow> argoCD \<Rightarrow> 'x stmt" where
  "logOnError r k cr s =
     (case invoke r k cr (fst s) of
        (Some err, w') \<Rightarrow> (None, w', snd s @ [Called k, Logged (ErrorString err)])
      | (None, w') \<Rightarrow> (None, w', snd s @ [Called k]))"

text \<open>\<^verbatim>\<open>if err := r.m(cr); err != nil { log.Info(err.Error()); return err }\<close>.\<close>

definition logAndReturnOnError :: "'x reconciler \<Rightarrow> call \<Rightarrow> argoCD \<Rightarrow> 'x stmt" where
  "logAndReturnOnError r k cr s =
     (case invoke r k cr (fst s) of
        (Some err, w') \<Rightarrow> (Some err, w', snd s @ [Called k, Logged (ErrorString err)])
      | (None, w') \<Rightarrow> (None, w', snd s @ [Called k]))"

text \<open>\<^verbatim>\<open>if err := r.m(cr); err != nil { return fmt.Errorf(msg + ": %w", err) }\<close>.\<close>

definition wrapOnError :: "string \<Rightarrow> 'x reconciler \<Rightarrow> call \<Rightarrow> argoCD \<Rightarrow> 'x stmt" where
  "wrapOnError msg r k cr s =
     (case invoke r k cr (fst s) of
        (Some err, w') \<Rightarrow> (Some (Wrapped msg err), w', snd s @ [Called k])
      | (None, w') \<Rightarrow> (None, w', snd s @ [Called k]))"

text \<open>\<^verbatim>\<open>if b { ... }\<close>.\<close>

definition whenever :: "bool \<Rightarrow> 'x stmt \<Rightarrow> 'x stmt" where
  "whenever b st s = (if b then st s else (None, s))"

text \<open>\<^verbatim>\<open>useTLSForRedis := r.redisShouldUseTLS(cr)\<close>, and the statements that use it.\<close>

definition withRedisTLS :: "'x reconciler \<Rightarrow> argoCD \<Rightarrow> (bool \<Rightarrow> 'x stmt) \<Rightarrow> 'x stmt" where
  "withRedisTLS r cr body s = body (redisShouldUseTLS r cr (fst s)) s"

subsection \<open>rollouts.go: \<^verbatim>\<open>reconcileResources\<close>\<close>

definition reconcileResources :: "'x reconciler \<Rightarrow> argoCD \<Rightarrow> 'x stmt" where
  "reconcileResources r cr =
     seq
      [info ''reconciling SSO'',
       logOnError r ReconcileSSO cr,
       info ''reconciling status'',
       logOnError r ReconcileStatus cr,
       info ''reconciling roles'',
       logAndReturnOnError r ReconcileRoles cr,
       info ''reconciling rolebindings'',
       logAndReturnOnError r ReconcileRoleBindings cr,
       info ''reconciling service accounts'',
       logAndReturnOnError r ReconcileServiceAccounts cr,
       info ''reconciling certificate authority'',
       returnOnError r ReconcileCertificateAuthority cr,
       info ''reconciling secrets'',
       returnOnError r ReconcileSecrets cr,
       withRedisTLS r cr (\<lambda>useTLSForRedis.
          seq
           [info ''reconciling config maps'',
            returnOnError r (ReconcileConfigMaps useTLSForRedis) cr,
            info ''reconciling services'',
            returnOnError r ReconcileServices cr,
            info ''reconciling deployments'',
            returnOnError r (ReconcileDeployments useTLSForRedis) cr,
            info ''reconciling statefulsets'',
            returnOnError r (ReconcileStatefulSets useTLSForRedis) cr,
            info ''reconciling autoscalers'',
            returnOnError r ReconcileAutoscalers cr,
            info ''reconciling ingresses'',
            returnOnError r ReconcileIngresses cr,
            whenever (IsRouteAPIAvailable r)
              (seq [info ''reconciling routes'',
                    returnOnError r ReconcileRoutes cr]),
            whenever (IsPrometheusAPIAvailable r)
              (seq [info ''reconciling prometheus'',
                    returnOnError r ReconcilePrometheus cr,
                    returnOnError r ReconcilePrometheusRule cr,
                    returnOnError r ReconcileMetricsServiceMonitor cr,
                    returnOnError r ReconcileRepoServerServiceMonitor cr,
                    returnOnError r ReconcileServerMetricsServiceMonitor cr]),
            whenever (ApplicationSet (cr_Spec cr) \<noteq> None)
              (seq [info ''reconciling ApplicationSet controller'',
                    returnOnError r ReconcileApplicationSetController cr]),
            whenever (NotificationsEnabled (cr_Spec cr))
              (seq [info ''reconciling Notifications controller'',
                    returnOnError r ReconcileNotificationsController cr]),
            returnOnError r ReconcileRepoServerTLSSecret cr,
            returnOnError r (ReconcileRedisTLSSecret useTLSForRedis) cr])]"

subsection \<open>argocd_controller.go: \<^verbatim>\<open>Reconcile\<close>\<close>

text \<open>
  \<^verbatim>\<open>IsDeletionFinalizerPresent\<close> is declared with the Instance's type, outside the sources at
  hand; the finalizer's name is the parameter \<open>fin\<close>.
\<close>

definition IsDeletionFinalizerPresent :: "string \<Rightarrow> argoCD \<Rightarrow> bool" where
  "IsDeletionFinalizerPresent fin argocd = (fin \<in> set (cr_Finalizers argocd))"

text \<open>\<^verbatim>\<open>if _, ok := m[ns]; ok { delete(m, ns) }\<close> on the tracker.\<close>

definition forgetDeprecationEvents :: "string \<Rightarrow> 'x stmt" where
  "forgetDeprecationEvents ns s =
     (None,
      (if DeprecationEventEmissionTracker (fst s) ns \<noteq> None
       then (fst s)\<lparr>DeprecationEventEmissionTracker := (DeprecationEventEmissionTracker (fst s))(ns := None)\<rparr>
       else fst s),
      snd s)"

definition Reconcile :: "'x reconciler \<Rightarrow> string \<Rightarrow> string \<times> string \<Rightarrow> 'x stmt" where
  "Reconcile r fin request s =
     (case getArgoCD r request (fst s) of
        (Inl err, w1) \<Rightarrow>
          (if IsNotFound err then None else Some err,
           w1, snd s @ [Logged ''Reconciling from ArgoCD'', Called ClientGet])
      | (Inr argocd, w1) \<Rightarrow>
          (let s1 = (w1, snd s @ [Logged ''Reconciling from ArgoCD'', Called ClientGet])
           in if cr_DeletionTimestamp argocd \<noteq> None then
                (if IsDeletionFinalizerPresent fin argocd then
                   seq
                    [wrapOnError ''failed to delete ClusterResources'' r DeleteClusterResources argocd,
                     whenever (isRemoveManagedByLabelOnArgoCDDeletion r)
                       (wrapOnError
                          (''failed to remove label from namespace['' @ cr_Namespace argocd @ ''], error'')
                          r (RemoveManagedByLabelFromNamespaces (cr_Namespace argocd)) argocd),
                     wrapOnError ''failed to remove resources from sourceNamespaces, error''
                       r RemoveUnmanagedSourceNamespaceResources argocd,
                     returnOnError r RemoveDeletionFinalizer argocd,
                     forgetDeprecationEvents (cr_Namespace argocd)] s1
                 else (None, s1))
              else
                (case whenever (\<not> IsDeletionFinalizerPresent fin argocd)
                        (returnOnError r AddDeletionFinalizer argocd) s1 of
                   (Some err, s2) \<Rightarrow> (Some err, s2)
                 | (None, s2) \<Rightarrow>
                     (case getArgoCD r request (fst s2) of
                        (Inl err, w3) \<Rightarrow> (Some err, w3, snd s2 @ [Called ClientGet])
                      | (Inr argocd', w3) \<Rightarrow>
                          seq
                           [returnOnError r SetManagedNamespaces argocd',
                            returnOnError r SetManagedSourceNamespaces argocd',
                            reconcileResources r argocd'] (w3, snd s2 @ [Called ClientGet])))))"

subsection \<open>Properties of statements\<close>

text \<open>
  \<open>emitsOnly P st\<close>: whatever the state, \<open>st\<close> only appends events, each satisfying \<open>P\<close>.
  \<open>neverFails st\<close>: \<open>st\<close> returns no error. \<open>errorLogged e\<close>: the line logged for a
  stage's error, if it returned one.
\<close>

definition emitsOnly :: "(event \<Rightarrow> bool) \<Rightarrow> 'x stmt \<Rightarrow> bool" where
  "emitsOnly P st = (\<forall>s. \<exists>es. snd (snd (st s)) = snd s @ es \<and> list_all P es)"

definition neverFails :: "'x stmt \<Rightarrow> bool" where
  "neverFails st = (\<forall>s. fst (st s) = None)"

definition errorLogged :: "error option \<Rightarrow> event list" where
  "errorLogged e = (case e of Some err \<Rightarrow> [Logged (ErrorString err)] | None \<Rightarrow> [])"

text \<open>
  \<open>worldAfter r cr ks w\<close>: the world after the methods \<open>ks\<close> have run in turn from \<open>w\<close>.
  \<open>succeedsWith st es\<close>: whatever the state, \<open>st\<close> returns no error and appends exactly the
  events \<open>es\<close>.
\<close>

definition worldAfter :: "'x reconciler \<Rightarrow> argoCD \<Rightarrow> call list \<Rightarrow> 'x world \<Rightarrow> 'x world" where
  "worldAfter r cr ks w = fold (\<lambda>k w'. snd (invoke r k cr w')) ks w"

definition succeedsWith :: "'x stmt \<Rightarrow> event list \<Rightarrow> bool" where
  "succeedsWith st es = (\<forall>s. fst (st s) = None \<and> snd (snd (st s)) = snd s @ es)"

section \<open>Concrete inputs\<close>

text \<open>
  The Instance of the repository's tests (\<^verbatim>\<open>makeTestArgoCD\<close>: name and namespace
  \<^verbatim>\<open>argocd\<close>), and simple stand-ins for the helpers that are parameters.
\<close>

definition testSpec :: argoCDSpec where
  "testSpec = \<lparr>Rollouts = None, ApplicationSet = None, NotificationsEnabled = False,
     SSO = None, RedisAutoTLS = ''''\<rparr>"

definition testArgoCD :: argoCD where
  "testArgoCD = \<lparr>cr_Name = ''argocd'', cr_Namespace = ''argocd'', cr_UID = ''uid-1'',
     cr_DeletionTimestamp = None, cr_Finalizers = [], cr_Spec = testSpec\<rparr>"

definition testRollouts :: rolloutsSpec where
  "testRollouts = \<lparr>ro_Env = [], ro_ExtraCommandArgs = [], ro_Image = '''', ro_Version = ''''\<rparr>"

definition testMeta :: "string \<Rightarrow> argoCD \<Rightarrow> objectMeta" where
  "testMeta n cr = \<lparr>Name = n, Namespace = cr_Namespace cr, Labels = Some Map.empty,
     Annotations = None, OwnerReferences = [], ResourceVersion = ''''\<rparr>"

definition testPodSpec :: podSpec where
  "testPodSpec = \<lparr>ps_Containers = [], ps_ServiceAccountName = '''', ps_NodeSelector = None,
     ps_Tolerations = [], ps_SecurityContext = None\<rparr>"

definition testDeps :: rolloutsDeps where
  "testDeps =
     \<lparr>AddSeccompProfileForOpenShift = (\<lambda>c podSpec. podSpec),
      Getenv = (\<lambda>name. ''''),
      proxyEnvVars = [],
      EnvMerge = (\<lambda>existing merge override. existing @ merge),
      CombineImageTag = (\<lambda>img tag. img @ '':'' @ tag),
      ArgoRolloutsDefaultImage = ''quay.io/argoproj/argo-rollouts'',
      ArgoRolloutsDefaultVersion = ''v1.0.0'',
      ArgoCDImageEnvName = ''ARGOCD_IMAGE'',
      ArgoCDKeyName = ''app.kubernetes.io/name'',
      newServiceAccountWithName = (\<lambda>n cr. \<lparr>sa_Meta = testMeta n cr\<rparr>),
      newDeploymentWithSuffix = (\<lambda>suffix component cr.
        \<lparr>dep_Meta = testMeta (cr_Name cr @ ''-'' @ suffix) cr,
         dep_Spec = \<lparr>ds_Selector = Some (Some [''app.kubernetes.io/name'' \<mapsto> cr_Name cr @ ''-'' @ suffix]),
           ds_Template = \<lparr>tmpl_Labels = Some [''app.kubernetes.io/name'' \<mapsto> cr_Name cr @ ''-'' @ suffix],
             tmpl_Spec = testPodSpec\<rparr>\<rparr>\<rparr>),
      newServiceWithSuffix = (\<lambda>suffix component cr.
        \<lparr>svc_Meta = testMeta (cr_Name cr @ ''-'' @ suffix) cr,
         svc_Spec = \<lparr>ss_Selector = None, ss_Ports = [], ss_PublishNotReadyAddresses = False\<rparr>\<rparr>),
      nameWithSuffix = (\<lambda>suffix cr. cr_Name cr @ ''-'' @ suffix)\<rparr>"

text \<open>
  An Instance under deletion that still has its finalizer; a reconciler whose methods
  record their call in the world and fail as \<open>fails\<close> says; a world whose tracker has an
  entry for the Instance's namespace.
\<close>

definition deletingArgoCD :: argoCD where
  "deletingArgoCD = testArgoCD\<lparr>cr_DeletionTimestamp := Some ''2026-01-01T00:00:00Z'',
     cr_Finalizers := [''argoproj.io/finalizer'']\<rparr>"

definition recordingReconciler :: "(call \<Rightarrow> error option) \<Rightarrow> argoCD \<Rightarrow> bool \<Rightarrow> (call list) reconciler" where
  "recordingReconciler fails inst removeLabel =
     \<lparr>invoke = (\<lambda>k cr w. (fails k, w\<lparr>rest := rest w @ [k]\<rparr>)),
      getArgoCD = (\<lambda>request w. (Inr inst, w)),
      redisShouldUseTLS = (\<lambda>cr w. False),
      IsRouteAPIAvailable = False,
      IsPrometheusAPIAvailable = False,
      isRemoveManagedByLabelOnArgoCDDeletion = removeLabel\<rparr>"

definition trackedWorld :: "(call list) world" where
  "trackedWorld = \<lparr>DeprecationEventEmissionTracker = [''argocd'' \<mapsto> True], rest = []\<rparr>"

definition failingAt :: "call list \<Rightarrow> call \<Rightarrow> error option" where
  "failingAt bad k = (if k \<in> set bad then Some (Failure ''boom'') else None)"

definition emptyCluster :: cluster where
  "emptyCluster = \<lparr>services = Map.empty, serviceMonitors = Map.empty, serviceAccounts = Map.empty,
     secrets = Map.empty, deployments = Map.empty, apiFaults = (\<lambda>n. None), apiCalls = 0,
     writes = [], logged = []\<rparr>"

definition unchanged :: "cluster \<Rightarrow> cluster \<Rightarrow> bool" where
  "unchanged c c' =
     (services c' = services c \<and> serviceMonitors c' = serviceMonitors c
      \<and> serviceAccounts c' = serviceAccounts c \<and> secrets c' = secrets c
      \<and> deployments c' = deployments c \<and> writes c' = writes c)"

definition rolloutsArgoCD :: argoCD where
  "rolloutsArgoCD = testArgoCD\<lparr>cr_Spec := testSpec
     \<lparr>Rollouts := Some testRollouts, ApplicationSet := Some \<lparr>as_Resources = None\<rparr>\<rparr>\<rparr>"

definition testServiceAccount :: serviceAccount where
  "testServiceAccount = \<lparr>sa_Meta = testMeta ''argo-rollouts'' testArgoCD\<rparr>"

definition comparedFieldsEqual :: "deployment \<Rightarrow> deployment \<Rightarrow> bool" where
  "comparedFieldsEqual existing deploy =
     (ps_Containers (tmpl_Spec (ds_Template (dep_Spec existing))) =
        ps_Containers (tmpl_Spec (ds_Template (dep_Spec deploy)))
      \<and> ps_ServiceAccountName (tmpl_Spec (ds_Template (dep_Spec existing))) =
        ps_ServiceAccountName (tmpl_Spec (ds_Template (dep_Spec deploy)))
      \<and> Labels (dep_Meta existing) = Labels (dep_Meta deploy)
      \<and> tmpl_Labels (ds_Template (dep_Spec existing)) = tmpl_Labels (ds_Template (dep_Spec deploy))
      \<and> ds_Selector (dep_Spec existing) = ds_Selector (dep_Spec deploy)
      \<and> ps_NodeSelector (tmpl_Spec (ds_Template (dep_Spec existing))) =
        ps_NodeSelector (tmpl_Spec (ds_Template (dep_Spec deploy)))
      \<and> ps_Tolerations (tmpl_Spec (ds_Template (dep_Spec existing))) =
        ps_Tolerations (tmpl_Spec (ds_Template (dep_Spec deploy)))
      \<and> ps_SecurityContext (tmpl_Spec (ds_Template (dep_Spec existing))) =
        ps_SecurityContext (tmpl_Spec (ds_Template (dep_Spec deploy))))"

definition firstRun :: "unit result \<times> cluster" where
  "firstRun = reconcileRolloutsDeployment testDeps [''ArgoCD''] rolloutsArgoCD testServiceAccount emptyCluster"

definition secondRun :: "unit result \<times> cluster" where
  "secondRun = reconcileRolloutsDeployment testDeps [''ArgoCD''] rolloutsArgoCD testServiceAccount (snd firstRun)"

definition bothProvidersRequested :: "argoCD \<Rightarrow> bool" where
  "bothProvidersRequested cr =
     (case SSO (cr_Spec cr) of
        None \<Rightarrow> False
      | Some sso \<Rightarrow> sso_Dex sso \<noteq> None \<and> sso_Keycloak sso \<noteq> None)"


definition testRepoServer :: "serviceMonitor Hook list \<Rightarrow> scheme \<Rightarrow> repoServerReconciler" where
  "testRepoServer hooks sch =
     \<lparr>rsr_Instance = testArgoCD,
      rsr_Scheme = sch,
      rsr_metricsResourceName = ''argocd-repo-server-metrics'',
      rsr_resourceName = ''argocd-repo-server'',
      rsr_component = ''repo-server'',
      rsr_AppK8sKeyName = ''app.kubernetes.io/name'',
      rsr_GetObjMeta = (\<lambda>n ns instName instNs component labels annotations.
         \<lparr>Name = n, Namespace = ns, Labels = labels, Annotations = annotations,
          OwnerReferences = [], ResourceVersion = ''''\<rparr>),
      rsr_GetSvcMonitorLabel = Some [''release'' \<mapsto> ''prometheus-operator''],
      rsr_EmptyMap = Some Map.empty,
      rsr_RequestServiceMonitor = RequestServiceMonitor,
      rsr_ApplyReconcilerMutation = ApplyReconcilerMutation hooks testArgoCD ''''\<rparr>"

definition testRedis :: "scheme \<Rightarrow> redisReconciler" where
  "testRedis sch =
     \<lparr>rr_Instance = testArgoCD,
      rr_Scheme = sch,
      rr_IsOpenShiftEnv = False,
      rr_resourceName = ''argocd-redis'',
      rr_HAResourceName = ''argocd-redis-ha'',
      rr_component = ''redis'',
      rr_AppK8sKeyName = ''app.kubernetes.io/name'',
      rr_DefaultRedisPort = 6379,
      rr_DefaultRedisSentinelPort = 26379,
      rr_ArgoCDRedisServerTLSSecretName = ''argocd-operator-redis-tls'',
      rr_GetObjMeta = (\<lambda>n ns instName instNs component.
         \<lparr>Name = n, Namespace = ns, Labels = Some Map.empty, Annotations = Some Map.empty,
          OwnerReferences = [], ResourceVersion = ''''\<rparr>),
      rr_WantsAutoTLS = (\<lambda>cr. RedisAutoTLS (cr_Spec cr) = ''openshift''),
      rr_AddAutoTLSAnnotation = (\<lambda>req secretName. req),
      rr_RequestService = (\<lambda>req. (\<lparr>svc_Meta = sr_ObjectMeta req, svc_Spec = sr_Spec req\<rparr>, None))\<rparr>"

definition driftedService :: "string \<Rightarrow> service" where
  "driftedService n =
     \<lparr>svc_Meta = (testMeta n testArgoCD)\<lparr>ResourceVersion := ''7''\<rparr>,
      svc_Spec = \<lparr>ss_Selector = None, ss_Ports = [], ss_PublishNotReadyAddresses = False\<rparr>\<rparr>"

definition driftedServiceMonitor :: serviceMonitor where
  "driftedServiceMonitor =
     \<lparr>sm_Meta = (testMeta ''argocd-repo-server-metrics'' testArgoCD)\<lparr>ResourceVersion := ''7''\<rparr>,
      sm_Spec = \<lparr>sms_MatchLabels = None, sms_Endpoints = []\<rparr>\<rparr>"

definition driftedDeployment :: deployment where
  "driftedDeployment =
     \<lparr>dep_Meta = (testMeta ''argocd-argo-rollouts'' testArgoCD)\<lparr>ResourceVersion := ''7''\<rparr>,
      dep_Spec = \<lparr>ds_Selector = None,
        ds_Template = \<lparr>tmpl_Labels = None,
          tmpl_Spec = testPodSpec\<lparr>ps_Containers :=
            [\<lparr>c_Command = [], c_Env = [], c_Image = ''other:image'', c_ImagePullPolicy = ''Never'',
              c_LivenessProbe = None, c_Name = ''argo-rollouts'',
              c_Resources = \<lparr>rr_Limits = None, rr_Requests = None\<rparr>, c_Ports = [],
              c_ReadinessProbe = None, c_SecurityContext = None\<rparr>]\<rparr>\<rparr>\<rparr>\<rparr>"

definition driftedCluster :: cluster where
  "driftedCluster = emptyCluster
     \<lparr>services := [(''argocd'', ''argocd-redis-ha'') \<mapsto> driftedService ''argocd-redis-ha'',
                   (''argocd'', ''argocd-argo-rollouts'') \<mapsto> driftedService ''argocd-argo-rollouts''],
      serviceMonitors := [(''argocd'', ''argocd-repo-server-metrics'') \<mapsto> driftedServiceMonitor],
      serviceAccounts := [(''argocd'', ''argo-rollouts'') \<mapsto>
         \<lparr>sa_Meta = (testMeta ''argo-rollouts'' testArgoCD)\<lparr>Labels := None, ResourceVersion := ''7''\<rparr>\<rparr>],
      secrets := [(''argocd'', ''argo-rollouts-notification-secret'') \<mapsto>
         \<lparr>sec_Meta = (testMeta ''argo-rollouts-notification-secret'' testArgoCD)\<lparr>ResourceVersion := ''7''\<rparr>,
          sec_Type = ''kubernetes.io/tls'', sec_Data = [(''token'', ''changed'')]\<rparr>],
      deployments := [(''argocd'', ''argocd-argo-rollouts'') \<mapsto> driftedDeployment]\<rparr>"

definition bothProvidersArgoCD :: argoCD where
  "bothProvidersArgoCD = testArgoCD\<lparr>cr_Spec := testSpec
     \<lparr>SSO := Some \<lparr>sso_Provider = ''dex'', sso_Dex = Some \<lparr>dex_Config = ''''\<rparr>,
        sso_Keycloak = Some \<lparr>kc_Image = ''crImage'', kc_Version = ''crVersion''\<rparr>\<rparr>\<rparr>\<rparr>"

text \<open>
  Provider operations that record the write they would issue, an Instance that requests Dex
  only, and a reconciler whose provider stage is \<open>reconcileSSO\<close> on the cluster.
\<close>

definition testProviderOps :: providerOps where
  "testProviderOps =
     \<lparr>activeProvider = (\<lambda>c. None),
      deleteProviderResources = (\<lambda>p cr c.
        (None, c\<lparr>writes := writes c @
           [(VDelete, KDeployment, cr_Namespace cr,
             case p of Dex \<Rightarrow> ''argocd-dex-server'' | Keycloak \<Rightarrow> ''keycloak'')]\<rparr>)),
      ensureProviderResources = (\<lambda>p cr c.
        (None, c\<lparr>writes := writes c @
           [(VCreate, KDeployment, cr_Namespace cr,
             case p of Dex \<Rightarrow> ''argocd-dex-server'' | Keycloak \<Rightarrow> ''keycloak'')]\<rparr>))\<rparr>"

definition dexArgoCD :: argoCD where
  "dexArgoCD = testArgoCD\<lparr>cr_Spec := testSpec
     \<lparr>SSO := Some \<lparr>sso_Provider = ''dex'', sso_Dex = Some \<lparr>dex_Config = []\<rparr>,
        sso_Keycloak = None\<rparr>\<rparr>\<rparr>"

definition providerStageReconciler :: "cluster reconciler" where
  "providerStageReconciler =
     \<lparr>invoke = (\<lambda>k cr w.
        if k = ReconcileSSO
        then (case reconcileSSO testProviderOps cr (rest w) of (e, c') \<Rightarrow> (e, w\<lparr>rest := c'\<rparr>))
        else (None, w)),
      getArgoCD = (\<lambda>request w. (Inr bothProvidersArgoCD, w)),
      redisShouldUseTLS = (\<lambda>cr w. False),
      IsRouteAPIAvailable = False,
      IsPrometheusAPIAvailable = False,
      isRemoveManagedByLabelOnArgoCDDeletion = False\<rparr>"

definition redisDriftedCluster :: cluster where
  "redisDriftedCluster = emptyCluster
     \<lparr>services := [(''argocd'', ''argocd-redis'') \<mapsto> driftedService ''argocd-redis'']\<rparr>"

section \<open>Theorems\<close>

subsection \<open>The rollouts container's resource requirements\<close>

text \<open>
  C10. \<^verbatim>\<open>getRolloutsControllerResources\<close> takes the override from
  \<^verbatim>\<open>cr.Spec.ApplicationSet.Resources\<close> and from nowhere else: with no ApplicationSet spec the
  read goes through a nil pointer and panics; with one, the result is its \<^verbatim>\<open>Resources\<close>, or
  the empty requirements when that is nil; the Rollouts spec has no influence on the result.
  So \<^verbatim>\<open>rolloutsContainer\<close>, for an Instance with Rollouts set and no ApplicationSet spec,
  panics with a nil dereference instead of returning a container with empty requirements.
\<close>

theorem getRolloutsControllerResources_reads_ApplicationSet:
  "(ApplicationSet (cr_Spec cr) = None \<longrightarrow>
      getRolloutsControllerResources cr = Inl NilPointerDereference)
   \<and> (\<forall>a. ApplicationSet (cr_Spec cr) = Some a \<longrightarrow>
      getRolloutsControllerResources cr =
        Inr (case as_Resources a of Some r \<Rightarrow> r
             | None \<Rightarrow> \<lparr>rr_Limits = None, rr_Requests = None\<rparr>))
   \<and> getRolloutsControllerResources (cr\<lparr>cr_Spec := (cr_Spec cr)\<lparr>Rollouts := ro\<rparr>\<rparr>) =
       getRolloutsControllerResources cr
   \<and> (Rollouts (cr_Spec cr) \<noteq> None \<and> ApplicationSet (cr_Spec cr) = None \<longrightarrow>
      rolloutsContainer d cr = Inl NilPointerDereference)"
proof (intro conjI impI allI)
  show "getRolloutsControllerResources cr = Inl NilPointerDereference"
    if "ApplicationSet (cr_Spec cr) = None"
    using that by (simp add: getRolloutsControllerResources_def)
  show "getRolloutsControllerResources cr =
      Inr (case as_Resources a of Some r \<Rightarrow> r | None \<Rightarrow> \<lparr>rr_Limits = None, rr_Requests = None\<rparr>)"
    if "ApplicationSet (cr_Spec cr) = Some a" for a
    using that by (simp add: getRolloutsControllerResources_def split: option.split)
  show "getRolloutsControllerResources (cr\<lparr>cr_Spec := (cr_Spec cr)\<lparr>Rollouts := ro\<rparr>\<rparr>) =
      getRolloutsControllerResources cr"
    by (simp add: getRolloutsControllerResources_def)
  show "rolloutsContainer d cr = Inl NilPointerDereference"
    if "Rollouts (cr_Spec cr) \<noteq> None \<and> ApplicationSet (cr_Spec cr) = None"
    using that
    by (auto simp: rolloutsContainer_def getRolloutsControllerResources_def)
qed

theorem getRolloutsControllerResources_reads_ApplicationSet_witness:
  "Rollouts (cr_Spec (testArgoCD\<lparr>cr_Spec := testSpec\<lparr>Rollouts := Some testRollouts\<rparr>\<rparr>)) \<noteq> None
   \<and> ApplicationSet (cr_Spec (testArgoCD\<lparr>cr_Spec := testSpec\<lparr>Rollouts := Some testRollouts\<rparr>\<rparr>)) = None
   \<and> getRolloutsControllerResources (testArgoCD\<lparr>cr_Spec := testSpec\<lparr>Rollouts := Some testRollouts\<rparr>\<rparr>)
       = Inl NilPointerDereference
   \<and> rolloutsContainer testDeps (testArgoCD\<lparr>cr_Spec := testSpec\<lparr>Rollouts := Some testRollouts\<rparr>\<rparr>)
       = Inl NilPointerDereference"
  using getRolloutsControllerResources_reads_ApplicationSet
    [of "testArgoCD\<lparr>cr_Spec := testSpec\<lparr>Rollouts := Some testRollouts\<rparr>\<rparr>" "Some testRollouts" testDeps]
  by (simp add: testArgoCD_def testSpec_def)

subsection \<open>Statements of the orchestrator\<close>

lemma emitsOnly_info: "P (Logged msg) \<Longrightarrow> emitsOnly P (info msg)"
  by (simp add: emitsOnly_def info_def)

lemma emitsOnly_returnOnError: "P (Called k) \<Longrightarrow> emitsOnly P (returnOnError r k cr)"
  by (simp add: emitsOnly_def returnOnError_def split: prod.split)

lemma emitsOnly_logOnError:
  "P (Called k) \<Longrightarrow> (\<And>m. P (Logged m)) \<Longrightarrow> emitsOnly P (logOnError r k cr)"
  by (simp add: emitsOnly_def logOnError_def split: prod.split option.split)

lemma emitsOnly_logAndReturnOnError:
  "P (Called k) \<Longrightarrow> (\<And>m. P (Logged m)) \<Longrightarrow> emitsOnly P (logAndReturnOnError r k cr)"
  by (simp add: emitsOnly_def logAndReturnOnError_def split: prod.split option.split)

lemma emitsOnly_wrapOnError: "P (Called k) \<Longrightarrow> emitsOnly P (wrapOnError msg r k cr)"
  by (simp add: emitsOnly_def wrapOnError_def split: prod.split option.split)

lemma emitsOnly_whenever: "(b \<Longrightarrow> emitsOnly P st) \<Longrightarrow> emitsOnly P (whenever b st)"
  by (cases b) (simp_all add: emitsOnly_def whenever_def)

lemma emitsOnly_seq: "list_all (emitsOnly P) sts \<Longrightarrow> emitsOnly P (seq sts)"
proof (induction sts)
  case Nil
  show ?case by (simp add: emitsOnly_def)
next
  case (Cons st sts)
  then have st: "emitsOnly P st" and rest: "emitsOnly P (seq sts)" by simp_all
  show ?case
    unfolding emitsOnly_def
  proof
    fix s
    obtain e s' where r: "st s = (e, s')" by (cases "st s")
    from st obtain es where es: "snd s' = snd s @ es" "list_all P es"
      using r unfolding emitsOnly_def by (metis snd_conv)
    show "\<exists>es. snd (snd (seq (st # sts) s)) = snd s @ es \<and> list_all P es"
    proof (cases e)
      case None
      from rest obtain es' where es': "snd (snd (seq sts s')) = snd s' @ es'" "list_all P es'"
        unfolding emitsOnly_def by blast
      show ?thesis using r None es es' by (intro exI [of _ "es @ es'"]) simp
    next
      case (Some err)
      show ?thesis using r Some es by (intro exI [of _ es]) simp
    qed
  qed
qed

lemma emitsOnly_bind: "(\<And>b. emitsOnly P (body b)) \<Longrightarrow> emitsOnly P (withRedisTLS r cr body)"
  by (simp add: emitsOnly_def withRedisTLS_def)

lemma reconcileResources_skips_ApplicationSet:
  assumes "ApplicationSet (cr_Spec cr) = None"
  shows "emitsOnly (\<lambda>ev. ev \<noteq> Called ReconcileApplicationSetController) (reconcileResources r cr)"
  unfolding reconcileResources_def using assms
  by (intro emitsOnly_seq emitsOnly_bind) (simp add: emitsOnly_info emitsOnly_returnOnError emitsOnly_logOnError
       emitsOnly_logAndReturnOnError emitsOnly_whenever emitsOnly_seq emitsOnly_bind)

lemma reconcileResources_skips_Notifications:
  assumes "\<not> NotificationsEnabled (cr_Spec cr)"
  shows "emitsOnly (\<lambda>ev. ev \<noteq> Called ReconcileNotificationsController) (reconcileResources r cr)"
  unfolding reconcileResources_def using assms
  by (intro emitsOnly_seq emitsOnly_bind) (simp add: emitsOnly_info emitsOnly_returnOnError emitsOnly_logOnError
       emitsOnly_logAndReturnOnError emitsOnly_whenever emitsOnly_seq emitsOnly_bind)


lemma neverFails_seq: "list_all neverFails sts \<Longrightarrow> neverFails (seq sts)"
proof (induction sts)
  case Nil
  show ?case by (simp add: neverFails_def)
next
  case (Cons st sts)
  then have st: "neverFails st" and rest: "neverFails (seq sts)" by simp_all
  show ?case
    unfolding neverFails_def
  proof
    fix s
    obtain e s' where r: "st s = (e, s')" by (cases "st s")
    then have "e = None" using st unfolding neverFails_def by (metis fst_conv)
    then show "fst (seq (st # sts) s) = None"
      using r rest unfolding neverFails_def by (cases s') simp
  qed
qed

lemma neverFails_info: "neverFails (info msg)"
  by (simp add: neverFails_def info_def)

lemma neverFails_logOnError: "neverFails (logOnError r k cr)"
  by (simp add: neverFails_def logOnError_def split: prod.split option.split)

lemma neverFails_returnOnError:
  "(\<And>w. fst (invoke r k cr w) = None) \<Longrightarrow> neverFails (returnOnError r k cr)"
  by (simp add: neverFails_def returnOnError_def split: prod.split) (metis fst_conv)

lemma neverFails_logAndReturnOnError:
  "(\<And>w. fst (invoke r k cr w) = None) \<Longrightarrow> neverFails (logAndReturnOnError r k cr)"
  by (simp add: neverFails_def logAndReturnOnError_def split: prod.split option.split) (metis fst_conv option.distinct(1))

lemma neverFails_whenever: "(b \<Longrightarrow> neverFails st) \<Longrightarrow> neverFails (whenever b st)"
  by (cases b) (simp_all add: neverFails_def whenever_def)

lemma neverFails_bind: "(\<And>b. neverFails (body b)) \<Longrightarrow> neverFails (withRedisTLS r cr body)"
  by (simp add: neverFails_def withRedisTLS_def)

lemma reconcileResources_succeeds:
  assumes "\<And>k w. k \<noteq> ReconcileSSO \<Longrightarrow> k \<noteq> ReconcileStatus \<Longrightarrow> fst (invoke r k cr w) = None"
  shows "neverFails (reconcileResources r cr)"
  unfolding reconcileResources_def
  by (intro neverFails_seq neverFails_bind)
     (simp add: neverFails_info neverFails_logOnError neverFails_returnOnError
        neverFails_logAndReturnOnError neverFails_whenever neverFails_seq neverFails_bind assms)

lemma logOnError_eq:
  "invoke r k cr w = (e, w') \<Longrightarrow> logOnError r k cr (w, evs) = (None, w', evs @ [Called k] @ errorLogged e)"
  by (simp add: logOnError_def errorLogged_def split: option.split)

lemma returnOnError_ok:
  "fst (invoke r k cr (fst s)) = None \<Longrightarrow>
     returnOnError r k cr s = (None, snd (invoke r k cr (fst s)), snd s @ [Called k])"
  by (cases "invoke r k cr (fst s)") (simp add: returnOnError_def)

lemma logAndReturnOnError_ok:
  "fst (invoke r k cr (fst s)) = None \<Longrightarrow>
     logAndReturnOnError r k cr s = (None, snd (invoke r k cr (fst s)), snd s @ [Called k])"
  by (cases "invoke r k cr (fst s)") (simp add: logAndReturnOnError_def)

lemma succeedsWith_info: "succeedsWith (info msg) [Logged msg]"
  by (simp add: succeedsWith_def info_def)

lemma succeedsWith_returnOnError:
  "(\<And>w. fst (invoke r k cr w) = None) \<Longrightarrow> succeedsWith (returnOnError r k cr) [Called k]"
  by (simp add: succeedsWith_def returnOnError_ok)

lemma succeedsWith_whenever:
  "succeedsWith st es \<Longrightarrow> succeedsWith (whenever b st) (if b then es else [])"
  by (simp add: succeedsWith_def whenever_def)

lemma succeedsWith_seq: "list_all2 succeedsWith sts ess \<Longrightarrow> succeedsWith (seq sts) (concat ess)"
proof (induction sts ess rule: list_all2_induct)
  case Nil
  show ?case by (simp add: succeedsWith_def)
next
  case (Cons st sts es ess)
  show ?case
    unfolding succeedsWith_def
  proof
    fix s
    obtain s' where r: "st s = (None, s')" "snd s' = snd s @ es"
      using Cons.hyps(1) unfolding succeedsWith_def by (metis prod.collapse)
    have "fst (seq sts s') = None" "snd (snd (seq sts s')) = snd s' @ concat ess"
      using Cons.IH unfolding succeedsWith_def by blast+
    then show "fst (seq (st # sts) s) = None \<and> snd (snd (seq (st # sts) s)) = snd s @ concat (es # ess)"
      using r by simp
  qed
qed

lemma reconcileResources_prefix:
  assumes sso: "invoke r ReconcileSSO cr w = (e1, w1)"
      and status: "invoke r ReconcileStatus cr w1 = (e2, w2)"
      and ok: "\<forall>k w'. k \<noteq> ReconcileSSO \<longrightarrow> k \<noteq> ReconcileStatus \<longrightarrow> fst (invoke r k cr w') = None"
  shows "seq [info ''reconciling SSO'',
       logOnError r ReconcileSSO cr,
       info ''reconciling status'',
       logOnError r ReconcileStatus cr,
       info ''reconciling roles'',
       logAndReturnOnError r ReconcileRoles cr,
       info ''reconciling rolebindings'',
       logAndReturnOnError r ReconcileRoleBindings cr,
       info ''reconciling service accounts'',
       logAndReturnOnError r ReconcileServiceAccounts cr,
       info ''reconciling certificate authority'',
       returnOnError r ReconcileCertificateAuthority cr,
       info ''reconciling secrets'',
       returnOnError r ReconcileSecrets cr,
       final] (w, evs) =
     final (worldAfter r cr [ReconcileRoles, ReconcileRoleBindings, ReconcileServiceAccounts,
                  ReconcileCertificateAuthority, ReconcileSecrets] w2,
            evs @ [Logged ''reconciling SSO'', Called ReconcileSSO] @ errorLogged e1
             @ [Logged ''reconciling status'', Called ReconcileStatus] @ errorLogged e2
             @ [Logged ''reconciling roles'', Called ReconcileRoles,
                Logged ''reconciling rolebindings'', Called ReconcileRoleBindings,
                Logged ''reconciling service accounts'', Called ReconcileServiceAccounts,
                Logged ''reconciling certificate authority'', Called ReconcileCertificateAuthority,
                Logged ''reconciling secrets'', Called ReconcileSecrets])"
  using sso status
  by (cases "final (worldAfter r cr [ReconcileRoles, ReconcileRoleBindings, ReconcileServiceAccounts,
                  ReconcileCertificateAuthority, ReconcileSecrets] w2,
            evs @ [Logged ''reconciling SSO'', Called ReconcileSSO] @ errorLogged e1
             @ [Logged ''reconciling status'', Called ReconcileStatus] @ errorLogged e2
             @ [Logged ''reconciling roles'', Called ReconcileRoles,
                Logged ''reconciling rolebindings'', Called ReconcileRoleBindings,
                Logged ''reconciling service accounts'', Called ReconcileServiceAccounts,
                Logged ''reconciling certificate authority'', Called ReconcileCertificateAuthority,
                Logged ''reconciling secrets'', Called ReconcileSecrets])")
     (simp add: info_def logOnError_eq returnOnError_ok logAndReturnOnError_ok worldAfter_def ok
        split: option.split)

lemma reconcileResources_later_stages:
  assumes "\<forall>k w'. k \<noteq> ReconcileSSO \<longrightarrow> k \<noteq> ReconcileStatus \<longrightarrow> fst (invoke r k cr w') = None"
  shows "succeedsWith
     (seq
           [info ''reconciling config maps'',
            returnOnError r (ReconcileConfigMaps useTLSForRedis) cr,
            info ''reconciling services'',
            returnOnError r ReconcileServices cr,
            info ''reconciling deployments'',
            returnOnError r (ReconcileDeployments useTLSForRedis) cr,
            info ''reconciling statefulsets'',
            returnOnError r (ReconcileStatefulSets useTLSForRedis) cr,
            info ''reconciling autoscalers'',
            returnOnError r ReconcileAutoscalers cr,
            info ''reconciling ingresses'',
            returnOnError r ReconcileIngresses cr,
            whenever (IsRouteAPIAvailable r)
              (seq [info ''reconciling routes'',
                    returnOnError r ReconcileRoutes cr]),
            whenever (IsPrometheusAPIAvailable r)
              (seq [info ''reconciling prometheus'',
                    returnOnError r ReconcilePrometheus cr,
                    returnOnError r ReconcilePrometheusRule cr,
                    returnOnError r ReconcileMetricsServiceMonitor cr,
                    returnOnError r ReconcileRepoServerServiceMonitor cr,
                    returnOnError r ReconcileServerMetricsServiceMonitor cr]),
            whenever (ApplicationSet (cr_Spec cr) \<noteq> None)
              (seq [info ''reconciling ApplicationSet controller'',
                    returnOnError r ReconcileApplicationSetController cr]),
            whenever (NotificationsEnabled (cr_Spec cr))
              (seq [info ''reconciling Notifications controller'',
                    returnOnError r ReconcileNotificationsController cr]),
            returnOnError r ReconcileRepoServerTLSSecret cr,
            returnOnError r (ReconcileRedisTLSSecret useTLSForRedis) cr])
     ([Logged ''reconciling config maps'', Called (ReconcileConfigMaps useTLSForRedis),
       Logged ''reconciling services'', Called ReconcileServices,
       Logged ''reconciling deployments'', Called (ReconcileDeployments useTLSForRedis),
       Logged ''reconciling statefulsets'', Called (ReconcileStatefulSets useTLSForRedis),
       Logged ''reconciling autoscalers'', Called ReconcileAutoscalers,
       Logged ''reconciling ingresses'', Called ReconcileIngresses]
      @ (if IsRouteAPIAvailable r
         then [Logged ''reconciling routes'', Called ReconcileRoutes] else [])
      @ (if IsPrometheusAPIAvailable r
         then [Logged ''reconciling prometheus'', Called ReconcilePrometheus,
               Called ReconcilePrometheusRule, Called ReconcileMetricsServiceMonitor,
               Called ReconcileRepoServerServiceMonitor,
               Called ReconcileServerMetricsServiceMonitor] else [])
      @ (if ApplicationSet (cr_Spec cr) \<noteq> None
         then [Logged ''reconciling ApplicationSet controller'',
               Called ReconcileApplicationSetController] else [])
      @ (if NotificationsEnabled (cr_Spec cr)
         then [Logged ''reconciling Notifications controller'',
               Called ReconcileNotificationsController] else [])
      @ [Called ReconcileRepoServerTLSSecret, Called (ReconcileRedisTLSSecret useTLSForRedis)])"
proof -
  have ok: "fst (invoke r k cr w') = None" if "k \<noteq> ReconcileSSO" "k \<noteq> ReconcileStatus" for k w'
    using assms that by blast
  note rules = succeedsWith_info succeedsWith_returnOnError ok
  have routes: "succeedsWith (seq [info ''reconciling routes'', returnOnError r ReconcileRoutes cr])
      [Logged ''reconciling routes'', Called ReconcileRoutes]"
    using succeedsWith_seq [of "[info ''reconciling routes'', returnOnError r ReconcileRoutes cr]"
        "[[Logged ''reconciling routes''], [Called ReconcileRoutes]]"]
    by (simp add: rules)
  have prometheus: "succeedsWith
      (seq [info ''reconciling prometheus'',
            returnOnError r ReconcilePrometheus cr,
            returnOnError r ReconcilePrometheusRule cr,
            returnOnError r ReconcileMetricsServiceMonitor cr,
            returnOnError r ReconcileRepoServerServiceMonitor cr,
            returnOnError r ReconcileServerMetricsServiceMonitor cr])
      [Logged ''reconciling prometheus'', Called ReconcilePrometheus,
       Called ReconcilePrometheusRule, Called ReconcileMetricsServiceMonitor,
       Called ReconcileRepoServerServiceMonitor, Called ReconcileServerMetricsServiceMonitor]"
    using succeedsWith_seq
      [of "[info ''reconciling prometheus'',
            returnOnError r ReconcilePrometheus cr,
            returnOnError r ReconcilePrometheusRule cr,
            returnOnError r ReconcileMetricsServiceMonitor cr,
            returnOnError r ReconcileRepoServerServiceMonitor cr,
            returnOnError r ReconcileServerMetricsServiceMonitor cr]"
          "[[Logged ''reconciling prometheus''], [Called ReconcilePrometheus],
            [Called ReconcilePrometheusRule], [Called ReconcileMetricsServiceMonitor],
            [Called ReconcileRepoServerServiceMonitor], [Called ReconcileServerMetricsServiceMonitor]]"]
    by (simp add: rules)
  have appset: "succeedsWith
      (seq [info ''reconciling ApplicationSet controller'',
            returnOnError r ReconcileApplicationSetController cr])
      [Logged ''reconciling ApplicationSet controller'', Called ReconcileApplicationSetController]"
    using succeedsWith_seq
      [of "[info ''reconciling ApplicationSet controller'',
            returnOnError r ReconcileApplicationSetController cr]"
          "[[Logged ''reconciling ApplicationSet controller''], [Called ReconcileApplicationSetController]]"]
    by (simp add: rules)
  have notifications: "succeedsWith
      (seq [info ''reconciling Notifications controller'',
            returnOnError r ReconcileNotificationsController cr])
      [Logged ''reconciling Notifications controller'', Called ReconcileNotificationsController]"
    using succeedsWith_seq
      [of "[info ''reconciling Notifications controller'',
            returnOnError r ReconcileNotificationsController cr]"
          "[[Logged ''reconciling Notifications controller''], [Called ReconcileNotificationsController]]"]
    by (simp add: rules)
  note gated = succeedsWith_whenever [OF routes, of "IsRouteAPIAvailable r"]
    succeedsWith_whenever [OF prometheus, of "IsPrometheusAPIAvailable r"]
    succeedsWith_whenever [OF appset, of "ApplicationSet (cr_Spec cr) \<noteq> None"]
    succeedsWith_whenever [OF notifications, of "NotificationsEnabled (cr_Spec cr)"]
  have "list_all2 succeedsWith
     [info ''reconciling config maps'',
            returnOnError r (ReconcileConfigMaps useTLSForRedis) cr,
            info ''reconciling services'',
            returnOnError r ReconcileServices cr,
            info ''reconciling deployments'',
            returnOnError r (ReconcileDeployments useTLSForRedis) cr,
            info ''reconciling statefulsets'',
            returnOnError r (ReconcileStatefulSets useTLSForRedis) cr,
            info ''reconciling autoscalers'',
            returnOnError r ReconcileAutoscalers cr,
            info ''reconciling ingresses'',
            returnOnError r ReconcileIngresses cr,
            whenever (IsRouteAPIAvailable r)
              (seq [info ''reconciling routes'',
                    returnOnError r ReconcileRoutes cr]),
            whenever (IsPrometheusAPIAvailable r)
              (seq [info ''reconciling prometheus'',
                    returnOnError r ReconcilePrometheus cr,
                    returnOnError r ReconcilePrometheusRule cr,
                    returnOnError r ReconcileMetricsServiceMonitor cr,
                    returnOnError r ReconcileRepoServerServiceMonitor cr,
                    returnOnError r ReconcileServerMetricsServiceMonitor cr]),
            whenever (ApplicationSet (cr_Spec cr) \<noteq> None)
              (seq [info ''reconciling ApplicationSet controller'',
                    returnOnError r ReconcileApplicationSetController cr]),
            whenever (NotificationsEnabled (cr_Spec cr))
              (seq [info ''reconciling Notifications controller'',
                    returnOnError r ReconcileNotificationsController cr]),
            returnOnError r ReconcileRepoServerTLSSecret cr,
            returnOnError r (ReconcileRedisTLSSecret useTLSForRedis) cr]
     [[Logged ''reconciling config maps''], [Called (ReconcileConfigMaps useTLSForRedis)],
      [Logged ''reconciling services''], [Called ReconcileServices],
      [Logged ''reconciling deployments''], [Called (ReconcileDeployments useTLSForRedis)],
      [Logged ''reconciling statefulsets''], [Called (ReconcileStatefulSets useTLSForRedis)],
      [Logged ''reconciling autoscalers''], [Called ReconcileAutoscalers],
      [Logged ''reconciling ingresses''], [Called ReconcileIngresses],
      if IsRouteAPIAvailable r
         then [Logged ''reconciling routes'', Called ReconcileRoutes] else [],
      if IsPrometheusAPIAvailable r
         then [Logged ''reconciling prometheus'', Called ReconcilePrometheus,
               Called ReconcilePrometheusRule, Called ReconcileMetricsServiceMonitor,
               Called ReconcileRepoServerServiceMonitor,
               Called ReconcileServerMetricsServiceMonitor] else [],
      if ApplicationSet (cr_Spec cr) \<noteq> None
         then [Logged ''reconciling ApplicationSet controller'',
               Called ReconcileApplicationSetController] else [],
      if NotificationsEnabled (cr_Spec cr)
         then [Logged ''reconciling Notifications controller'',
               Called ReconcileNotificationsController] else [],
      [Called ReconcileRepoServerTLSSecret], [Called (ReconcileRedisTLSSecret useTLSForRedis)]]"
    using gated by (simp add: rules del: if_split cong: if_cong)
  from succeedsWith_seq [OF this] show ?thesis
    by (simp del: if_split cong: if_cong)
qed

lemma reconcileResources_run:
  assumes sso: "invoke r ReconcileSSO cr w = (e1, w1)"
      and status: "invoke r ReconcileStatus cr w1 = (e2, w2)"
      and ok: "\<forall>k w'. k \<noteq> ReconcileSSO \<longrightarrow> k \<noteq> ReconcileStatus \<longrightarrow> fst (invoke r k cr w') = None"
  shows "fst (reconcileResources r cr (w, evs)) = None
     \<and> snd (snd (reconcileResources r cr (w, evs))) =
        (let useTLSForRedis = redisShouldUseTLS r cr
               (worldAfter r cr [ReconcileRoles, ReconcileRoleBindings, ReconcileServiceAccounts,
                  ReconcileCertificateAuthority, ReconcileSecrets] w2)
         in evs @ [Logged ''reconciling SSO'', Called ReconcileSSO] @ errorLogged e1
             @ [Logged ''reconciling status'', Called ReconcileStatus] @ errorLogged e2
             @ [Logged ''reconciling roles'', Called ReconcileRoles,
                Logged ''reconciling rolebindings'', Called ReconcileRoleBindings,
                Logged ''reconciling service accounts'', Called ReconcileServiceAccounts,
                Logged ''reconciling certificate authority'', Called ReconcileCertificateAuthority,
                Logged ''reconciling secrets'', Called ReconcileSecrets,
                Logged ''reconciling config maps'', Called (ReconcileConfigMaps useTLSForRedis),
                Logged ''reconciling services'', Called ReconcileServices,
                Logged ''reconciling deployments'', Called (ReconcileDeployments useTLSForRedis),
                Logged ''reconciling statefulsets'', Called (ReconcileStatefulSets useTLSForRedis),
                Logged ''reconciling autoscalers'', Called ReconcileAutoscalers,
                Logged ''reconciling ingresses'', Called ReconcileIngresses]
             @ (if IsRouteAPIAvailable r
                then [Logged ''reconciling routes'', Called ReconcileRoutes] else [])
             @ (if IsPrometheusAPIAvailable r
                then [Logged ''reconciling prometheus'', Called ReconcilePrometheus,
                      Called ReconcilePrometheusRule, Called ReconcileMetricsServiceMonitor,
                      Called ReconcileRepoServerServiceMonitor,
                      Called ReconcileServerMetricsServiceMonitor] else [])
             @ (if ApplicationSet (cr_Spec cr) \<noteq> None
                then [Logged ''reconciling ApplicationSet controller'',
                      Called ReconcileApplicationSetController] else [])
             @ (if NotificationsEnabled (cr_Spec cr)
                then [Logged ''reconciling Notifications controller'',
                      Called ReconcileNotificationsController] else [])
             @ [Called ReconcileRepoServerTLSSecret, Called (ReconcileRedisTLSSecret useTLSForRedis)])"
proof -
  note later = reconcileResources_later_stages [OF ok, unfolded succeedsWith_def, rule_format]
  note l1 = later [THEN conjunct1] and l2 = later [THEN conjunct2]
  show ?thesis
    unfolding reconcileResources_def
    apply (subst reconcileResources_prefix [OF sso status ok])
    apply (subst reconcileResources_prefix [OF sso status ok])
    apply (simp only: withRedisTLS_def fst_conv)
    apply (simp only: l1 l2 snd_conv)
    apply (simp add: Let_def del: if_split cong: if_cong)
    done
qed


subsection \<open>Teardown\<close>

text \<open>
  C3. For an Instance that \<^verbatim>\<open>Reconcile\<close> fetches with a deletion timestamp set: when the
  finalizer is present and every teardown step succeeds, the invocation calls, in this
  order and nothing else, \<^verbatim>\<open>deleteClusterResources\<close>, \<^verbatim>\<open>removeManagedByLabelFromNamespaces\<close>
  (only when \<^verbatim>\<open>isRemoveManagedByLabelOnArgoCDDeletion\<close> holds),
  \<^verbatim>\<open>removeUnmanagedSourceNamespaceResources\<close> and \<^verbatim>\<open>removeDeletionFinalizer\<close>, then removes
  the entry of the Instance's namespace from the \<^verbatim>\<open>DeprecationEventEmissionTracker\<close>, and
  returns success; no stage of the resource pipeline is called. When the finalizer is
  absent, it returns success right after the fetch: no teardown step, no pipeline stage.
\<close>

theorem Reconcile_teardown:
  assumes "getArgoCD r request w = (Inr argocd, w1)"
      and "cr_DeletionTimestamp argocd \<noteq> None"
  shows "(IsDeletionFinalizerPresent fin argocd \<longrightarrow>
           invoke r DeleteClusterResources argocd w1 = (None, w2) \<longrightarrow>
           (if isRemoveManagedByLabelOnArgoCDDeletion r
            then invoke r (RemoveManagedByLabelFromNamespaces (cr_Namespace argocd)) argocd w2
            else (None, w2)) = (None, w3) \<longrightarrow>
           invoke r RemoveUnmanagedSourceNamespaceResources argocd w3 = (None, w4) \<longrightarrow>
           invoke r RemoveDeletionFinalizer argocd w4 = (None, w5) \<longrightarrow>
           Reconcile r fin request (w, evs) =
             (None,
              w5\<lparr>DeprecationEventEmissionTracker :=
                    (DeprecationEventEmissionTracker w5)(cr_Namespace argocd := None)\<rparr>,
              evs @ [Logged ''Reconciling from ArgoCD'', Called ClientGet, Called DeleteClusterResources]
                  @ (if isRemoveManagedByLabelOnArgoCDDeletion r
                     then [Called (RemoveManagedByLabelFromNamespaces (cr_Namespace argocd))] else [])
                  @ [Called RemoveUnmanagedSourceNamespaceResources, Called RemoveDeletionFinalizer]))
       \<and> (\<not> IsDeletionFinalizerPresent fin argocd \<longrightarrow>
           Reconcile r fin request (w, evs) =
             (None, w1, evs @ [Logged ''Reconciling from ArgoCD'', Called ClientGet]))"
proof -
  have forget: "(if DeprecationEventEmissionTracker w5 ns \<noteq> None
        then w5\<lparr>DeprecationEventEmissionTracker := (DeprecationEventEmissionTracker w5)(ns := None)\<rparr>
        else w5) =
       w5\<lparr>DeprecationEventEmissionTracker := (DeprecationEventEmissionTracker w5)(ns := None)\<rparr>" for ns
    by (cases "DeprecationEventEmissionTracker w5 ns") (simp_all add: fun_upd_idem)
  show ?thesis
    using assms forget [of "cr_Namespace argocd"]
    by (auto simp: Reconcile_def wrapOnError_def returnOnError_def whenever_def
          forgetDeprecationEvents_def Let_def split: if_splits)
qed




theorem Reconcile_teardown_witness:
  "Reconcile (recordingReconciler (\<lambda>k. None) deletingArgoCD True) ''argoproj.io/finalizer''
      (''argocd'', ''argocd'') (trackedWorld, []) =
     (None,
      \<lparr>DeprecationEventEmissionTracker = Map.empty,
       rest = [DeleteClusterResources, RemoveManagedByLabelFromNamespaces ''argocd'',
               RemoveUnmanagedSourceNamespaceResources, RemoveDeletionFinalizer]\<rparr>,
      [Logged ''Reconciling from ArgoCD'', Called ClientGet, Called DeleteClusterResources,
       Called (RemoveManagedByLabelFromNamespaces ''argocd''),
       Called RemoveUnmanagedSourceNamespaceResources, Called RemoveDeletionFinalizer])
   \<and> Reconcile (recordingReconciler (\<lambda>k. None) (deletingArgoCD\<lparr>cr_Finalizers := []\<rparr>) True)
      ''argoproj.io/finalizer'' (''argocd'', ''argocd'') (trackedWorld, []) =
     (None, trackedWorld, [Logged ''Reconciling from ArgoCD'', Called ClientGet])"
proof -
  let ?r = "recordingReconciler (\<lambda>k. None) deletingArgoCD True"
  let ?r' = "recordingReconciler (\<lambda>k. None) (deletingArgoCD\<lparr>cr_Finalizers := []\<rparr>) True"
  have get: "getArgoCD ?r (''argocd'', ''argocd'') trackedWorld = (Inr deletingArgoCD, trackedWorld)"
    by (simp add: recordingReconciler_def)
  have ts: "cr_DeletionTimestamp deletingArgoCD \<noteq> None"
    by (simp add: deletingArgoCD_def)
  have get': "getArgoCD ?r' (''argocd'', ''argocd'') trackedWorld =
      (Inr (deletingArgoCD\<lparr>cr_Finalizers := []\<rparr>), trackedWorld)"
    by (simp add: recordingReconciler_def)
  have ts': "cr_DeletionTimestamp (deletingArgoCD\<lparr>cr_Finalizers := []\<rparr>) \<noteq> None"
    by (simp add: deletingArgoCD_def)
  show ?thesis
    using Reconcile_teardown [OF get ts, of "''argoproj.io/finalizer''"
        "trackedWorld\<lparr>rest := [DeleteClusterResources]\<rparr>"
        "trackedWorld\<lparr>rest := [DeleteClusterResources, RemoveManagedByLabelFromNamespaces ''argocd'']\<rparr>"
        "trackedWorld\<lparr>rest := [DeleteClusterResources, RemoveManagedByLabelFromNamespaces ''argocd'',
           RemoveUnmanagedSourceNamespaceResources]\<rparr>"
        "trackedWorld\<lparr>rest := [DeleteClusterResources, RemoveManagedByLabelFromNamespaces ''argocd'',
           RemoveUnmanagedSourceNamespaceResources, RemoveDeletionFinalizer]\<rparr>" "[]"]
      Reconcile_teardown [OF get' ts', of "''argoproj.io/finalizer''" _ _ _ _ "[]"]
    by (simp add: recordingReconciler_def deletingArgoCD_def testArgoCD_def trackedWorld_def
          IsDeletionFinalizerPresent_def)
qed

text \<open>
  C4. For an Instance under deletion with its finalizer present: when
  \<^verbatim>\<open>deleteClusterResources\<close>, \<^verbatim>\<open>removeManagedByLabelFromNamespaces\<close> or
  \<^verbatim>\<open>removeUnmanagedSourceNamespaceResources\<close> returns an error, \<^verbatim>\<open>Reconcile\<close> returns that
  error (wrapped with a message that says which step failed) and stops there: the failing
  step is the last method called, so \<^verbatim>\<open>removeDeletionFinalizer\<close> is not called and the
  world is as the failing step left it.
\<close>

theorem Reconcile_teardown_failure:
  assumes "getArgoCD r request w = (Inr argocd, w1)"
      and "cr_DeletionTimestamp argocd \<noteq> None"
      and "IsDeletionFinalizerPresent fin argocd"
  shows
    "(invoke r DeleteClusterResources argocd w1 = (Some e, w2) \<longrightarrow>
        Reconcile r fin request (w, evs) =
          (Some (Wrapped ''failed to delete ClusterResources'' e), w2,
           evs @ [Logged ''Reconciling from ArgoCD'', Called ClientGet, Called DeleteClusterResources]))
   \<and> (invoke r DeleteClusterResources argocd w1 = (None, w2) \<longrightarrow>
      isRemoveManagedByLabelOnArgoCDDeletion r \<longrightarrow>
      invoke r (RemoveManagedByLabelFromNamespaces (cr_Namespace argocd)) argocd w2 = (Some e, w3) \<longrightarrow>
        Reconcile r fin request (w, evs) =
          (Some (Wrapped (''failed to remove label from namespace['' @ cr_Namespace argocd @ ''], error'') e),
           w3,
           evs @ [Logged ''Reconciling from ArgoCD'', Called ClientGet, Called DeleteClusterResources,
                  Called (RemoveManagedByLabelFromNamespaces (cr_Namespace argocd))]))
   \<and> (invoke r DeleteClusterResources argocd w1 = (None, w2) \<longrightarrow>
      (if isRemoveManagedByLabelOnArgoCDDeletion r
       then invoke r (RemoveManagedByLabelFromNamespaces (cr_Namespace argocd)) argocd w2
       else (None, w2)) = (None, w3) \<longrightarrow>
      invoke r RemoveUnmanagedSourceNamespaceResources argocd w3 = (Some e, w4) \<longrightarrow>
        Reconcile r fin request (w, evs) =
          (Some (Wrapped ''failed to remove resources from sourceNamespaces, error'' e), w4,
           evs @ [Logged ''Reconciling from ArgoCD'', Called ClientGet, Called DeleteClusterResources]
               @ (if isRemoveManagedByLabelOnArgoCDDeletion r
                  then [Called (RemoveManagedByLabelFromNamespaces (cr_Namespace argocd))] else [])
               @ [Called RemoveUnmanagedSourceNamespaceResources]))"
  using assms
  by (auto simp: Reconcile_def wrapOnError_def returnOnError_def whenever_def Let_def)

theorem Reconcile_teardown_failure_witness:
  "Reconcile (recordingReconciler (failingAt [DeleteClusterResources]) deletingArgoCD True)
      ''argoproj.io/finalizer'' (''argocd'', ''argocd'') (trackedWorld, []) =
     (Some (Wrapped ''failed to delete ClusterResources'' (Failure ''boom'')),
      trackedWorld\<lparr>rest := [DeleteClusterResources]\<rparr>,
      [Logged ''Reconciling from ArgoCD'', Called ClientGet, Called DeleteClusterResources])
   \<and> Reconcile (recordingReconciler (failingAt [RemoveManagedByLabelFromNamespaces ''argocd''])
        deletingArgoCD True)
      ''argoproj.io/finalizer'' (''argocd'', ''argocd'') (trackedWorld, []) =
     (Some (Wrapped ''failed to remove label from namespace[argocd], error'' (Failure ''boom'')),
      trackedWorld\<lparr>rest := [DeleteClusterResources, RemoveManagedByLabelFromNamespaces ''argocd'']\<rparr>,
      [Logged ''Reconciling from ArgoCD'', Called ClientGet, Called DeleteClusterResources,
       Called (RemoveManagedByLabelFromNamespaces ''argocd'')])
   \<and> Reconcile (recordingReconciler (failingAt [RemoveUnmanagedSourceNamespaceResources])
        deletingArgoCD False)
      ''argoproj.io/finalizer'' (''argocd'', ''argocd'') (trackedWorld, []) =
     (Some (Wrapped ''failed to remove resources from sourceNamespaces, error'' (Failure ''boom'')),
      trackedWorld\<lparr>rest := [DeleteClusterResources, RemoveUnmanagedSourceNamespaceResources]\<rparr>,
      [Logged ''Reconciling from ArgoCD'', Called ClientGet, Called DeleteClusterResources,
       Called RemoveUnmanagedSourceNamespaceResources])"
proof -
  have ts: "cr_DeletionTimestamp deletingArgoCD \<noteq> None"
    by (simp add: deletingArgoCD_def)
  have fin: "IsDeletionFinalizerPresent ''argoproj.io/finalizer'' deletingArgoCD"
    by (simp add: IsDeletionFinalizerPresent_def deletingArgoCD_def)
  have get: "getArgoCD (recordingReconciler fails deletingArgoCD b) (''argocd'', ''argocd'') trackedWorld =
      (Inr deletingArgoCD, trackedWorld)" for fails b
    by (simp add: recordingReconciler_def)
  show ?thesis
    using Reconcile_teardown_failure [OF get [of "failingAt [DeleteClusterResources]" True] ts fin,
        where e = "Failure ''boom''" and evs = "[]"
          and ?w2.0 = "trackedWorld\<lparr>rest := [DeleteClusterResources]\<rparr>"]
      Reconcile_teardown_failure
        [OF get [of "failingAt [RemoveManagedByLabelFromNamespaces ''argocd'']" True] ts fin,
        where e = "Failure ''boom''" and evs = "[]"
          and ?w2.0 = "trackedWorld\<lparr>rest := [DeleteClusterResources]\<rparr>"
          and ?w3.0 = "trackedWorld\<lparr>rest := [DeleteClusterResources,
                         RemoveManagedByLabelFromNamespaces ''argocd'']\<rparr>"]
      Reconcile_teardown_failure
        [OF get [of "failingAt [RemoveUnmanagedSourceNamespaceResources]" False] ts fin,
        where e = "Failure ''boom''" and evs = "[]"
          and ?w2.0 = "trackedWorld\<lparr>rest := [DeleteClusterResources]\<rparr>"
          and ?w3.0 = "trackedWorld\<lparr>rest := [DeleteClusterResources]\<rparr>"
          and ?w4.0 = "trackedWorld\<lparr>rest := [DeleteClusterResources,
                         RemoveUnmanagedSourceNamespaceResources]\<rparr>"]
    by (simp add: recordingReconciler_def failingAt_def deletingArgoCD_def testArgoCD_def
          trackedWorld_def)
qed

subsection \<open>The failure policy of the pipeline\<close>

text \<open>
  C5. In \<^verbatim>\<open>reconcileResources\<close>, whatever the SSO stage and the status stage return: an error
  of theirs is logged and the next stage is called. An error of the roles stage, of the
  role-bindings stage or of the service-accounts stage is logged and returned, and that
  stage is the last one called. When every stage but those two succeeds, the invocation
  succeeds, also when the SSO stage or the status stage returned an error, and its events
  are, in order: the SSO stage and the line logged for its error, the status stage and the
  line logged for its error, then every later stage of the pipeline (those behind a gate
  when their gate is open).
\<close>

theorem reconcileResources_failure_policy:
  assumes sso: "invoke r ReconcileSSO cr w = (e1, w1)"
      and status: "invoke r ReconcileStatus cr w1 = (e2, w2)"
  shows
    "(invoke r ReconcileRoles cr w2 = (Some e, w3) \<longrightarrow>
        reconcileResources r cr (w, evs) =
          (Some e, w3,
           evs @ [Logged ''reconciling SSO'', Called ReconcileSSO] @ errorLogged e1
               @ [Logged ''reconciling status'', Called ReconcileStatus] @ errorLogged e2
               @ [Logged ''reconciling roles'', Called ReconcileRoles, Logged (ErrorString e)]))
   \<and> (invoke r ReconcileRoles cr w2 = (None, w3) \<longrightarrow>
      invoke r ReconcileRoleBindings cr w3 = (Some e, w4) \<longrightarrow>
        reconcileResources r cr (w, evs) =
          (Some e, w4,
           evs @ [Logged ''reconciling SSO'', Called ReconcileSSO] @ errorLogged e1
               @ [Logged ''reconciling status'', Called ReconcileStatus] @ errorLogged e2
               @ [Logged ''reconciling roles'', Called ReconcileRoles,
                  Logged ''reconciling rolebindings'', Called ReconcileRoleBindings,
                  Logged (ErrorString e)]))
   \<and> (invoke r ReconcileRoles cr w2 = (None, w3) \<longrightarrow>
      invoke r ReconcileRoleBindings cr w3 = (None, w4) \<longrightarrow>
      invoke r ReconcileServiceAccounts cr w4 = (Some e, w5) \<longrightarrow>
        reconcileResources r cr (w, evs) =
          (Some e, w5,
           evs @ [Logged ''reconciling SSO'', Called ReconcileSSO] @ errorLogged e1
               @ [Logged ''reconciling status'', Called ReconcileStatus] @ errorLogged e2
               @ [Logged ''reconciling roles'', Called ReconcileRoles,
                  Logged ''reconciling rolebindings'', Called ReconcileRoleBindings,
                  Logged ''reconciling service accounts'', Called ReconcileServiceAccounts,
                  Logged (ErrorString e)]))
   \<and> ((\<forall>k w'. k \<noteq> ReconcileSSO \<longrightarrow> k \<noteq> ReconcileStatus \<longrightarrow> fst (invoke r k cr w') = None) \<longrightarrow>
        fst (reconcileResources r cr (w, evs)) = None
        \<and> snd (snd (reconcileResources r cr (w, evs))) =
        (let useTLSForRedis = redisShouldUseTLS r cr
               (worldAfter r cr [ReconcileRoles, ReconcileRoleBindings, ReconcileServiceAccounts,
                  ReconcileCertificateAuthority, ReconcileSecrets] w2)
         in evs @ [Logged ''reconciling SSO'', Called ReconcileSSO] @ errorLogged e1
             @ [Logged ''reconciling status'', Called ReconcileStatus] @ errorLogged e2
             @ [Logged ''reconciling roles'', Called ReconcileRoles,
                Logged ''reconciling rolebindings'', Called ReconcileRoleBindings,
                Logged ''reconciling service accounts'', Called ReconcileServiceAccounts,
                Logged ''reconciling certificate authority'', Called ReconcileCertificateAuthority,
                Logged ''reconciling secrets'', Called ReconcileSecrets,
                Logged ''reconciling config maps'', Called (ReconcileConfigMaps useTLSForRedis),
                Logged ''reconciling services'', Called ReconcileServices,
                Logged ''reconciling deployments'', Called (ReconcileDeployments useTLSForRedis),
                Logged ''reconciling statefulsets'', Called (ReconcileStatefulSets useTLSForRedis),
                Logged ''reconciling autoscalers'', Called ReconcileAutoscalers,
                Logged ''reconciling ingresses'', Called ReconcileIngresses]
             @ (if IsRouteAPIAvailable r
                then [Logged ''reconciling routes'', Called ReconcileRoutes] else [])
             @ (if IsPrometheusAPIAvailable r
                then [Logged ''reconciling prometheus'', Called ReconcilePrometheus,
                      Called ReconcilePrometheusRule, Called ReconcileMetricsServiceMonitor,
                      Called ReconcileRepoServerServiceMonitor,
                      Called ReconcileServerMetricsServiceMonitor] else [])
             @ (if ApplicationSet (cr_Spec cr) \<noteq> None
                then [Logged ''reconciling ApplicationSet controller'',
                      Called ReconcileApplicationSetController] else [])
             @ (if NotificationsEnabled (cr_Spec cr)
                then [Logged ''reconciling Notifications controller'',
                      Called ReconcileNotificationsController] else [])
             @ [Called ReconcileRepoServerTLSSecret, Called (ReconcileRedisTLSSecret useTLSForRedis)]))"
proof (intro conjI impI)
  assume "invoke r ReconcileRoles cr w2 = (Some e, w3)"
  then show "reconcileResources r cr (w, evs) =
          (Some e, w3,
           evs @ [Logged ''reconciling SSO'', Called ReconcileSSO] @ errorLogged e1
               @ [Logged ''reconciling status'', Called ReconcileStatus] @ errorLogged e2
               @ [Logged ''reconciling roles'', Called ReconcileRoles, Logged (ErrorString e)])"
    using sso status
    by (simp add: reconcileResources_def info_def logOnError_eq logAndReturnOnError_def)
next
  assume "invoke r ReconcileRoles cr w2 = (None, w3)" "invoke r ReconcileRoleBindings cr w3 = (Some e, w4)"
  then show "reconcileResources r cr (w, evs) =
          (Some e, w4,
           evs @ [Logged ''reconciling SSO'', Called ReconcileSSO] @ errorLogged e1
               @ [Logged ''reconciling status'', Called ReconcileStatus] @ errorLogged e2
               @ [Logged ''reconciling roles'', Called ReconcileRoles,
                  Logged ''reconciling rolebindings'', Called ReconcileRoleBindings,
                  Logged (ErrorString e)])"
    using sso status
    by (simp add: reconcileResources_def info_def logOnError_eq logAndReturnOnError_def)
next
  assume "invoke r ReconcileRoles cr w2 = (None, w3)" "invoke r ReconcileRoleBindings cr w3 = (None, w4)"
    "invoke r ReconcileServiceAccounts cr w4 = (Some e, w5)"
  then show "reconcileResources r cr (w, evs) =
          (Some e, w5,
           evs @ [Logged ''reconciling SSO'', Called ReconcileSSO] @ errorLogged e1
               @ [Logged ''reconciling status'', Called ReconcileStatus] @ errorLogged e2
               @ [Logged ''reconciling roles'', Called ReconcileRoles,
                  Logged ''reconciling rolebindings'', Called ReconcileRoleBindings,
                  Logged ''reconciling service accounts'', Called ReconcileServiceAccounts,
                  Logged (ErrorString e)])"
    using sso status
    by (simp add: reconcileResources_def info_def logOnError_eq logAndReturnOnError_def)
next
  assume "\<forall>k w'. k \<noteq> ReconcileSSO \<longrightarrow> k \<noteq> ReconcileStatus \<longrightarrow> fst (invoke r k cr w') = None"
  then have "neverFails (reconcileResources r cr)"
    by (intro reconcileResources_succeeds) simp
  then show "fst (reconcileResources r cr (w, evs)) = None"
    by (simp add: neverFails_def)
next
  assume ok: "\<forall>k w'. k \<noteq> ReconcileSSO \<longrightarrow> k \<noteq> ReconcileStatus \<longrightarrow> fst (invoke r k cr w') = None"
  from reconcileResources_run [OF sso status ok, of evs]
  show "snd (snd (reconcileResources r cr (w, evs))) =
        (let useTLSForRedis = redisShouldUseTLS r cr
               (worldAfter r cr [ReconcileRoles, ReconcileRoleBindings, ReconcileServiceAccounts,
                  ReconcileCertificateAuthority, ReconcileSecrets] w2)
         in evs @ [Logged ''reconciling SSO'', Called ReconcileSSO] @ errorLogged e1
             @ [Logged ''reconciling status'', Called ReconcileStatus] @ errorLogged e2
             @ [Logged ''reconciling roles'', Called ReconcileRoles,
                Logged ''reconciling rolebindings'', Called ReconcileRoleBindings,
                Logged ''reconciling service accounts'', Called ReconcileServiceAccounts,
                Logged ''reconciling certificate authority'', Called ReconcileCertificateAuthority,
                Logged ''reconciling secrets'', Called ReconcileSecrets,
                Logged ''reconciling config maps'', Called (ReconcileConfigMaps useTLSForRedis),
                Logged ''reconciling services'', Called ReconcileServices,
                Logged ''reconciling deployments'', Called (ReconcileDeployments useTLSForRedis),
                Logged ''reconciling statefulsets'', Called (ReconcileStatefulSets useTLSForRedis),
                Logged ''reconciling autoscalers'', Called ReconcileAutoscalers,
                Logged ''reconciling ingresses'', Called ReconcileIngresses]
             @ (if IsRouteAPIAvailable r
                then [Logged ''reconciling routes'', Called ReconcileRoutes] else [])
             @ (if IsPrometheusAPIAvailable r
                then [Logged ''reconciling prometheus'', Called ReconcilePrometheus,
                      Called ReconcilePrometheusRule, Called ReconcileMetricsServiceMonitor,
                      Called ReconcileRepoServerServiceMonitor,
                      Called ReconcileServerMetricsServiceMonitor] else [])
             @ (if ApplicationSet (cr_Spec cr) \<noteq> None
                then [Logged ''reconciling ApplicationSet controller'',
                      Called ReconcileApplicationSetController] else [])
             @ (if NotificationsEnabled (cr_Spec cr)
                then [Logged ''reconciling Notifications controller'',
                      Called ReconcileNotificationsController] else [])
             @ [Called ReconcileRepoServerTLSSecret, Called (ReconcileRedisTLSSecret useTLSForRedis)])"
    by (rule conjunct2)
qed

theorem reconcileResources_failure_policy_witness:
  "reconcileResources (recordingReconciler (failingAt [ReconcileSSO, ReconcileRoles]) testArgoCD False)
      testArgoCD (trackedWorld, []) =
     (Some (Failure ''boom''),
      trackedWorld\<lparr>rest := [ReconcileSSO, ReconcileStatus, ReconcileRoles]\<rparr>,
      [Logged ''reconciling SSO'', Called ReconcileSSO, Logged ''boom'',
       Logged ''reconciling status'', Called ReconcileStatus,
       Logged ''reconciling roles'', Called ReconcileRoles, Logged ''boom''])
   \<and> reconcileResources (recordingReconciler (failingAt [ReconcileStatus, ReconcileRoleBindings]) testArgoCD False)
      testArgoCD (trackedWorld, []) =
     (Some (Failure ''boom''),
      trackedWorld\<lparr>rest := [ReconcileSSO, ReconcileStatus, ReconcileRoles, ReconcileRoleBindings]\<rparr>,
      [Logged ''reconciling SSO'', Called ReconcileSSO,
       Logged ''reconciling status'', Called ReconcileStatus, Logged ''boom'',
       Logged ''reconciling roles'', Called ReconcileRoles,
       Logged ''reconciling rolebindings'', Called ReconcileRoleBindings, Logged ''boom''])
   \<and> reconcileResources (recordingReconciler (failingAt [ReconcileServiceAccounts]) testArgoCD False)
      testArgoCD (trackedWorld, []) =
     (Some (Failure ''boom''),
      trackedWorld\<lparr>rest := [ReconcileSSO, ReconcileStatus, ReconcileRoles, ReconcileRoleBindings,
         ReconcileServiceAccounts]\<rparr>,
      [Logged ''reconciling SSO'', Called ReconcileSSO,
       Logged ''reconciling status'', Called ReconcileStatus,
       Logged ''reconciling roles'', Called ReconcileRoles,
       Logged ''reconciling rolebindings'', Called ReconcileRoleBindings,
       Logged ''reconciling service accounts'', Called ReconcileServiceAccounts, Logged ''boom''])
   \<and> fst (reconcileResources (recordingReconciler (failingAt [ReconcileSSO, ReconcileStatus]) testArgoCD False)
        rolloutsArgoCD (trackedWorld, [])) = None
   \<and> snd (snd (reconcileResources
          (recordingReconciler (failingAt [ReconcileSSO, ReconcileStatus]) testArgoCD False)
          rolloutsArgoCD (trackedWorld, []))) =
      [Logged ''reconciling SSO'', Called ReconcileSSO, Logged ''boom'',
       Logged ''reconciling status'', Called ReconcileStatus, Logged ''boom'',
       Logged ''reconciling roles'', Called ReconcileRoles,
       Logged ''reconciling rolebindings'', Called ReconcileRoleBindings,
       Logged ''reconciling service accounts'', Called ReconcileServiceAccounts,
       Logged ''reconciling certificate authority'', Called ReconcileCertificateAuthority,
       Logged ''reconciling secrets'', Called ReconcileSecrets,
       Logged ''reconciling config maps'', Called (ReconcileConfigMaps False),
       Logged ''reconciling services'', Called ReconcileServices,
       Logged ''reconciling deployments'', Called (ReconcileDeployments False),
       Logged ''reconciling statefulsets'', Called (ReconcileStatefulSets False),
       Logged ''reconciling autoscalers'', Called ReconcileAutoscalers,
       Logged ''reconciling ingresses'', Called ReconcileIngresses,
       Logged ''reconciling ApplicationSet controller'', Called ReconcileApplicationSetController,
       Called ReconcileRepoServerTLSSecret, Called (ReconcileRedisTLSSecret False)]"
proof -
  have inv: "invoke (recordingReconciler fails testArgoCD False) k cr w =
      (fails k, w\<lparr>rest := rest w @ [k]\<rparr>)" for fails k w and cr :: argoCD
    by (simp add: recordingReconciler_def)
  have ok: "\<forall>k w'. k \<noteq> ReconcileSSO \<longrightarrow> k \<noteq> ReconcileStatus \<longrightarrow>
      fst (invoke (recordingReconciler (failingAt [ReconcileSSO, ReconcileStatus]) testArgoCD False)
             k rolloutsArgoCD w') = None"
    by (simp add: inv failingAt_def)
  have flags: "\<not> IsRouteAPIAvailable (recordingReconciler fails testArgoCD False)"
    "\<not> IsPrometheusAPIAvailable (recordingReconciler fails testArgoCD False)"
    "redisShouldUseTLS (recordingReconciler fails testArgoCD False) cr w = False"
    "ApplicationSet (cr_Spec rolloutsArgoCD) \<noteq> None"
    "\<not> NotificationsEnabled (cr_Spec rolloutsArgoCD)" for fails w and cr :: argoCD
    by (simp_all add: recordingReconciler_def rolloutsArgoCD_def testArgoCD_def testSpec_def)
  show ?thesis
    using reconcileResources_failure_policy
        [OF inv [of "failingAt [ReconcileSSO, ReconcileRoles]" ReconcileSSO testArgoCD trackedWorld] inv,
        where e = "Failure ''boom''" and evs = "[]"
          and ?w3.0 = "trackedWorld\<lparr>rest := [ReconcileSSO, ReconcileStatus, ReconcileRoles]\<rparr>"]
      reconcileResources_failure_policy
        [OF inv [of "failingAt [ReconcileStatus, ReconcileRoleBindings]" ReconcileSSO testArgoCD trackedWorld] inv,
        where e = "Failure ''boom''" and evs = "[]"
          and ?w3.0 = "trackedWorld\<lparr>rest := [ReconcileSSO, ReconcileStatus, ReconcileRoles]\<rparr>"
          and ?w4.0 = "trackedWorld\<lparr>rest := [ReconcileSSO, ReconcileStatus, ReconcileRoles,
                         ReconcileRoleBindings]\<rparr>"]
      reconcileResources_failure_policy
        [OF inv [of "failingAt [ReconcileServiceAccounts]" ReconcileSSO testArgoCD trackedWorld] inv,
        where e = "Failure ''boom''" and evs = "[]"
          and ?w3.0 = "trackedWorld\<lparr>rest := [ReconcileSSO, ReconcileStatus, ReconcileRoles]\<rparr>"
          and ?w4.0 = "trackedWorld\<lparr>rest := [ReconcileSSO, ReconcileStatus, ReconcileRoles,
                         ReconcileRoleBindings]\<rparr>"
          and ?w5.0 = "trackedWorld\<lparr>rest := [ReconcileSSO, ReconcileStatus, ReconcileRoles,
                         ReconcileRoleBindings, ReconcileServiceAccounts]\<rparr>"]
      reconcileResources_failure_policy
        [OF inv [of "failingAt [ReconcileSSO, ReconcileStatus]" ReconcileSSO rolloutsArgoCD trackedWorld] inv,
        where evs = "[]"] ok
    by (simp add: inv failingAt_def errorLogged_def trackedWorld_def flags Let_def)
qed

subsection \<open>The client, owner references and the single resources\<close>

lemmas client_defs = clientGet_def clientCreate_def clientUpdate_def clientDelete_def apiCall_def
  FetchObject_def IsObjectFound_def serviceR_def serviceMonitorR_def serviceAccountR_def
  secretR_def deploymentR_def logInfo_def logDebug_def logError_def

lemma reconcileRolloutsService_deletes:
  assumes "Rollouts (cr_Spec cr) = None"
      and "services c (cr_Namespace cr, Name (svc_Meta (newServiceWithSuffix d ''argo-rollouts'' ''controller'' cr))) = Some found"
      and "Namespace (svc_Meta found) = cr_Namespace cr"
      and "Name (svc_Meta found) = Name (svc_Meta (newServiceWithSuffix d ''argo-rollouts'' ''controller'' cr))"
      and "apiFaults c (apiCalls c) = None" and "apiFaults c (Suc (apiCalls c)) = None"
  shows "\<exists>ws. writes (snd (reconcileRolloutsService d sch cr c)) =
           writes c @ (VDelete, KService, cr_Namespace cr, Name (svc_Meta found)) # ws"
  using assms
  by (auto simp: reconcileRolloutsService_def createRolloutsService_def client_defs Let_def
       split: option.split sum.split prod.split)

lemma reconcileRolloutsService_found_enabled:
  assumes "Rollouts (cr_Spec cr) \<noteq> None"
      and "services c (cr_Namespace cr, Name (svc_Meta (newServiceWithSuffix d ''argo-rollouts'' ''controller'' cr))) = Some found"
      and "apiFaults c (apiCalls c) = None"
  shows "fst (reconcileRolloutsService d sch cr c) = None \<and> unchanged c (snd (reconcileRolloutsService d sch cr c))"
  using assms
  by (auto simp: reconcileRolloutsService_def client_defs Let_def unchanged_def)

lemma reconcileRolloutsSecrets_found:
  assumes "secrets c (cr_Namespace cr, ''argo-rollouts-notification-secret'') = Some found"
      and "apiFaults c (apiCalls c) = None"
  shows "fst (reconcileRolloutsSecrets cr c) = None \<and> unchanged c (snd (reconcileRolloutsSecrets cr c))"
  using assms
  by (auto simp: reconcileRolloutsSecrets_def client_defs Let_def unchanged_def)

lemma reconcileRolloutsServiceAccount_found:
  assumes "setRolloutsLabels (sa_Meta (newServiceAccountWithName d ''argo-rollouts'' cr)) = Inr m"
      and "serviceAccounts c (cr_Namespace cr, Name m) = Some found"
      and "apiFaults c (apiCalls c) = None"
  shows "fst (reconcileRolloutsServiceAccount d sch cr c) = Returned found
         \<and> unchanged c (snd (reconcileRolloutsServiceAccount d sch cr c))"
  using assms
  by (auto simp: reconcileRolloutsServiceAccount_def client_defs Let_def unchanged_def)

lemma setOwnerOrLog_key:
  "setOwnerOrLog rr svc c = (svc', c') \<Longrightarrow>
     Name (svc_Meta svc') = Name (svc_Meta svc) \<and> Namespace (svc_Meta svc') = Namespace (svc_Meta svc)
     \<and> svc_Spec svc' = svc_Spec svc \<and> unchanged c c' \<and> apiCalls c' = apiCalls c \<and> apiFaults c' = apiFaults c"
  by (auto simp: setOwnerOrLog_def SetControllerReference_def unchanged_def logError_def split: if_splits sum.splits)

lemma reconcileHAMasterService_found:
  assumes "rr_RequestService rr (haMasterServiceRequest rr) = (desired, None)"
      and "services c (Namespace (svc_Meta desired), Name (svc_Meta desired)) = Some found"
      and "apiFaults c (apiCalls c) = None"
  shows "fst (reconcileHAMasterService rr c) = None \<and> unchanged c (snd (reconcileHAMasterService rr c))"
proof -
  obtain svc' c0 where so: "setOwnerOrLog rr desired c = (svc', c0)" by (cases "setOwnerOrLog rr desired c")
  note k = setOwnerOrLog_key [OF so]
  show ?thesis
    using assms so k
    by (auto simp: reconcileHAMasterService_def GetService_def client_defs Let_def unchanged_def)
qed

lemma SetControllerReference_frame:
  "SetControllerReference owner m sch = Inr m' \<Longrightarrow>
     Name m' = Name m \<and> Namespace m' = Namespace m \<and> Labels m' = Labels m
     \<and> Annotations m' = Annotations m \<and> ResourceVersion m' = ResourceVersion m"
  by (auto simp: SetControllerReference_def split: if_splits)

lemma setOwnerOrLogSM_frame:
  "setOwnerOrLogSM rsr sm c = (sm', c') \<Longrightarrow>
     Name (sm_Meta sm') = Name (sm_Meta sm) \<and> Namespace (sm_Meta sm') = Namespace (sm_Meta sm)
     \<and> Labels (sm_Meta sm') = Labels (sm_Meta sm)
     \<and> ResourceVersion (sm_Meta sm') = ResourceVersion (sm_Meta sm)
     \<and> sm_Spec sm' = sm_Spec sm \<and> unchanged c c' \<and> apiCalls c' = apiCalls c \<and> apiFaults c' = apiFaults c"
  by (auto simp: setOwnerOrLogSM_def unchanged_def logError_def
      dest: SetControllerReference_frame split: sum.splits)

lemma metricsUpdateFn_copies:
  "metricsUpdateFn existing desired changed = (e, existing', changed') \<Longrightarrow>
     e = None \<and> Labels (sm_Meta existing') = Labels (sm_Meta desired) \<and> sm_Spec existing' = sm_Spec desired
     \<and> Name (sm_Meta existing') = Name (sm_Meta existing)
     \<and> Namespace (sm_Meta existing') = Namespace (sm_Meta existing)
     \<and> ResourceVersion (sm_Meta existing') = ResourceVersion (sm_Meta existing)
     \<and> (changed' \<longleftrightarrow> changed \<or> Labels (sm_Meta existing) \<noteq> Labels (sm_Meta desired)
                          \<or> sm_Spec existing \<noteq> sm_Spec desired)
     \<and> (\<not> changed' \<longrightarrow> existing' = existing)"
  by (auto simp: metricsUpdateFn_def fieldPtr_def Let_def split: if_splits)

lemma clientGet_found:
  "apiFaults c (apiCalls c) = None \<Longrightarrow> serviceMonitors c (ns, n) = Some x \<Longrightarrow>
     clientGet serviceMonitorR ns n c = (Inr x, c\<lparr>apiCalls := Suc (apiCalls c)\<rparr>)"
  by (simp add: client_defs)

lemma clientUpdate_sm:
  "apiFaults c (apiCalls c) = None \<Longrightarrow>
   serviceMonitors c (Namespace (sm_Meta x), Name (sm_Meta x)) = Some old \<Longrightarrow>
   ResourceVersion (sm_Meta x) = ResourceVersion (sm_Meta old) \<Longrightarrow>
     clientUpdate serviceMonitorR x c =
       (None, c\<lparr>writes := writes c @ [(VUpdate, KServiceMonitor, Namespace (sm_Meta x), Name (sm_Meta x))],
                apiCalls := Suc (apiCalls c),
                serviceMonitors := (serviceMonitors c)((Namespace (sm_Meta x), Name (sm_Meta x)) \<mapsto> x)\<rparr>)"
  by (simp add: client_defs Let_def)

lemma reconServiceMonitor_converges:
  assumes req: "rsr_RequestServiceMonitor rsr (metricsServiceMonitorRequest rsr) = (desired, None)"
      and found: "serviceMonitors c (Namespace (sm_Meta desired), Name (sm_Meta desired)) = Some existing"
      and key: "Namespace (sm_Meta existing) = Namespace (sm_Meta desired)"
               "Name (sm_Meta existing) = Name (sm_Meta desired)"
      and nofault: "apiFaults c (apiCalls c) = None" "apiFaults c (Suc (apiCalls c)) = None"
  shows "fst (reconcileMetriscServiceMonitor rsr c) = None
     \<and> (\<exists>x. serviceMonitors (snd (reconcileMetriscServiceMonitor rsr c))
               (Namespace (sm_Meta desired), Name (sm_Meta desired)) = Some x
            \<and> Labels (sm_Meta x) = Labels (sm_Meta desired) \<and> sm_Spec x = sm_Spec desired)"
proof -
  obtain d1 c0 where so: "setOwnerOrLogSM rsr desired c = (d1, c0)"
    by (cases "setOwnerOrLogSM rsr desired c")
  note f = setOwnerOrLogSM_frame [OF so]
  obtain e existing' changed' where u: "metricsUpdateFn existing d1 False = (e, existing', changed')"
    by (cases "metricsUpdateFn existing d1 False") auto
  note cp = metricsUpdateFn_copies [OF u]
  have found0: "serviceMonitors c0 (Namespace (sm_Meta d1), Name (sm_Meta d1)) = Some existing"
    using f found by (simp add: unchanged_def)
  have nf0: "apiFaults c0 (apiCalls c0) = None" "apiFaults c0 (Suc (apiCalls c0)) = None"
    using f nofault by simp_all
  let ?c1 = "c0\<lparr>apiCalls := Suc (apiCalls c0)\<rparr>"
  have get: "GetServiceMonitor (Name (sm_Meta d1)) (Namespace (sm_Meta d1)) c0 = (Inr existing, ?c1)"
    unfolding GetServiceMonitor_def using nf0(1) found0 by (rule clientGet_found)
  show ?thesis
  proof (cases changed')
    case False
    then have same: "existing' = existing" using cp by simp
    have r: "reconcileMetriscServiceMonitor rsr c = (None, ?c1)"
      using req so get u False cp
      by (simp add: reconcileMetriscServiceMonitor_def reconServiceMonitor_def)
    show ?thesis
      using r found0 f cp same by (simp add: unchanged_def)
  next
    case True
    have upd: "UpdateServiceMonitor existing' ?c1 =
        (None, ?c1\<lparr>writes := writes ?c1 @ [(VUpdate, KServiceMonitor, Namespace (sm_Meta existing'), Name (sm_Meta existing'))],
                apiCalls := Suc (apiCalls ?c1),
                serviceMonitors := (serviceMonitors ?c1)((Namespace (sm_Meta existing'), Name (sm_Meta existing')) \<mapsto> existing')\<rparr>)"
      unfolding UpdateServiceMonitor_def
      using nf0 found0 cp key f by (intro clientUpdate_sm) simp_all
    have r: "snd (reconcileMetriscServiceMonitor rsr c) =
        logInfo ''ServiceMonitor updated'' (?c1\<lparr>writes := writes ?c1 @ [(VUpdate, KServiceMonitor, Namespace (sm_Meta existing'), Name (sm_Meta existing'))],
                apiCalls := Suc (apiCalls ?c1),
                serviceMonitors := (serviceMonitors ?c1)((Namespace (sm_Meta existing'), Name (sm_Meta existing')) \<mapsto> existing')\<rparr>)"
      and r0: "fst (reconcileMetriscServiceMonitor rsr c) = None"
      using req so get u True cp upd
      by (simp_all add: reconcileMetriscServiceMonitor_def reconServiceMonitor_def)
    show ?thesis
      using r r0 cp key f by (simp add: logInfo_def)
  qed
qed

lemma deploymentsDifferent_always: "deploymentsDifferent existing existingContainer0 deploy"
  by (simp add: deploymentsDifferent_def DeepEqual_def Let_def)

lemma copyDeploymentFields_fields:
  "ps_Containers (tmpl_Spec (ds_Template (dep_Spec (copyDeploymentFields existing deploy)))) =
     ps_Containers (tmpl_Spec (ds_Template (dep_Spec deploy)))
   \<and> ps_ServiceAccountName (tmpl_Spec (ds_Template (dep_Spec (copyDeploymentFields existing deploy)))) =
     ps_ServiceAccountName (tmpl_Spec (ds_Template (dep_Spec deploy)))
   \<and> Labels (dep_Meta (copyDeploymentFields existing deploy)) = Labels (dep_Meta deploy)
   \<and> tmpl_Labels (ds_Template (dep_Spec (copyDeploymentFields existing deploy))) =
     tmpl_Labels (ds_Template (dep_Spec deploy))
   \<and> ds_Selector (dep_Spec (copyDeploymentFields existing deploy)) = ds_Selector (dep_Spec deploy)
   \<and> ps_NodeSelector (tmpl_Spec (ds_Template (dep_Spec (copyDeploymentFields existing deploy)))) =
     ps_NodeSelector (tmpl_Spec (ds_Template (dep_Spec deploy)))
   \<and> ps_Tolerations (tmpl_Spec (ds_Template (dep_Spec (copyDeploymentFields existing deploy)))) =
     ps_Tolerations (tmpl_Spec (ds_Template (dep_Spec deploy)))
   \<and> ps_SecurityContext (tmpl_Spec (ds_Template (dep_Spec (copyDeploymentFields existing deploy)))) =
     ps_SecurityContext (tmpl_Spec (ds_Template (dep_Spec deploy)))"
  by (simp add: copyDeploymentFields_def Let_def)

lemma copyDeploymentFields_meta:
  "Name (dep_Meta (copyDeploymentFields existing deploy)) = Name (dep_Meta existing)
   \<and> Namespace (dep_Meta (copyDeploymentFields existing deploy)) = Namespace (dep_Meta existing)
   \<and> ResourceVersion (dep_Meta (copyDeploymentFields existing deploy)) = ResourceVersion (dep_Meta existing)"
  by (simp add: copyDeploymentFields_def Let_def)

lemma reconcileRolloutsDeployment_updates:
  assumes des: "desiredRolloutsDeployment d cr sa c = Inr deploy"
      and found: "deployments c (cr_Namespace cr, Name (dep_Meta (newDeploymentWithSuffix d ''argo-rollouts'' ''controller'' cr))) = Some existing"
      and key: "Namespace (dep_Meta existing) = cr_Namespace cr"
               "Name (dep_Meta existing) = Name (dep_Meta (newDeploymentWithSuffix d ''argo-rollouts'' ''controller'' cr))"
      and nonempty: "ps_Containers (tmpl_Spec (ds_Template (dep_Spec existing))) \<noteq> []"
      and nofault: "apiFaults c (apiCalls c) = None" "apiFaults c (Suc (apiCalls c)) = None"
  shows "reconcileRolloutsDeployment d sch cr sa c =
     (Returned (),
      c\<lparr>apiCalls := Suc (Suc (apiCalls c)),
        writes := writes c @ [(VUpdate, KDeployment, cr_Namespace cr, Name (dep_Meta existing))],
        deployments := (deployments c)((cr_Namespace cr, Name (dep_Meta existing)) \<mapsto>
                          copyDeploymentFields existing deploy)\<rparr>)"
proof -
  obtain c0 cs where cs: "ps_Containers (tmpl_Spec (ds_Template (dep_Spec existing))) = c0 # cs"
    using nonempty by (cases "ps_Containers (tmpl_Spec (ds_Template (dep_Spec existing)))") auto
  show ?thesis
    using des found key cs nofault copyDeploymentFields_meta [of existing deploy]
    by (simp add: reconcileRolloutsDeployment_def deploymentsDifferent_always client_defs Let_def ofError_def)
qed

lemma reconcileRolloutsDeployment_creates:
  assumes des: "desiredRolloutsDeployment d cr sa c = Inr deploy"
      and absent: "deployments c (cr_Namespace cr, Name (dep_Meta (newDeploymentWithSuffix d ''argo-rollouts'' ''controller'' cr))) = None"
      and own: "SetControllerReference cr (dep_Meta deploy) sch = Inr m"
      and key: "Namespace (dep_Meta deploy) = cr_Namespace cr"
               "Name (dep_Meta deploy) = Name (dep_Meta (newDeploymentWithSuffix d ''argo-rollouts'' ''controller'' cr))"
      and fresh: "ResourceVersion (dep_Meta deploy) = ''''"
      and nofault: "apiFaults c (apiCalls c) = None" "apiFaults c (Suc (apiCalls c)) = None"
  shows "reconcileRolloutsDeployment d sch cr sa c =
     (Returned (),
      c\<lparr>apiCalls := Suc (Suc (apiCalls c)),
        writes := writes c @ [(VCreate, KDeployment, cr_Namespace cr, Name (dep_Meta deploy))],
        deployments := (deployments c)((cr_Namespace cr, Name (dep_Meta deploy)) \<mapsto>
                          deploy\<lparr>dep_Meta := m\<lparr>ResourceVersion := ''1''\<rparr>\<rparr>)\<rparr>)"
  using assms SetControllerReference_frame [OF own]
  by (simp add: reconcileRolloutsDeployment_def client_defs Let_def ofError_def)

lemma desired_concrete:
  "\<exists>deploy. desiredRolloutsDeployment testDeps rolloutsArgoCD testServiceAccount c = Inr deploy
     \<and> Namespace (dep_Meta deploy) = ''argocd'' \<and> Name (dep_Meta deploy) = ''argocd-argo-rollouts''
     \<and> ResourceVersion (dep_Meta deploy) = '''' \<and> OwnerReferences (dep_Meta deploy) = []
     \<and> ps_Containers (tmpl_Spec (ds_Template (dep_Spec deploy))) \<noteq> []"
  by (simp add: desiredRolloutsDeployment_def testDeps_def rolloutsArgoCD_def testArgoCD_def testSpec_def
       testMeta_def setRolloutsLabels_def mapAssign_def rolloutsContainer_def
       getRolloutsControllerResources_def testPodSpec_def Let_def)

lemma desired_indep:
  "desiredRolloutsDeployment testDeps rolloutsArgoCD testServiceAccount c =
   desiredRolloutsDeployment testDeps rolloutsArgoCD testServiceAccount c'"
proof -
  have "AddSeccompProfileForOpenShift testDeps k p = p" for k p
    by (simp add: testDeps_def)
  then show ?thesis
    by (simp add: desiredRolloutsDeployment_def Let_def cong: sum.case_cong)
qed



lemma clientGet_absent_sm:
  "apiFaults c (apiCalls c) = None \<Longrightarrow> serviceMonitors c (ns, n) = None \<Longrightarrow>
     clientGet serviceMonitorR ns n c = (Inl NotFound, c\<lparr>apiCalls := Suc (apiCalls c)\<rparr>)"
  by (simp add: client_defs)

lemma reconServiceMonitor_creates_unowned:
  assumes req: "rsr_RequestServiceMonitor rsr req = (desired, None)"
      and own: "SetControllerReference (rsr_Instance rsr) (sm_Meta desired) (rsr_Scheme rsr) = Inl e"
      and absent: "serviceMonitors c (Namespace (sm_Meta desired), Name (sm_Meta desired)) = None"
      and fresh: "ResourceVersion (sm_Meta desired) = ''''"
      and nofault: "apiFaults c (apiCalls c) = None" "apiFaults c (Suc (apiCalls c)) = None"
  shows "reconServiceMonitor rsr req updateFn ignoreDrift c =
     (None,
      c\<lparr>logged := logged c @
           [ErrorLog e ''reconcileServiceMonitor: failed to set owner reference for ServiceMonitor'',
            Info ''ServiceMonitor created''],
        apiCalls := Suc (Suc (apiCalls c)),
        writes := writes c @ [(VCreate, KServiceMonitor, Namespace (sm_Meta desired), Name (sm_Meta desired))],
        serviceMonitors := (serviceMonitors c)((Namespace (sm_Meta desired), Name (sm_Meta desired)) \<mapsto>
           desired\<lparr>sm_Meta := (sm_Meta desired)\<lparr>ResourceVersion := ''1''\<rparr>\<rparr>)\<rparr>)"
  using assms
  by (simp add: reconServiceMonitor_def setOwnerOrLogSM_def GetServiceMonitor_def CreateServiceMonitor_def
        client_defs Let_def)

lemma reconcileService_creates_unowned:
  assumes req: "rr_RequestService rr (redisServiceRequest rr) = (desired, None)"
      and own: "SetControllerReference (rr_Instance rr) (svc_Meta desired) (rr_Scheme rr) = Inl e"
      and absent: "services c (Namespace (svc_Meta desired), Name (svc_Meta desired)) = None"
      and fresh: "ResourceVersion (svc_Meta desired) = ''''"
      and nofault: "apiFaults c (apiCalls c) = None" "apiFaults c (Suc (apiCalls c)) = None"
  shows "reconcileService rr c =
     (None,
      c\<lparr>logged := logged c @ [ErrorLog e ''failed to set owner reference for service'', Info ''service created''],
        apiCalls := Suc (Suc (apiCalls c)),
        writes := writes c @ [(VCreate, KService, Namespace (svc_Meta desired), Name (svc_Meta desired))],
        services := (services c)((Namespace (svc_Meta desired), Name (svc_Meta desired)) \<mapsto>
           desired\<lparr>svc_Meta := (svc_Meta desired)\<lparr>ResourceVersion := ''1''\<rparr>\<rparr>)\<rparr>)"
  using assms
  by (simp add: reconcileService_def setOwnerOrLog_def GetService_def CreateService_def
        client_defs Let_def)

lemma reconcileService_updates_unowned:
  assumes req: "rr_RequestService rr (redisServiceRequest rr) = (desired, None)"
      and own: "SetControllerReference (rr_Instance rr) (svc_Meta desired) (rr_Scheme rr) = Inl e"
      and found: "services c (Namespace (svc_Meta desired), Name (svc_Meta desired)) = Some existing"
      and key: "Namespace (svc_Meta existing) = Namespace (svc_Meta desired)"
               "Name (svc_Meta existing) = Name (svc_Meta desired)"
      and differ: "svc_Spec existing \<noteq> svc_Spec desired"
      and nofault: "apiFaults c (apiCalls c) = None" "apiFaults c (Suc (apiCalls c)) = None"
  shows "fst (reconcileService rr c) = None
     \<and> writes (snd (reconcileService rr c)) =
         writes c @ [(VUpdate, KService, Namespace (svc_Meta desired), Name (svc_Meta desired))]"
  using assms
  by (simp add: reconcileService_def setOwnerOrLog_def GetService_def UpdateService_def
        UpdateIfChangedValue_def DeepEqual_def client_defs Let_def)

lemma reconcileRolloutsServiceAccount_owner_error:
  assumes "setRolloutsLabels (sa_Meta (newServiceAccountWithName d ''argo-rollouts'' cr)) = Inr m"
      and "serviceAccounts c (cr_Namespace cr, Name m) = None"
      and "apiFaults c (apiCalls c) = None"
      and "SetControllerReference cr m sch = Inl e"
  shows "fst (reconcileRolloutsServiceAccount d sch cr c) = Failed e
         \<and> unchanged c (snd (reconcileRolloutsServiceAccount d sch cr c))"
  using assms
  by (simp add: reconcileRolloutsServiceAccount_def client_defs Let_def unchanged_def)

lemma reconcileRolloutsDeployment_converges:
  assumes des: "desiredRolloutsDeployment d cr sa c = Inr deploy"
      and found: "deployments c (cr_Namespace cr, Name (dep_Meta (newDeploymentWithSuffix d ''argo-rollouts'' ''controller'' cr))) = Some existing"
      and key: "Namespace (dep_Meta existing) = cr_Namespace cr"
               "Name (dep_Meta existing) = Name (dep_Meta (newDeploymentWithSuffix d ''argo-rollouts'' ''controller'' cr))"
      and nonempty: "ps_Containers (tmpl_Spec (ds_Template (dep_Spec existing))) \<noteq> []"
      and nofault: "apiFaults c (apiCalls c) = None" "apiFaults c (Suc (apiCalls c)) = None"
  shows "fst (reconcileRolloutsDeployment d sch cr sa c) = Returned ()
     \<and> (\<exists>x. deployments (snd (reconcileRolloutsDeployment d sch cr sa c))
               (cr_Namespace cr, Name (dep_Meta existing)) = Some x
            \<and> comparedFieldsEqual x deploy)"
  using reconcileRolloutsDeployment_updates [OF assms, of sch]
    copyDeploymentFields_fields [of existing deploy]
  by (simp add: comparedFieldsEqual_def)

lemmas input_defs = testArgoCD_def testSpec_def testMeta_def testDeps_def testRedis_def
  testRepoServer_def emptyCluster_def driftedCluster_def driftedService_def driftedServiceMonitor_def
  driftedDeployment_def rolloutsArgoCD_def testServiceAccount_def testPodSpec_def
  redisDriftedCluster_def trackedWorld_def recordingReconciler_def

subsection \<open>The rollouts Deployment reconciled twice\<close>

text \<open>
  C1. Reconciling the rollouts Deployment twice with an unchanged Instance. The first call of
  \<^verbatim>\<open>reconcileRolloutsDeployment\<close> on a cluster without the Deployment creates it, and the stored
  object then has every compared field (pod labels, selector, node selector, tolerations,
  service account name, labels, replicas, the first container, volumes) equal to that of the
  desired object. The second call, on the resulting cluster and with the same Instance,
  nevertheless issues an Update: the condition of the update branch compares
  \<^verbatim>\<open>existingSpec.Containers[0]\<close>, a container, with \<^verbatim>\<open>podSpec.Containers\<close>, a slice, by
  \<^verbatim>\<open>reflect.DeepEqual\<close>, which is false for values of different types, so the negated
  comparison always holds and the branch is always taken.
\<close>

theorem reconcileRolloutsDeployment_second_call_updates:
  "fst firstRun = Returned ()
   \<and> writes (snd firstRun) = [(VCreate, KDeployment, ''argocd'', ''argocd-argo-rollouts'')]
   \<and> (case (deployments (snd firstRun) (''argocd'', ''argocd-argo-rollouts''),
             desiredRolloutsDeployment testDeps rolloutsArgoCD testServiceAccount (snd firstRun)) of
         (Some stored, Inr deploy) \<Rightarrow> comparedFieldsEqual stored deploy
       | other \<Rightarrow> False)
   \<and> fst secondRun = Returned ()
   \<and> writes (snd secondRun) =
       [(VCreate, KDeployment, ''argocd'', ''argocd-argo-rollouts''),
        (VUpdate, KDeployment, ''argocd'', ''argocd-argo-rollouts'')]"
proof -
  obtain deploy where d: "desiredRolloutsDeployment testDeps rolloutsArgoCD testServiceAccount emptyCluster = Inr deploy"
    and dk: "Namespace (dep_Meta deploy) = ''argocd''" "Name (dep_Meta deploy) = ''argocd-argo-rollouts''"
    and dv: "ResourceVersion (dep_Meta deploy) = ''''" "OwnerReferences (dep_Meta deploy) = []"
    and dc: "ps_Containers (tmpl_Spec (ds_Template (dep_Spec deploy))) \<noteq> []"
    using desired_concrete [of emptyCluster] by blast
  have ns: "cr_Namespace rolloutsArgoCD = ''argocd''"
    by (simp add: rolloutsArgoCD_def testArgoCD_def)
  have nm: "Name (dep_Meta (newDeploymentWithSuffix testDeps ''argo-rollouts'' ''controller'' rolloutsArgoCD)) =
      ''argocd-argo-rollouts''"
    by (simp add: testDeps_def rolloutsArgoCD_def testArgoCD_def testMeta_def)
  let ?m = "(dep_Meta deploy)\<lparr>OwnerReferences := [controllerRef rolloutsArgoCD]\<rparr>"
  have own: "SetControllerReference rolloutsArgoCD (dep_Meta deploy) [''ArgoCD''] = Inr ?m"
    using dk dv ns by (simp add: SetControllerReference_def)
  let ?stored = "deploy\<lparr>dep_Meta := ?m\<lparr>ResourceVersion := ''1''\<rparr>\<rparr>"
  let ?c1 = "emptyCluster\<lparr>apiCalls := Suc (Suc (apiCalls emptyCluster)),
        writes := writes emptyCluster @ [(VCreate, KDeployment, cr_Namespace rolloutsArgoCD, Name (dep_Meta deploy))],
        deployments := (deployments emptyCluster)((cr_Namespace rolloutsArgoCD, Name (dep_Meta deploy)) \<mapsto> ?stored)\<rparr>"
  have first: "firstRun = (Returned (), ?c1)"
    unfolding firstRun_def
    by (rule reconcileRolloutsDeployment_creates [OF d _ own])
       (simp_all add: ns nm dk dv emptyCluster_def)
  have d1: "desiredRolloutsDeployment testDeps rolloutsArgoCD testServiceAccount ?c1 = Inr deploy"
    using d desired_indep [of ?c1 emptyCluster] by simp
  have second: "secondRun =
     (Returned (),
      ?c1\<lparr>apiCalls := Suc (Suc (apiCalls ?c1)),
        writes := writes ?c1 @ [(VUpdate, KDeployment, cr_Namespace rolloutsArgoCD, Name (dep_Meta ?stored))],
        deployments := (deployments ?c1)((cr_Namespace rolloutsArgoCD, Name (dep_Meta ?stored)) \<mapsto>
                          copyDeploymentFields ?stored deploy)\<rparr>)"
    unfolding secondRun_def first snd_conv
    by (rule reconcileRolloutsDeployment_updates [OF d1])
       (simp_all add: ns nm dk dc emptyCluster_def)
  show ?thesis
    using d1 by (simp add: first second ns dk emptyCluster_def comparedFieldsEqual_def)
qed

subsection \<open>The rollouts Service with the toggle absent\<close>

text \<open>
  C2. With \<^verbatim>\<open>cr.Spec.Rollouts\<close> nil, \<^verbatim>\<open>reconcileRolloutsService\<close> does not leave the cluster
  without a rollouts Service being created. On a cluster that has none, it issues a Create
  and the Service exists afterwards. On a cluster that has one, it logs that it deletes the
  Service as rollouts is disabled and issues the Delete; its delete branch has no return, so
  it goes on to the Create below: the writes are the Delete followed by a Create of the same
  Service, which is refused because the fetched object carries a resource version, and the
  call returns that error.
\<close>

theorem reconcileRolloutsService_creates_with_toggle_absent:
  "Rollouts (cr_Spec testArgoCD) = None
   \<and> fst (reconcileRolloutsService testDeps [''ArgoCD''] testArgoCD emptyCluster) = None
   \<and> services (snd (reconcileRolloutsService testDeps [''ArgoCD''] testArgoCD emptyCluster))
        (''argocd'', ''argocd-argo-rollouts'') \<noteq> None
   \<and> writes (snd (reconcileRolloutsService testDeps [''ArgoCD''] testArgoCD emptyCluster)) =
        [(VCreate, KService, ''argocd'', ''argocd-argo-rollouts'')]
   \<and> services driftedCluster (''argocd'', ''argocd-argo-rollouts'') \<noteq> None
   \<and> fst (reconcileRolloutsService testDeps [''ArgoCD''] testArgoCD driftedCluster) = Some BadRequest
   \<and> writes (snd (reconcileRolloutsService testDeps [''ArgoCD''] testArgoCD driftedCluster)) =
        [(VDelete, KService, ''argocd'', ''argocd-argo-rollouts''),
         (VCreate, KService, ''argocd'', ''argocd-argo-rollouts'')]
   \<and> logged (snd (reconcileRolloutsService testDeps [''ArgoCD''] testArgoCD driftedCluster)) =
        [Info ''Deleting rollouts controller service argocd-argo-rollouts as rollouts is disabled'']"
proof -
  have a: "fst (reconcileRolloutsService testDeps [''ArgoCD''] testArgoCD emptyCluster) = None
   \<and> services (snd (reconcileRolloutsService testDeps [''ArgoCD''] testArgoCD emptyCluster))
        (''argocd'', ''argocd-argo-rollouts'') \<noteq> None
   \<and> writes (snd (reconcileRolloutsService testDeps [''ArgoCD''] testArgoCD emptyCluster)) =
        [(VCreate, KService, ''argocd'', ''argocd-argo-rollouts'')]"
    by (simp add: reconcileRolloutsService_def createRolloutsService_def client_defs testDeps_def
          testArgoCD_def testSpec_def testMeta_def emptyCluster_def SetControllerReference_def Let_def
          controllerRef_def)
  have b: "fst (reconcileRolloutsService testDeps [''ArgoCD''] testArgoCD driftedCluster) = Some BadRequest
   \<and> writes (snd (reconcileRolloutsService testDeps [''ArgoCD''] testArgoCD driftedCluster)) =
        [(VDelete, KService, ''argocd'', ''argocd-argo-rollouts''),
         (VCreate, KService, ''argocd'', ''argocd-argo-rollouts'')]
   \<and> logged (snd (reconcileRolloutsService testDeps [''ArgoCD''] testArgoCD driftedCluster)) =
        [Info ''Deleting rollouts controller service argocd-argo-rollouts as rollouts is disabled'']"
    by (simp add: reconcileRolloutsService_def createRolloutsService_def client_defs testDeps_def
          testArgoCD_def testSpec_def testMeta_def emptyCluster_def driftedCluster_def driftedService_def
          SetControllerReference_def Let_def controllerRef_def)
  show ?thesis
    using a b by (simp add: testArgoCD_def testSpec_def driftedCluster_def)
qed

subsection \<open>An error returned by a hook\<close>




subsection \<open>External drift, kind by kind\<close>

text \<open>
  C7. What the next reconcile call does with an existing object, whatever its content. The
  HA-master Service (\<^verbatim>\<open>reconcileHAMasterService\<close>), the rollouts Service with Rollouts enabled
  (\<^verbatim>\<open>reconcileRolloutsService\<close>), the rollouts ServiceAccount (\<^verbatim>\<open>reconcileRolloutsServiceAccount\<close>)
  and the rollouts notification Secret (\<^verbatim>\<open>reconcileRolloutsSecrets\<close>) are left as found: the call
  succeeds, issues no write and stores nothing. The repo server's metrics ServiceMonitor
  (\<^verbatim>\<open>reconcileMetriscServiceMonitor\<close>) and the rollouts Deployment (\<^verbatim>\<open>reconcileRolloutsDeployment\<close>)
  are converged: after the call the stored object has the desired labels and spec,
  respectively the desired value of every compared field.
\<close>

theorem drift_convergence_by_kind:
  "(rr_RequestService rr (haMasterServiceRequest rr) = (desiredSvc, None) \<longrightarrow>
    services c (Namespace (svc_Meta desiredSvc), Name (svc_Meta desiredSvc)) = Some foundSvc \<longrightarrow>
    apiFaults c (apiCalls c) = None \<longrightarrow>
      fst (reconcileHAMasterService rr c) = None \<and> unchanged c (snd (reconcileHAMasterService rr c)))
   \<and> (Rollouts (cr_Spec cr) \<noteq> None \<longrightarrow>
    services c (cr_Namespace cr, Name (svc_Meta (newServiceWithSuffix d ''argo-rollouts'' ''controller'' cr)))
      = Some foundSvc \<longrightarrow>
    apiFaults c (apiCalls c) = None \<longrightarrow>
      fst (reconcileRolloutsService d sch cr c) = None \<and> unchanged c (snd (reconcileRolloutsService d sch cr c)))
   \<and> (setRolloutsLabels (sa_Meta (newServiceAccountWithName d ''argo-rollouts'' cr)) = Inr m \<longrightarrow>
    serviceAccounts c (cr_Namespace cr, Name m) = Some foundSA \<longrightarrow>
    apiFaults c (apiCalls c) = None \<longrightarrow>
      fst (reconcileRolloutsServiceAccount d sch cr c) = Returned foundSA
      \<and> unchanged c (snd (reconcileRolloutsServiceAccount d sch cr c)))
   \<and> (secrets c (cr_Namespace cr, ''argo-rollouts-notification-secret'') = Some foundSecret \<longrightarrow>
    apiFaults c (apiCalls c) = None \<longrightarrow>
      fst (reconcileRolloutsSecrets cr c) = None \<and> unchanged c (snd (reconcileRolloutsSecrets cr c)))
   \<and> (rsr_RequestServiceMonitor rsr (metricsServiceMonitorRequest rsr) = (desiredSM, None) \<longrightarrow>
    serviceMonitors c (Namespace (sm_Meta desiredSM), Name (sm_Meta desiredSM)) = Some existingSM \<longrightarrow>
    Namespace (sm_Meta existingSM) = Namespace (sm_Meta desiredSM) \<longrightarrow>
    Name (sm_Meta existingSM) = Name (sm_Meta desiredSM) \<longrightarrow>
    apiFaults c (apiCalls c) = None \<longrightarrow> apiFaults c (Suc (apiCalls c)) = None \<longrightarrow>
      fst (reconcileMetriscServiceMonitor rsr c) = None
      \<and> (\<exists>x. serviceMonitors (snd (reconcileMetriscServiceMonitor rsr c))
                (Namespace (sm_Meta desiredSM), Name (sm_Meta desiredSM)) = Some x
             \<and> Labels (sm_Meta x) = Labels (sm_Meta desiredSM) \<and> sm_Spec x = sm_Spec desiredSM))
   \<and> (desiredRolloutsDeployment d cr sa c = Inr deploy \<longrightarrow>
    deployments c (cr_Namespace cr, Name (dep_Meta (newDeploymentWithSuffix d ''argo-rollouts'' ''controller'' cr)))
      = Some existing \<longrightarrow>
    Namespace (dep_Meta existing) = cr_Namespace cr \<longrightarrow>
    Name (dep_Meta existing) = Name (dep_Meta (newDeploymentWithSuffix d ''argo-rollouts'' ''controller'' cr)) \<longrightarrow>
    ps_Containers (tmpl_Spec (ds_Template (dep_Spec existing))) \<noteq> [] \<longrightarrow>
    apiFaults c (apiCalls c) = None \<longrightarrow> apiFaults c (Suc (apiCalls c)) = None \<longrightarrow>
      fst (reconcileRolloutsDeployment d sch cr sa c) = Returned ()
      \<and> (\<exists>x. deployments (snd (reconcileRolloutsDeployment d sch cr sa c))
                (cr_Namespace cr, Name (dep_Meta existing)) = Some x
             \<and> comparedFieldsEqual x deploy))"
  using reconcileHAMasterService_found [of rr desiredSvc c foundSvc]
    reconcileRolloutsService_found_enabled [of cr c d foundSvc sch]
    reconcileRolloutsServiceAccount_found [of d cr m c foundSA sch]
    reconcileRolloutsSecrets_found [of c cr foundSecret]
    reconServiceMonitor_converges [of rsr desiredSM c existingSM]
    reconcileRolloutsDeployment_converges [of d cr sa c deploy existing sch]
  by blast

theorem ha_master_service_left_as_found:
  "fst (reconcileHAMasterService (testRedis [''ArgoCD'']) driftedCluster) = None
   \<and> services (snd (reconcileHAMasterService (testRedis [''ArgoCD'']) driftedCluster))
        (''argocd'', ''argocd-redis-ha'') = Some (driftedService ''argocd-redis-ha'')
   \<and> writes (snd (reconcileHAMasterService (testRedis [''ArgoCD'']) driftedCluster)) = []
   \<and> ss_Ports (svc_Spec (driftedService ''argocd-redis-ha'')) \<noteq>
       ss_Ports (sr_Spec (haMasterServiceRequest (testRedis [''ArgoCD''])))"
  by (simp add: reconcileHAMasterService_def haMasterServiceRequest_def testRedis_def testArgoCD_def
       setOwnerOrLog_def SetControllerReference_def GetService_def client_defs driftedCluster_def
       emptyCluster_def driftedService_def testMeta_def Let_def)

theorem drift_convergence_by_kind_witness:
  "fst (reconcileHAMasterService (testRedis [''ArgoCD'']) driftedCluster) = None
   \<and> unchanged driftedCluster (snd (reconcileHAMasterService (testRedis [''ArgoCD'']) driftedCluster))
   \<and> fst (reconcileRolloutsService testDeps [''ArgoCD''] rolloutsArgoCD driftedCluster) = None
   \<and> unchanged driftedCluster (snd (reconcileRolloutsService testDeps [''ArgoCD''] rolloutsArgoCD driftedCluster))
   \<and> (\<exists>foundSA. fst (reconcileRolloutsServiceAccount testDeps [''ArgoCD''] testArgoCD driftedCluster) =
                   Returned foundSA \<and> Labels (sa_Meta foundSA) = None)
   \<and> unchanged driftedCluster (snd (reconcileRolloutsServiceAccount testDeps [''ArgoCD''] testArgoCD driftedCluster))
   \<and> fst (reconcileRolloutsSecrets testArgoCD driftedCluster) = None
   \<and> unchanged driftedCluster (snd (reconcileRolloutsSecrets testArgoCD driftedCluster))
   \<and> fst (reconcileMetriscServiceMonitor (testRepoServer [] [''ArgoCD'']) driftedCluster) = None
   \<and> (\<exists>x. serviceMonitors (snd (reconcileMetriscServiceMonitor (testRepoServer [] [''ArgoCD'']) driftedCluster))
             (''argocd'', ''argocd-repo-server-metrics'') = Some x
          \<and> sm_Spec x = smr_Spec (metricsServiceMonitorRequest (testRepoServer [] [''ArgoCD''])))
   \<and> fst (reconcileRolloutsDeployment testDeps [''ArgoCD''] rolloutsArgoCD testServiceAccount driftedCluster) =
       Returned ()
   \<and> (\<exists>x deploy. desiredRolloutsDeployment testDeps rolloutsArgoCD testServiceAccount driftedCluster = Inr deploy
          \<and> deployments (snd (reconcileRolloutsDeployment testDeps [''ArgoCD''] rolloutsArgoCD
                                 testServiceAccount driftedCluster))
               (''argocd'', ''argocd-argo-rollouts'') = Some x
          \<and> comparedFieldsEqual x deploy)"
proof -
  let ?rr = "testRedis [''ArgoCD'']"
  let ?svc = "\<lparr>svc_Meta = sr_ObjectMeta (haMasterServiceRequest ?rr), svc_Spec = sr_Spec (haMasterServiceRequest ?rr)\<rparr>"
  let ?rsr = "testRepoServer [] [''ArgoCD'']"
  let ?req = "metricsServiceMonitorRequest ?rsr"
  let ?sm = "\<lparr>sm_Meta = smr_ObjectMeta ?req, sm_Spec = smr_Spec ?req\<rparr>"
  let ?m = "(testMeta ''argo-rollouts'' testArgoCD)\<lparr>Labels := Some [''app.kubernetes.io/name'' \<mapsto> ''argo-rollouts'',
      ''app.kubernetes.io/part-of'' \<mapsto> ''argo-rollouts'',
      ''app.kubernetes.io/component'' \<mapsto> ''rollouts-controller'']\<rparr>"
  let ?sa = "\<lparr>sa_Meta = (testMeta ''argo-rollouts'' testArgoCD)\<lparr>Labels := None, ResourceVersion := ''7''\<rparr>\<rparr>"
  let ?sec = "\<lparr>sec_Meta = (testMeta ''argo-rollouts-notification-secret'' testArgoCD)\<lparr>ResourceVersion := ''7''\<rparr>,
          sec_Type = ''kubernetes.io/tls'', sec_Data = [(''token'', ''changed'')]\<rparr>"
  obtain deploy where d: "desiredRolloutsDeployment testDeps rolloutsArgoCD testServiceAccount driftedCluster = Inr deploy"
    using desired_concrete [of driftedCluster] by blast
  have nf: "apiFaults driftedCluster (apiCalls driftedCluster) = None"
    "apiFaults driftedCluster (Suc (apiCalls driftedCluster)) = None"
    by (simp_all add: input_defs)
  have a: "rr_RequestService ?rr (haMasterServiceRequest ?rr) = (?svc, None)"
    "services driftedCluster (Namespace (svc_Meta ?svc), Name (svc_Meta ?svc)) =
       Some (driftedService ''argocd-redis-ha'')"
    by (simp_all add: haMasterServiceRequest_def input_defs)
  have b: "Rollouts (cr_Spec rolloutsArgoCD) \<noteq> None"
    "services driftedCluster (cr_Namespace rolloutsArgoCD,
       Name (svc_Meta (newServiceWithSuffix testDeps ''argo-rollouts'' ''controller'' rolloutsArgoCD))) =
       Some (driftedService ''argocd-argo-rollouts'')"
    by (simp_all add: input_defs)
  have c: "setRolloutsLabels (sa_Meta (newServiceAccountWithName testDeps ''argo-rollouts'' testArgoCD)) = Inr ?m"
    "serviceAccounts driftedCluster (cr_Namespace testArgoCD, Name ?m) = Some ?sa"
    by (simp_all add: setRolloutsLabels_def mapAssign_def input_defs)
  have s: "secrets driftedCluster (cr_Namespace testArgoCD, ''argo-rollouts-notification-secret'') = Some ?sec"
    by (simp add: input_defs)
  have e: "rsr_RequestServiceMonitor ?rsr ?req = (?sm, None)"
    "serviceMonitors driftedCluster (Namespace (sm_Meta ?sm), Name (sm_Meta ?sm)) = Some driftedServiceMonitor"
    "Namespace (sm_Meta driftedServiceMonitor) = Namespace (sm_Meta ?sm)"
    "Name (sm_Meta driftedServiceMonitor) = Name (sm_Meta ?sm)"
    by (simp_all add: RequestServiceMonitor_def metricsServiceMonitorRequest_def ApplyReconcilerMutation_def
          input_defs)
  have f: "deployments driftedCluster (cr_Namespace rolloutsArgoCD,
        Name (dep_Meta (newDeploymentWithSuffix testDeps ''argo-rollouts'' ''controller'' rolloutsArgoCD))) =
        Some driftedDeployment"
    "Namespace (dep_Meta driftedDeployment) = cr_Namespace rolloutsArgoCD"
    "Name (dep_Meta driftedDeployment) =
       Name (dep_Meta (newDeploymentWithSuffix testDeps ''argo-rollouts'' ''controller'' rolloutsArgoCD))"
    "ps_Containers (tmpl_Spec (ds_Template (dep_Spec driftedDeployment))) \<noteq> []"
    by (simp_all add: input_defs)
  note t1 = drift_convergence_by_kind [where rr = ?rr and desiredSvc = ?svc and c = driftedCluster
      and foundSvc = "driftedService ''argocd-redis-ha''" and cr = testArgoCD and d = testDeps
      and m = ?m and foundSA = ?sa and foundSecret = ?sec and sch = "[''ArgoCD'']"
      and rsr = ?rsr and desiredSM = ?sm and existingSM = driftedServiceMonitor]
  note t2 = drift_convergence_by_kind [where cr = rolloutsArgoCD and d = testDeps and c = driftedCluster
      and foundSvc = "driftedService ''argocd-argo-rollouts''" and sch = "[''ArgoCD'']"
      and sa = testServiceAccount and deploy = deploy and existing = driftedDeployment]
  have 1: "fst (reconcileHAMasterService ?rr driftedCluster) = None
      \<and> unchanged driftedCluster (snd (reconcileHAMasterService ?rr driftedCluster))"
    using t1 a nf by blast
  have 2: "fst (reconcileRolloutsService testDeps [''ArgoCD''] rolloutsArgoCD driftedCluster) = None
      \<and> unchanged driftedCluster (snd (reconcileRolloutsService testDeps [''ArgoCD''] rolloutsArgoCD driftedCluster))"
    using t2 b nf by blast
  have 3: "fst (reconcileRolloutsServiceAccount testDeps [''ArgoCD''] testArgoCD driftedCluster) = Returned ?sa
      \<and> unchanged driftedCluster (snd (reconcileRolloutsServiceAccount testDeps [''ArgoCD''] testArgoCD driftedCluster))"
    using t1 c nf by blast
  have 4: "fst (reconcileRolloutsSecrets testArgoCD driftedCluster) = None
      \<and> unchanged driftedCluster (snd (reconcileRolloutsSecrets testArgoCD driftedCluster))"
    using t1 s nf by blast
  have 5: "fst (reconcileMetriscServiceMonitor ?rsr driftedCluster) = None
      \<and> (\<exists>x. serviceMonitors (snd (reconcileMetriscServiceMonitor ?rsr driftedCluster))
                (Namespace (sm_Meta ?sm), Name (sm_Meta ?sm)) = Some x
             \<and> Labels (sm_Meta x) = Labels (sm_Meta ?sm) \<and> sm_Spec x = sm_Spec ?sm)"
    using t1 e nf by blast
  have 6: "fst (reconcileRolloutsDeployment testDeps [''ArgoCD''] rolloutsArgoCD testServiceAccount driftedCluster) = Returned ()
      \<and> (\<exists>x. deployments (snd (reconcileRolloutsDeployment testDeps [''ArgoCD''] rolloutsArgoCD testServiceAccount driftedCluster))
                (cr_Namespace rolloutsArgoCD, Name (dep_Meta driftedDeployment)) = Some x
             \<and> comparedFieldsEqual x deploy)"
    using t2 d f nf by blast
  have k: "Namespace (smr_ObjectMeta ?req) = ''argocd''" "Name (smr_ObjectMeta ?req) = ''argocd-repo-server-metrics''"
    "cr_Namespace rolloutsArgoCD = ''argocd''" "Name (dep_Meta driftedDeployment) = ''argocd-argo-rollouts''"
    by (simp_all add: metricsServiceMonitorRequest_def input_defs)
  show ?thesis
    using 1 2 3 4 5 6 d by (auto simp: k)
qed

subsection \<open>Both authentication providers requested\<close>

lemma SSOReconciler_Reconcile_placeholder: "SSOReconciler_Reconcile sr c = (None, c)"
  by (simp add: SSOReconciler_Reconcile_def)

lemma reconcileSSO_single_provider_ensures:
  "reconcileSSO testProviderOps dexArgoCD emptyCluster =
     (None, emptyCluster\<lparr>writes := [(VCreate, KDeployment, ''argocd'', ''argocd-dex-server'')]\<rparr>)"
  by (simp add: reconcileSSO_def requestedProviders_def testProviderOps_def dexArgoCD_def
       testArgoCD_def testSpec_def emptyCluster_def)

text \<open>
  C8. For an Instance whose spec requests both providers, the provider stage
  (\<^verbatim>\<open>reconcileSSO\<close>, as modelled from the spec) returns an error and leaves the cluster as it
  was: whatever deleting and ensuring a provider's resources do, neither is reached. In the
  pipeline, where \<^verbatim>\<open>reconcileResources\<close> runs this stage, the error is logged and the world is
  as before the stage.
\<close>

theorem reconcileSSO_both_providers:
  "(bothProvidersRequested cr \<longrightarrow> (\<exists>e. reconcileSSO ops cr c = (Some e, c)))
   \<and> (bothProvidersRequested cr \<longrightarrow>
      invoke r ReconcileSSO cr w =
        (case reconcileSSO ops cr (rest w) of (e, c') \<Rightarrow> (e, w\<lparr>rest := c'\<rparr>)) \<longrightarrow>
      (\<exists>e. logOnError r ReconcileSSO cr (w, evs) =
             (None, w, evs @ [Called ReconcileSSO, Logged (ErrorString e)])))"
proof -
  have both: "\<exists>p q ps. requestedProviders cr = p # q # ps" if "bothProvidersRequested cr"
    using that by (auto simp: bothProvidersRequested_def requestedProviders_def split: option.splits)
  have stage: "\<exists>e. reconcileSSO ops cr c' = (Some e, c')" if "bothProvidersRequested cr" for c'
    using both [OF that] by (auto simp: reconcileSSO_def)
  show ?thesis
  proof (intro conjI impI)
    assume "bothProvidersRequested cr"
    then show "\<exists>e. reconcileSSO ops cr c = (Some e, c)" by (rule stage)
  next
    assume b: "bothProvidersRequested cr"
      and inv: "invoke r ReconcileSSO cr w =
        (case reconcileSSO ops cr (rest w) of (e, c') \<Rightarrow> (e, w\<lparr>rest := c'\<rparr>))"
    from stage [OF b, of "rest w"] obtain e where "reconcileSSO ops cr (rest w) = (Some e, rest w)" ..
    then have "invoke r ReconcileSSO cr w = (Some e, w)"
      using inv by simp
    then have "logOnError r ReconcileSSO cr (w, evs) =
        (None, w, evs @ [Called ReconcileSSO, Logged (ErrorString e)])"
      by (simp add: logOnError_def)
    then show "\<exists>e. logOnError r ReconcileSSO cr (w, evs) =
             (None, w, evs @ [Called ReconcileSSO, Logged (ErrorString e)])" ..
  qed
qed

theorem reconcileSSO_both_providers_witness:
  "bothProvidersRequested bothProvidersArgoCD
   \<and> reconcileSSO testProviderOps bothProvidersArgoCD driftedCluster =
       (Some (Failure ''multiple SSO configuration''), driftedCluster)
   \<and> logOnError providerStageReconciler ReconcileSSO bothProvidersArgoCD
        (\<lparr>DeprecationEventEmissionTracker = Map.empty, rest = driftedCluster\<rparr>, []) =
       (None, \<lparr>DeprecationEventEmissionTracker = Map.empty, rest = driftedCluster\<rparr>,
        [Called ReconcileSSO, Logged ''multiple SSO configuration''])"
proof -
  let ?w = "\<lparr>DeprecationEventEmissionTracker = Map.empty, rest = driftedCluster\<rparr>"
  have b: "bothProvidersRequested bothProvidersArgoCD"
    by (simp add: bothProvidersRequested_def bothProvidersArgoCD_def testSpec_def)
  have inv: "invoke providerStageReconciler ReconcileSSO bothProvidersArgoCD ?w =
      (case reconcileSSO testProviderOps bothProvidersArgoCD (rest ?w) of (e, c') \<Rightarrow> (e, ?w\<lparr>rest := c'\<rparr>))"
    by (simp add: providerStageReconciler_def)
  have req: "requestedProviders bothProvidersArgoCD = [Dex, Keycloak]"
    by (simp add: requestedProviders_def bothProvidersArgoCD_def testSpec_def)
  have run: "reconcileSSO testProviderOps bothProvidersArgoCD c =
      (Some (Failure ''multiple SSO configuration''), c)" for c
    by (simp add: reconcileSSO_def req)
  show ?thesis
    using reconcileSSO_both_providers [where cr = bothProvidersArgoCD and ops = testProviderOps
        and c = driftedCluster and r = providerStageReconciler and w = ?w and evs = "[]"] b inv
    by (simp add: run logOnError_def)
qed

subsection \<open>A failure to set the owner reference\<close>

text \<open>
  C9. When \<^verbatim>\<open>SetControllerReference\<close> fails on the desired object: \<^verbatim>\<open>reconServiceMonitor\<close> and the
  Redis \<^verbatim>\<open>reconcileService\<close> log the error and go on, so an absent object is created as requested,
  without an owner reference, and (for the Redis Service) an existing one whose spec differs
  still gets its Update; both return success. \<^verbatim>\<open>reconcileRolloutsServiceAccount\<close> instead returns
  the error before any write: nothing is created.
\<close>

theorem owner_reference_failure:
  "(rsr_RequestServiceMonitor rsr req = (desired, None) \<longrightarrow>
    SetControllerReference (rsr_Instance rsr) (sm_Meta desired) (rsr_Scheme rsr) = Inl e \<longrightarrow>
    serviceMonitors c (Namespace (sm_Meta desired), Name (sm_Meta desired)) = None \<longrightarrow>
    ResourceVersion (sm_Meta desired) = '''' \<longrightarrow>
    apiFaults c (apiCalls c) = None \<longrightarrow> apiFaults c (Suc (apiCalls c)) = None \<longrightarrow>
      reconServiceMonitor rsr req updateFn ignoreDrift c =
       (None,
        c\<lparr>logged := logged c @
             [ErrorLog e ''reconcileServiceMonitor: failed to set owner reference for ServiceMonitor'',
              Info ''ServiceMonitor created''],
          apiCalls := Suc (Suc (apiCalls c)),
          writes := writes c @ [(VCreate, KServiceMonitor, Namespace (sm_Meta desired), Name (sm_Meta desired))],
          serviceMonitors := (serviceMonitors c)((Namespace (sm_Meta desired), Name (sm_Meta desired)) \<mapsto>
             desired\<lparr>sm_Meta := (sm_Meta desired)\<lparr>ResourceVersion := ''1''\<rparr>\<rparr>)\<rparr>))
   \<and> (rr_RequestService rr (redisServiceRequest rr) = (desiredSvc, None) \<longrightarrow>
    SetControllerReference (rr_Instance rr) (svc_Meta desiredSvc) (rr_Scheme rr) = Inl e \<longrightarrow>
    services c (Namespace (svc_Meta desiredSvc), Name (svc_Meta desiredSvc)) = None \<longrightarrow>
    ResourceVersion (svc_Meta desiredSvc) = '''' \<longrightarrow>
    apiFaults c (apiCalls c) = None \<longrightarrow> apiFaults c (Suc (apiCalls c)) = None \<longrightarrow>
      reconcileService rr c =
       (None,
        c\<lparr>logged := logged c @ [ErrorLog e ''failed to set owner reference for service'', Info ''service created''],
          apiCalls := Suc (Suc (apiCalls c)),
          writes := writes c @ [(VCreate, KService, Namespace (svc_Meta desiredSvc), Name (svc_Meta desiredSvc))],
          services := (services c)((Namespace (svc_Meta desiredSvc), Name (svc_Meta desiredSvc)) \<mapsto>
             desiredSvc\<lparr>svc_Meta := (svc_Meta desiredSvc)\<lparr>ResourceVersion := ''1''\<rparr>\<rparr>)\<rparr>))
   \<and> (rr_RequestService rr (redisServiceRequest rr) = (desiredSvc, None) \<longrightarrow>
    SetControllerReference (rr_Instance rr) (svc_Meta desiredSvc) (rr_Scheme rr) = Inl e \<longrightarrow>
    services c (Namespace (svc_Meta desiredSvc), Name (svc_Meta desiredSvc)) = Some existingSvc \<longrightarrow>
    Namespace (svc_Meta existingSvc) = Namespace (svc_Meta desiredSvc) \<longrightarrow>
    Name (svc_Meta existingSvc) = Name (svc_Meta desiredSvc) \<longrightarrow>
    svc_Spec existingSvc \<noteq> svc_Spec desiredSvc \<longrightarrow>
    apiFaults c (apiCalls c) = None \<longrightarrow> apiFaults c (Suc (apiCalls c)) = None \<longrightarrow>
      fst (reconcileService rr c) = None
      \<and> writes (snd (reconcileService rr c)) =
          writes c @ [(VUpdate, KService, Namespace (svc_Meta desiredSvc), Name (svc_Meta desiredSvc))])
   \<and> (setRolloutsLabels (sa_Meta (newServiceAccountWithName d ''argo-rollouts'' cr)) = Inr m \<longrightarrow>
    serviceAccounts c (cr_Namespace cr, Name m) = None \<longrightarrow>
    apiFaults c (apiCalls c) = None \<longrightarrow>
    SetControllerReference cr m sch = Inl e \<longrightarrow>
      fst (reconcileRolloutsServiceAccount d sch cr c) = Failed e
      \<and> unchanged c (snd (reconcileRolloutsServiceAccount d sch cr c)))"
  using reconServiceMonitor_creates_unowned [of rsr req desired e c updateFn ignoreDrift]
    reconcileService_creates_unowned [of rr desiredSvc e c]
    reconcileService_updates_unowned [of rr desiredSvc e c existingSvc]
    reconcileRolloutsServiceAccount_owner_error [of d cr m c sch e]
  by blast

theorem rollouts_owner_reference_failure_aborts:
  "reconcileRolloutsServiceAccount testDeps [] testArgoCD emptyCluster =
     (Failed (Failure ''no kind is registered for the type ArgoCD''), emptyCluster\<lparr>apiCalls := 1\<rparr>)"
  by (simp add: reconcileRolloutsServiceAccount_def testDeps_def testArgoCD_def testMeta_def
       setRolloutsLabels_def mapAssign_def client_defs emptyCluster_def SetControllerReference_def)

theorem owner_reference_failure_witness:
  "fst (reconcileMetriscServiceMonitor (testRepoServer [] []) emptyCluster) = None
   \<and> writes (snd (reconcileMetriscServiceMonitor (testRepoServer [] []) emptyCluster)) =
       [(VCreate, KServiceMonitor, ''argocd'', ''argocd-repo-server-metrics'')]
   \<and> map_option (\<lambda>x. OwnerReferences (sm_Meta x))
        (serviceMonitors (snd (reconcileMetriscServiceMonitor (testRepoServer [] []) emptyCluster))
           (''argocd'', ''argocd-repo-server-metrics'')) = Some []
   \<and> fst (reconcileService (testRedis []) emptyCluster) = None
   \<and> writes (snd (reconcileService (testRedis []) emptyCluster)) =
       [(VCreate, KService, ''argocd'', ''argocd-redis'')]
   \<and> map_option (\<lambda>x. OwnerReferences (svc_Meta x))
        (services (snd (reconcileService (testRedis []) emptyCluster)) (''argocd'', ''argocd-redis'')) = Some []
   \<and> fst (reconcileService (testRedis []) redisDriftedCluster) = None
   \<and> writes (snd (reconcileService (testRedis []) redisDriftedCluster)) =
       [(VUpdate, KService, ''argocd'', ''argocd-redis'')]
   \<and> fst (reconcileRolloutsServiceAccount testDeps [] testArgoCD emptyCluster) =
       Failed (Failure ''no kind is registered for the type ArgoCD'')
   \<and> unchanged emptyCluster (snd (reconcileRolloutsServiceAccount testDeps [] testArgoCD emptyCluster))"
proof -
  let ?rsr = "testRepoServer [] []"
  let ?req = "metricsServiceMonitorRequest ?rsr"
  let ?sm = "\<lparr>sm_Meta = smr_ObjectMeta ?req, sm_Spec = smr_Spec ?req\<rparr>"
  let ?rr = "testRedis []"
  let ?svc = "\<lparr>svc_Meta = sr_ObjectMeta (redisServiceRequest ?rr), svc_Spec = sr_Spec (redisServiceRequest ?rr)\<rparr>"
  let ?e = "Failure ''no kind is registered for the type ArgoCD''"
  let ?m = "(testMeta ''argo-rollouts'' testArgoCD)\<lparr>Labels := Some [''app.kubernetes.io/name'' \<mapsto> ''argo-rollouts'',
      ''app.kubernetes.io/part-of'' \<mapsto> ''argo-rollouts'',
      ''app.kubernetes.io/component'' \<mapsto> ''rollouts-controller'']\<rparr>"
  have a1: "rsr_RequestServiceMonitor ?rsr ?req = (?sm, None)"
    by (simp add: testRepoServer_def RequestServiceMonitor_def metricsServiceMonitorRequest_def
          ApplyReconcilerMutation_def)
  have a2: "SetControllerReference (rsr_Instance ?rsr) (sm_Meta ?sm) (rsr_Scheme ?rsr) = Inl ?e"
    by (simp add: SetControllerReference_def metricsServiceMonitorRequest_def input_defs)
  have a3: "serviceMonitors emptyCluster (Namespace (sm_Meta ?sm), Name (sm_Meta ?sm)) = None"
    "ResourceVersion (sm_Meta ?sm) = ''''"
    by (simp_all add: metricsServiceMonitorRequest_def input_defs)
  have nf: "apiFaults emptyCluster (apiCalls emptyCluster) = None"
    "apiFaults emptyCluster (Suc (apiCalls emptyCluster)) = None"
    "apiFaults redisDriftedCluster (apiCalls redisDriftedCluster) = None"
    "apiFaults redisDriftedCluster (Suc (apiCalls redisDriftedCluster)) = None"
    by (simp_all add: input_defs)
  have b1: "rr_RequestService ?rr (redisServiceRequest ?rr) = (?svc, None)"
    by (simp add: testRedis_def)
  have b2: "SetControllerReference (rr_Instance ?rr) (svc_Meta ?svc) (rr_Scheme ?rr) = Inl ?e"
    by (simp add: SetControllerReference_def redisServiceRequest_def input_defs)
  have b3: "services emptyCluster (Namespace (svc_Meta ?svc), Name (svc_Meta ?svc)) = None"
    "ResourceVersion (svc_Meta ?svc) = ''''"
    by (simp_all add: redisServiceRequest_def input_defs)
  have c1: "services redisDriftedCluster (Namespace (svc_Meta ?svc), Name (svc_Meta ?svc)) =
      Some (driftedService ''argocd-redis'')"
    "Namespace (svc_Meta (driftedService ''argocd-redis'')) = Namespace (svc_Meta ?svc)"
    "Name (svc_Meta (driftedService ''argocd-redis'')) = Name (svc_Meta ?svc)"
    "svc_Spec (driftedService ''argocd-redis'') \<noteq> svc_Spec ?svc"
    by (simp_all add: redisServiceRequest_def input_defs)
  have d1: "setRolloutsLabels (sa_Meta (newServiceAccountWithName testDeps ''argo-rollouts'' testArgoCD)) = Inr ?m"
    by (simp add: setRolloutsLabels_def mapAssign_def input_defs)
  have d2: "serviceAccounts emptyCluster (cr_Namespace testArgoCD, Name ?m) = None"
    "SetControllerReference testArgoCD ?m [] = Inl ?e"
    by (simp_all add: SetControllerReference_def input_defs)
  note t1 = owner_reference_failure [where rsr = ?rsr and req = ?req and desired = ?sm and e = ?e
      and c = emptyCluster and updateFn = "UpdateFnSM metricsUpdateFn" and ignoreDrift = False
      and rr = ?rr and desiredSvc = ?svc and d = testDeps and cr = testArgoCD and m = ?m and sch = "[]"]
  note t2 = owner_reference_failure [where rr = ?rr and desiredSvc = ?svc and e = ?e
      and c = redisDriftedCluster and existingSvc = "driftedService ''argocd-redis''"]
  have r1: "reconServiceMonitor ?rsr ?req (UpdateFnSM metricsUpdateFn) False emptyCluster =
       (None,
        emptyCluster\<lparr>logged := logged emptyCluster @
             [ErrorLog ?e ''reconcileServiceMonitor: failed to set owner reference for ServiceMonitor'',
              Info ''ServiceMonitor created''],
          apiCalls := Suc (Suc (apiCalls emptyCluster)),
          writes := writes emptyCluster @ [(VCreate, KServiceMonitor, Namespace (sm_Meta ?sm), Name (sm_Meta ?sm))],
          serviceMonitors := (serviceMonitors emptyCluster)((Namespace (sm_Meta ?sm), Name (sm_Meta ?sm)) \<mapsto>
             ?sm\<lparr>sm_Meta := (sm_Meta ?sm)\<lparr>ResourceVersion := ''1''\<rparr>\<rparr>)\<rparr>)"
    using t1 a1 a2 a3 nf by blast
  have r2: "reconcileService ?rr emptyCluster =
       (None,
        emptyCluster\<lparr>logged := logged emptyCluster @ [ErrorLog ?e ''failed to set owner reference for service'', Info ''service created''],
          apiCalls := Suc (Suc (apiCalls emptyCluster)),
          writes := writes emptyCluster @ [(VCreate, KService, Namespace (svc_Meta ?svc), Name (svc_Meta ?svc))],
          services := (services emptyCluster)((Namespace (svc_Meta ?svc), Name (svc_Meta ?svc)) \<mapsto>
             ?svc\<lparr>svc_Meta := (svc_Meta ?svc)\<lparr>ResourceVersion := ''1''\<rparr>\<rparr>)\<rparr>)"
    using t1 b1 b2 b3 nf by blast
  have r3: "fst (reconcileService ?rr redisDriftedCluster) = None
      \<and> writes (snd (reconcileService ?rr redisDriftedCluster)) =
          writes redisDriftedCluster @ [(VUpdate, KService, Namespace (svc_Meta ?svc), Name (svc_Meta ?svc))]"
    using t2 b1 b2 c1 nf by blast
  have r4: "fst (reconcileRolloutsServiceAccount testDeps [] testArgoCD emptyCluster) = Failed ?e
      \<and> unchanged emptyCluster (snd (reconcileRolloutsServiceAccount testDeps [] testArgoCD emptyCluster))"
    using t1 d1 d2 nf by blast
  have k1: "Namespace (smr_ObjectMeta ?req) = ''argocd''" "Name (smr_ObjectMeta ?req) = ''argocd-repo-server-metrics''"
    "OwnerReferences (smr_ObjectMeta ?req) = []"
    by (simp_all add: metricsServiceMonitorRequest_def input_defs)
  have k2: "Namespace (sr_ObjectMeta (redisServiceRequest ?rr)) = ''argocd''"
    "Name (sr_ObjectMeta (redisServiceRequest ?rr)) = ''argocd-redis''"
    "OwnerReferences (sr_ObjectMeta (redisServiceRequest ?rr)) = []"
    by (simp_all add: redisServiceRequest_def input_defs)
  have w: "writes emptyCluster = []" "writes redisDriftedCluster = []"
    by (simp_all add: input_defs)
  show ?thesis
    unfolding reconcileMetriscServiceMonitor_def
    using r3 r4 by (simp add: r1 r2 k1 k2 w)
qed

end
